theory Spec2Isabelle
  imports Main "HOL-Library.Word"
begin

unbundle bit_operations_syntax

section \<open>Byte strings, errors and the external capabilities\<close>

text \<open>
  The module \<^verbatim>\<open>ssl_tls_crypto.py\<close> is Python 2: a \<^verbatim>\<open>str\<close> is a sequence of bytes.
  A byte is an \<open>8 word\<close>, \<^verbatim>\<open>ord\<close> is \<open>unat\<close>, \<^verbatim>\<open>chr\<close> is \<open>of_nat\<close> on values below 256
  (and raises \<^verbatim>\<open>ValueError\<close> above), a string literal is \<open>str_bytes ''...''\<close>.
  Counters and lengths are Python integers that only ever count up from zero: \<open>nat\<close>.
\<close>

type_synonym byte = "8 word"
type_synonym bytes = "byte list"

definition str_bytes :: "string \<Rightarrow> bytes" where
  "str_bytes s = map of_char s"

text \<open>Every exception the module can raise is a value; \<open>Inl\<close> carries it.\<close>

datatype error =
    ValueError string
  | RuntimeError string
  | KeyError
  | IndexError
  | StructError
  | AttributeError
  | TypeError
  | NotImplementedError

text \<open>Algorithm handles: the classes the registry stores under \<^verbatim>\<open>"type"\<close>.\<close>

datatype cipher_class = NullCipher | ARC4 | ARC2 | DES | DES3 | AES

datatype hash_class = NullHash | MD5 | SHA | SHA256 | SHA384

text \<open>\<^verbatim>\<open>class CipherMode\<close>: four string constants.\<close>

datatype CipherMode = NULL | STREAM | CBC | GCM

text \<open>
  The library's mode constants (\<^verbatim>\<open>DES.MODE_CBC\<close>, \<^verbatim>\<open>AES.MODE_GCM\<close>, ...), tagged with the
  class they are read from, as the registry writes them.
\<close>

datatype lib_mode = MODE_CBC cipher_class | MODE_GCM cipher_class

text \<open>
  A live cipher object of the library: what it was constructed with
  (\<^verbatim>\<open>cipher_type.new(key, mode=..., IV=... / nonce=...)\<close>), the associated data given to
  \<^verbatim>\<open>update\<close>, and the inputs it has processed so far. The library's answer to a call is a
  function of this object and the call's argument; a fresh object has processed nothing.
\<close>

record cipher_obj =
  c_type :: cipher_class
  c_key :: bytes
  c_mode :: "lib_mode option"
  c_iv :: "bytes option"
  c_aad :: bytes
  c_processed :: "bytes list"

text \<open>
  What the module imports and does not define: PyCrypto's HMAC and ciphers, the sizes its
  classes declare, the default block size of \<^verbatim>\<open>pkcs7.PKCS7Encoder()\<close> and \<^verbatim>\<open>os.urandom\<close>.
  They are parameters of the model. A cipher call may raise inside the library (\<open>Inl\<close>);
  \<^verbatim>\<open>verify\<close> answers \<open>None\<close> when the tag matches and the exception it raises otherwise.
\<close>

record crypto_lib =
  lib_hmac :: "hash_class \<Rightarrow> bytes \<Rightarrow> bytes \<Rightarrow> bytes"
  lib_digest_size :: "hash_class \<Rightarrow> nat"
  lib_block_size :: "cipher_class \<Rightarrow> nat"
  lib_encrypt :: "cipher_obj \<Rightarrow> bytes \<Rightarrow> error + bytes"
  lib_decrypt :: "cipher_obj \<Rightarrow> bytes \<Rightarrow> error + bytes"
  lib_encrypt_and_digest :: "cipher_obj \<Rightarrow> bytes \<Rightarrow> error + (bytes \<times> bytes)"
  lib_verify :: "cipher_obj \<Rightarrow> bytes \<Rightarrow> error option"
  pkcs7_k :: nat
  os_urandom :: "nat \<Rightarrow> bytes"

text \<open>
  The constants of the sibling module \<^verbatim>\<open>ssl_tls\<close> (imported as \<^verbatim>\<open>tls\<close>) that the code
  compares against: \<^verbatim>\<open>tls.TLSVersion.TLS_1_0\<close>, \<^verbatim>\<open>tls.TLSVersion.TLS_1_2\<close>, the keys of
  \<^verbatim>\<open>tls.TLS_VERSIONS\<close> and \<^verbatim>\<open>tls.TLSContentType.APPLICATION_DATA\<close>.
\<close>

record tls_module =
  TLS_1_0 :: nat
  TLS_1_2 :: nat
  TLS_VERSIONS :: "nat list"
  APPLICATION_DATA :: nat

subsection \<open>Python slices and \<^verbatim>\<open>struct\<close>\<close>

text \<open>\<^verbatim>\<open>s[-k:]\<close> for \<open>k \<ge> 0\<close>: \<^verbatim>\<open>s[-0:]\<close> is the whole string.\<close>

definition py_suffix :: "nat \<Rightarrow> 'a list \<Rightarrow> 'a list" where
  "py_suffix k s = (if k = 0 then s else drop (length s - k) s)"

text \<open>\<^verbatim>\<open>s[a:-b]\<close> for \<open>a, b \<ge> 0\<close>: \<^verbatim>\<open>s[a:-0]\<close> is \<^verbatim>\<open>s[a:0]\<close>, empty.\<close>

definition py_between :: "nat \<Rightarrow> nat \<Rightarrow> 'a list \<Rightarrow> 'a list" where
  "py_between a b s = (if b = 0 then [] else drop a (take (length s - b) s))"

text \<open>\<^verbatim>\<open>s[i:i + n]\<close> for \<open>i, n \<ge> 0\<close>.\<close>

definition py_slice :: "nat \<Rightarrow> nat \<Rightarrow> 'a list \<Rightarrow> 'a list" where
  "py_slice i n s = take n (drop i s)"

text \<open>Big-endian encoding in \<open>k\<close> bytes, and decoding.\<close>

definition be_bytes :: "nat \<Rightarrow> nat \<Rightarrow> bytes" where
  "be_bytes k v = map (\<lambda>i. of_nat (v div 256 ^ (k - 1 - i))) [0..<k]"

definition be_nat :: "bytes \<Rightarrow> nat" where
  "be_nat bs = foldl (\<lambda>a b. a * 256 + unat b) 0 bs"

text \<open>
  \<^verbatim>\<open>struct.pack("!Q" / "!I" / "!H" / "!B", v)\<close> raises \<^verbatim>\<open>struct.error\<close> when \<open>v\<close> does not fit;
  \<^verbatim>\<open>struct.unpack("!Q", s)\<close> raises it when \<open>s\<close> is not 8 bytes long.
\<close>

definition struct_pack :: "nat \<Rightarrow> nat \<Rightarrow> error + bytes" where
  "struct_pack k v = (if v < 256 ^ k then Inr (be_bytes k v) else Inl StructError)"

definition struct_unpack_Q :: "bytes \<Rightarrow> error + nat" where
  "struct_unpack_Q s = (if length s = 8 then Inr (be_nat s) else Inl StructError)"

section \<open>\<^verbatim>\<open>class TLSPRF\<close>\<close>

definition TLS_MD_KEY_EXPANSION_CONST :: bytes where
  "TLS_MD_KEY_EXPANSION_CONST = str_bytes ''key expansion''"


record TLSPRF =
  tls_version :: nat
  digest :: hash_class

text \<open>\<^verbatim>\<open>TLSPRF.__init__(tls_version, digest=None)\<close>.\<close>

definition TLSPRF_init :: "tls_module \<Rightarrow> nat \<Rightarrow> hash_class option \<Rightarrow> error + TLSPRF" where
  "TLSPRF_init tls v dg =
     (if v \<notin> set (TLS_VERSIONS tls) then Inl (ValueError ''Unknown TLS version'')
      else if v < TLS_1_2 tls \<and> dg \<noteq> None
        then Inl (ValueError ''PRF digest can be set only for TLS versions 1.2 and above'')
      else (case dg of
              None \<Rightarrow> Inr \<lparr>tls_version = v, digest = SHA256\<rparr>
            | Some d \<Rightarrow> Inr \<lparr>tls_version = v, digest = d\<rparr>))"

text \<open>
  The \<^verbatim>\<open>while\<close> loop of \<^verbatim>\<open>TLSPRF._get_bytes\<close>. \<open>hm\<close> is
  \<^verbatim>\<open>HMAC.new(key=key, msg=..., digestmod=digest).digest()\<close> as a function of the message,
  \<open>lr\<close> is \<^verbatim>\<open>label + random\<close>. The loop runs until enough bytes are collected; it does not
  return when the digests are empty, which is the value \<open>None\<close>.
\<close>

partial_function (option) get_bytes_while ::
  "(bytes \<Rightarrow> bytes) \<Rightarrow> bytes \<Rightarrow> nat \<Rightarrow> bytes \<Rightarrow> bytes \<Rightarrow> bytes option" where
  "get_bytes_while hm lr num_bytes bytes' block =
     (if length bytes' < num_bytes
      then get_bytes_while hm lr num_bytes (bytes' @ hm (block @ lr)) (hm block)
      else Some (take num_bytes bytes'))"

declare get_bytes_while.simps [code]

text \<open>\<^verbatim>\<open>TLSPRF._get_bytes(digest, key, label, random, num_bytes)\<close>.\<close>

definition TLSPRF__get_bytes ::
  "crypto_lib \<Rightarrow> hash_class \<Rightarrow> bytes \<Rightarrow> bytes \<Rightarrow> bytes \<Rightarrow> nat \<Rightarrow> bytes option" where
  "TLSPRF__get_bytes L dg key label random num_bytes =
     get_bytes_while (lib_hmac L dg key) (label @ random) num_bytes []
       (lib_hmac L dg key (label @ random))"

text \<open>
  The \<^verbatim>\<open>for i in range(num_bytes)\<close> loop of \<^verbatim>\<open>get_bytes\<close>:
  \<^verbatim>\<open>chr(ord(md5_bytes[i]) ^ ord(sha1_bytes[i]))\<close>, an \<^verbatim>\<open>IndexError\<close> where an index is out of
  range.
\<close>

fun xor_range :: "bytes \<Rightarrow> bytes \<Rightarrow> nat list \<Rightarrow> error + bytes" where
  "xor_range md5_bytes sha1_bytes [] = Inr []"
| "xor_range md5_bytes sha1_bytes (i # is) =
     (if i < length md5_bytes \<and> i < length sha1_bytes
      then (case xor_range md5_bytes sha1_bytes is of
              Inl e \<Rightarrow> Inl e
            | Inr xored \<Rightarrow> Inr ((md5_bytes ! i XOR sha1_bytes ! i) # xored))
      else Inl IndexError)"

text \<open>
  \<^verbatim>\<open>TLSPRF.get_bytes(key, label, random, num_bytes)\<close>. The outer \<open>option\<close> is \<open>None\<close> when
  an expansion loop does not return.
\<close>

definition TLSPRF_get_bytes ::
  "tls_module \<Rightarrow> crypto_lib \<Rightarrow> TLSPRF \<Rightarrow> bytes \<Rightarrow> bytes \<Rightarrow> bytes \<Rightarrow> nat \<Rightarrow> (error + bytes) option"
  where
  "TLSPRF_get_bytes tls L self key label random num_bytes =
     (if tls_version self \<ge> TLS_1_2 tls
      then map_option Inr (TLSPRF__get_bytes L (digest self) key label random num_bytes)
      else
        (let key_len = (length key + 1) div 2;
             key_left = take key_len key;
             key_right = py_suffix key_len key
         in case TLSPRF__get_bytes L MD5 key_left label random num_bytes of
              None \<Rightarrow> None
            | Some md5_bytes \<Rightarrow>
                (case TLSPRF__get_bytes L SHA key_right label random num_bytes of
                   None \<Rightarrow> None
                 | Some sha1_bytes \<Rightarrow> Some (xor_range md5_bytes sha1_bytes [0..<num_bytes]))))"

section \<open>The cipher-suite registry\<close>

text \<open>
  \<^verbatim>\<open>"key_exchange"\<close>: the class under \<^verbatim>\<open>"type"\<close> and \<^verbatim>\<open>"sig"\<close> (\<^verbatim>\<open>RSA\<close>, \<^verbatim>\<open>DSA\<close> of the
  library; \<^verbatim>\<open>DHE\<close>, \<^verbatim>\<open>ECDHE\<close>, \<^verbatim>\<open>ECDSA\<close> of the module) and the constant of
  \<^verbatim>\<open>tls.TLSKexNames\<close> under \<^verbatim>\<open>"name"\<close>.
\<close>

datatype pk_class = RSA | DSA | DHE | ECDHE | ECDSA

datatype TLSKexNames = Kex_RSA | Kex_DHE | Kex_ECDHE

record key_exchange_entry =
  kex_class :: pk_class
  kex_name :: TLSKexNames
  kex_sig :: "pk_class option"

record cipher_entry =
  cipher_class :: cipher_class
  cipher_name :: string
  key_len :: nat
  mode :: "lib_mode option"
  mode_name :: CipherMode

record hash_entry =
  hash_class :: hash_class
  hash_name :: string

record prf_entry =
  prf_class :: hash_class
  prf_name :: string

text \<open>
  One value of the dictionary \<^verbatim>\<open>TLSSecurityParameters.crypto_params\<close>. \<open>suite_name\<close> is
  the attribute of \<^verbatim>\<open>tls.TLSCipherSuite\<close> the line is keyed with; \<open>prf_entry\<close> is the
  optional \<^verbatim>\<open>"prf"\<close> item.
\<close>

record suite_descriptor =
  suite_name :: string
  export :: bool
  key_exchange :: key_exchange_entry
  cipher :: cipher_entry
  hash :: hash_entry
  prf_entry :: "prf_entry option"

text \<open>
  \<^verbatim>\<open>TLSSecurityParameters.crypto_params\<close>, in the order of the source. The key
  \<^verbatim>\<open>tls.TLSCipherSuite.X\<close> is an integer declared in \<^verbatim>\<open>ssl_tls\<close>; each line reads the
  suite's display name from \<^verbatim>\<open>tls.TLS_CIPHER_SUITES[0x....]\<close>, and that index is the key
  here. The 47 keys are distinct.
\<close>

definition crypto_params :: "(nat \<times> suite_descriptor) list" where
  "crypto_params = [
    (0x0000, \<lparr>suite_name = ''NULL_WITH_NULL_NULL'', export = False,
       key_exchange = \<lparr>kex_class = RSA, kex_name = Kex_RSA, kex_sig = None\<rparr>,
       cipher = \<lparr>cipher_class = NullCipher, cipher_name = ''Null'', key_len = 0, mode = None, mode_name = CBC\<rparr>,
       hash = \<lparr>hash_class = NullHash, hash_name = ''Null''\<rparr>, prf_entry = None\<rparr>),
    (0x0001, \<lparr>suite_name = ''RSA_WITH_NULL_MD5'', export = False,
       key_exchange = \<lparr>kex_class = RSA, kex_name = Kex_RSA, kex_sig = None\<rparr>,
       cipher = \<lparr>cipher_class = NullCipher, cipher_name = ''Null'', key_len = 0, mode = None, mode_name = CBC\<rparr>,
       hash = \<lparr>hash_class = MD5, hash_name = ''MD5''\<rparr>, prf_entry = None\<rparr>),
    (0x0002, \<lparr>suite_name = ''RSA_WITH_NULL_SHA'', export = False,
       key_exchange = \<lparr>kex_class = RSA, kex_name = Kex_RSA, kex_sig = None\<rparr>,
       cipher = \<lparr>cipher_class = NullCipher, cipher_name = ''Null'', key_len = 0, mode = None, mode_name = CBC\<rparr>,
       hash = \<lparr>hash_class = SHA, hash_name = ''SHA''\<rparr>, prf_entry = None\<rparr>),
    (0x0003, \<lparr>suite_name = ''RSA_EXPORT_WITH_RC4_40_MD5'', export = True,
       key_exchange = \<lparr>kex_class = RSA, kex_name = Kex_RSA, kex_sig = None\<rparr>,
       cipher = \<lparr>cipher_class = ARC4, cipher_name = ''RC4'', key_len = 5, mode = None, mode_name = STREAM\<rparr>,
       hash = \<lparr>hash_class = MD5, hash_name = ''MD5''\<rparr>, prf_entry = None\<rparr>),
    (0x0004, \<lparr>suite_name = ''RSA_WITH_RC4_128_MD5'', export = False,
       key_exchange = \<lparr>kex_class = RSA, kex_name = Kex_RSA, kex_sig = None\<rparr>,
       cipher = \<lparr>cipher_class = ARC4, cipher_name = ''RC4'', key_len = 16, mode = None, mode_name = STREAM\<rparr>,
       hash = \<lparr>hash_class = MD5, hash_name = ''MD5''\<rparr>, prf_entry = None\<rparr>),
    (0x0005, \<lparr>suite_name = ''RSA_WITH_RC4_128_SHA'', export = False,
       key_exchange = \<lparr>kex_class = RSA, kex_name = Kex_RSA, kex_sig = None\<rparr>,
       cipher = \<lparr>cipher_class = ARC4, cipher_name = ''RC4'', key_len = 16, mode = None, mode_name = STREAM\<rparr>,
       hash = \<lparr>hash_class = SHA, hash_name = ''SHA''\<rparr>, prf_entry = None\<rparr>),
    (0x0006, \<lparr>suite_name = ''RSA_EXPORT_WITH_RC2_CBC_40_MD5'', export = True,
       key_exchange = \<lparr>kex_class = RSA, kex_name = Kex_RSA, kex_sig = None\<rparr>,
       cipher = \<lparr>cipher_class = ARC2, cipher_name = ''RC2'', key_len = 5, mode = Some (MODE_CBC ARC2), mode_name = CBC\<rparr>,
       hash = \<lparr>hash_class = MD5, hash_name = ''MD5''\<rparr>, prf_entry = None\<rparr>),
    (0x0008, \<lparr>suite_name = ''RSA_EXPORT_WITH_DES40_CBC_SHA'', export = True,
       key_exchange = \<lparr>kex_class = RSA, kex_name = Kex_RSA, kex_sig = None\<rparr>,
       cipher = \<lparr>cipher_class = DES, cipher_name = ''DES'', key_len = 5, mode = Some (MODE_CBC DES), mode_name = CBC\<rparr>,
       hash = \<lparr>hash_class = SHA, hash_name = ''SHA''\<rparr>, prf_entry = None\<rparr>),
    (0x0009, \<lparr>suite_name = ''RSA_WITH_DES_CBC_SHA'', export = False,
       key_exchange = \<lparr>kex_class = RSA, kex_name = Kex_RSA, kex_sig = None\<rparr>,
       cipher = \<lparr>cipher_class = DES, cipher_name = ''DES'', key_len = 8, mode = Some (MODE_CBC DES), mode_name = CBC\<rparr>,
       hash = \<lparr>hash_class = SHA, hash_name = ''SHA''\<rparr>, prf_entry = None\<rparr>),
    (0x000a, \<lparr>suite_name = ''RSA_WITH_3DES_EDE_CBC_SHA'', export = False,
       key_exchange = \<lparr>kex_class = RSA, kex_name = Kex_RSA, kex_sig = None\<rparr>,
       cipher = \<lparr>cipher_class = DES3, cipher_name = ''DES3'', key_len = 24, mode = Some (MODE_CBC DES3), mode_name = CBC\<rparr>,
       hash = \<lparr>hash_class = SHA, hash_name = ''SHA''\<rparr>, prf_entry = None\<rparr>),
    (0x002f, \<lparr>suite_name = ''RSA_WITH_AES_128_CBC_SHA'', export = False,
       key_exchange = \<lparr>kex_class = RSA, kex_name = Kex_RSA, kex_sig = None\<rparr>,
       cipher = \<lparr>cipher_class = AES, cipher_name = ''AES'', key_len = 16, mode = Some (MODE_CBC AES), mode_name = CBC\<rparr>,
       hash = \<lparr>hash_class = SHA, hash_name = ''SHA''\<rparr>, prf_entry = None\<rparr>),
    (0x0035, \<lparr>suite_name = ''RSA_WITH_AES_256_CBC_SHA'', export = False,
       key_exchange = \<lparr>kex_class = RSA, kex_name = Kex_RSA, kex_sig = None\<rparr>,
       cipher = \<lparr>cipher_class = AES, cipher_name = ''AES'', key_len = 32, mode = Some (MODE_CBC AES), mode_name = CBC\<rparr>,
       hash = \<lparr>hash_class = SHA, hash_name = ''SHA''\<rparr>, prf_entry = None\<rparr>),
    (0x003b, \<lparr>suite_name = ''RSA_WITH_NULL_SHA256'', export = False,
       key_exchange = \<lparr>kex_class = RSA, kex_name = Kex_RSA, kex_sig = None\<rparr>,
       cipher = \<lparr>cipher_class = NullCipher, cipher_name = ''Null'', key_len = 0, mode = None, mode_name = CBC\<rparr>,
       hash = \<lparr>hash_class = SHA256, hash_name = ''SHA256''\<rparr>, prf_entry = None\<rparr>),
    (0x0060, \<lparr>suite_name = ''RSA_EXPORT1024_WITH_RC4_56_MD5'', export = True,
       key_exchange = \<lparr>kex_class = RSA, kex_name = Kex_RSA, kex_sig = None\<rparr>,
       cipher = \<lparr>cipher_class = ARC4, cipher_name = ''RC4'', key_len = 8, mode = None, mode_name = STREAM\<rparr>,
       hash = \<lparr>hash_class = MD5, hash_name = ''MD5''\<rparr>, prf_entry = None\<rparr>),
    (0x0061, \<lparr>suite_name = ''RSA_EXPORT1024_WITH_RC2_CBC_56_MD5'', export = True,
       key_exchange = \<lparr>kex_class = RSA, kex_name = Kex_RSA, kex_sig = None\<rparr>,
       cipher = \<lparr>cipher_class = ARC2, cipher_name = ''RC2'', key_len = 8, mode = Some (MODE_CBC ARC2), mode_name = CBC\<rparr>,
       hash = \<lparr>hash_class = MD5, hash_name = ''MD5''\<rparr>, prf_entry = None\<rparr>),
    (0x0062, \<lparr>suite_name = ''RSA_EXPORT1024_WITH_DES_CBC_SHA'', export = True,
       key_exchange = \<lparr>kex_class = RSA, kex_name = Kex_RSA, kex_sig = None\<rparr>,
       cipher = \<lparr>cipher_class = DES, cipher_name = ''DES'', key_len = 8, mode = Some (MODE_CBC DES), mode_name = CBC\<rparr>,
       hash = \<lparr>hash_class = SHA, hash_name = ''SHA''\<rparr>, prf_entry = None\<rparr>),
    (0x0064, \<lparr>suite_name = ''RSA_EXPORT1024_WITH_RC4_56_SHA'', export = True,
       key_exchange = \<lparr>kex_class = RSA, kex_name = Kex_RSA, kex_sig = None\<rparr>,
       cipher = \<lparr>cipher_class = ARC4, cipher_name = ''RC4'', key_len = 8, mode = None, mode_name = STREAM\<rparr>,
       hash = \<lparr>hash_class = SHA, hash_name = ''SHA''\<rparr>, prf_entry = None\<rparr>),
    (0x0011, \<lparr>suite_name = ''DHE_DSS_EXPORT_WITH_DES40_CBC_SHA'', export = True,
       key_exchange = \<lparr>kex_class = DHE, kex_name = Kex_DHE, kex_sig = Some DSA\<rparr>,
       cipher = \<lparr>cipher_class = DES, cipher_name = ''DES'', key_len = 5, mode = Some (MODE_CBC DES), mode_name = CBC\<rparr>,
       hash = \<lparr>hash_class = SHA, hash_name = ''SHA''\<rparr>, prf_entry = None\<rparr>),
    (0x0012, \<lparr>suite_name = ''DHE_DSS_WITH_DES_CBC_SHA'', export = False,
       key_exchange = \<lparr>kex_class = DHE, kex_name = Kex_DHE, kex_sig = Some DSA\<rparr>,
       cipher = \<lparr>cipher_class = DES, cipher_name = ''DES'', key_len = 8, mode = Some (MODE_CBC DES), mode_name = CBC\<rparr>,
       hash = \<lparr>hash_class = SHA, hash_name = ''SHA''\<rparr>, prf_entry = None\<rparr>),
    (0x0013, \<lparr>suite_name = ''DHE_DSS_WITH_3DES_EDE_CBC_SHA'', export = False,
       key_exchange = \<lparr>kex_class = DHE, kex_name = Kex_DHE, kex_sig = Some DSA\<rparr>,
       cipher = \<lparr>cipher_class = DES3, cipher_name = ''DES3'', key_len = 24, mode = Some (MODE_CBC DES3), mode_name = CBC\<rparr>,
       hash = \<lparr>hash_class = SHA, hash_name = ''SHA''\<rparr>, prf_entry = None\<rparr>),
    (0x0014, \<lparr>suite_name = ''DHE_RSA_EXPORT_WITH_DES40_CBC_SHA'', export = True,
       key_exchange = \<lparr>kex_class = DHE, kex_name = Kex_DHE, kex_sig = Some RSA\<rparr>,
       cipher = \<lparr>cipher_class = DES, cipher_name = ''DES'', key_len = 5, mode = Some (MODE_CBC DES), mode_name = CBC\<rparr>,
       hash = \<lparr>hash_class = SHA, hash_name = ''SHA''\<rparr>, prf_entry = None\<rparr>),
    (0x0015, \<lparr>suite_name = ''DHE_RSA_WITH_DES_CBC_SHA'', export = False,
       key_exchange = \<lparr>kex_class = DHE, kex_name = Kex_DHE, kex_sig = Some RSA\<rparr>,
       cipher = \<lparr>cipher_class = DES, cipher_name = ''DES'', key_len = 8, mode = Some (MODE_CBC DES), mode_name = CBC\<rparr>,
       hash = \<lparr>hash_class = SHA, hash_name = ''SHA''\<rparr>, prf_entry = None\<rparr>),
    (0x0016, \<lparr>suite_name = ''DHE_RSA_WITH_3DES_EDE_CBC_SHA'', export = False,
       key_exchange = \<lparr>kex_class = DHE, kex_name = Kex_DHE, kex_sig = Some RSA\<rparr>,
       cipher = \<lparr>cipher_class = DES3, cipher_name = ''DES3'', key_len = 24, mode = Some (MODE_CBC DES3), mode_name = CBC\<rparr>,
       hash = \<lparr>hash_class = SHA, hash_name = ''SHA''\<rparr>, prf_entry = None\<rparr>),
    (0x0032, \<lparr>suite_name = ''DHE_DSS_WITH_AES_128_CBC_SHA'', export = False,
       key_exchange = \<lparr>kex_class = DHE, kex_name = Kex_DHE, kex_sig = Some DSA\<rparr>,
       cipher = \<lparr>cipher_class = AES, cipher_name = ''AES'', key_len = 16, mode = Some (MODE_CBC AES), mode_name = CBC\<rparr>,
       hash = \<lparr>hash_class = SHA, hash_name = ''SHA''\<rparr>, prf_entry = None\<rparr>),
    (0x0033, \<lparr>suite_name = ''DHE_RSA_WITH_AES_128_CBC_SHA'', export = False,
       key_exchange = \<lparr>kex_class = DHE, kex_name = Kex_DHE, kex_sig = Some RSA\<rparr>,
       cipher = \<lparr>cipher_class = AES, cipher_name = ''AES'', key_len = 16, mode = Some (MODE_CBC AES), mode_name = CBC\<rparr>,
       hash = \<lparr>hash_class = SHA, hash_name = ''SHA''\<rparr>, prf_entry = None\<rparr>),
    (0x0038, \<lparr>suite_name = ''DHE_DSS_WITH_AES_256_CBC_SHA'', export = False,
       key_exchange = \<lparr>kex_class = DHE, kex_name = Kex_DHE, kex_sig = Some DSA\<rparr>,
       cipher = \<lparr>cipher_class = AES, cipher_name = ''AES'', key_len = 32, mode = Some (MODE_CBC AES), mode_name = CBC\<rparr>,
       hash = \<lparr>hash_class = SHA, hash_name = ''SHA''\<rparr>, prf_entry = None\<rparr>),
    (0x0039, \<lparr>suite_name = ''DHE_RSA_WITH_AES_256_CBC_SHA'', export = False,
       key_exchange = \<lparr>kex_class = DHE, kex_name = Kex_DHE, kex_sig = Some RSA\<rparr>,
       cipher = \<lparr>cipher_class = AES, cipher_name = ''AES'', key_len = 32, mode = Some (MODE_CBC AES), mode_name = CBC\<rparr>,
       hash = \<lparr>hash_class = SHA, hash_name = ''SHA''\<rparr>, prf_entry = None\<rparr>),
    (0x0063, \<lparr>suite_name = ''DHE_DSS_EXPORT1024_WITH_DES_CBC_SHA'', export = True,
       key_exchange = \<lparr>kex_class = DHE, kex_name = Kex_DHE, kex_sig = Some DSA\<rparr>,
       cipher = \<lparr>cipher_class = DES, cipher_name = ''DES'', key_len = 8, mode = Some (MODE_CBC DES), mode_name = CBC\<rparr>,
       hash = \<lparr>hash_class = SHA, hash_name = ''SHA''\<rparr>, prf_entry = None\<rparr>),
    (0x0065, \<lparr>suite_name = ''DHE_DSS_EXPORT1024_WITH_RC4_56_SHA'', export = True,
       key_exchange = \<lparr>kex_class = DHE, kex_name = Kex_DHE, kex_sig = Some DSA\<rparr>,
       cipher = \<lparr>cipher_class = ARC4, cipher_name = ''RC4'', key_len = 8, mode = None, mode_name = STREAM\<rparr>,
       hash = \<lparr>hash_class = SHA, hash_name = ''SHA''\<rparr>, prf_entry = None\<rparr>),
    (0x0066, \<lparr>suite_name = ''DHE_DSS_WITH_RC4_128_SHA'', export = False,
       key_exchange = \<lparr>kex_class = DHE, kex_name = Kex_DHE, kex_sig = Some DSA\<rparr>,
       cipher = \<lparr>cipher_class = ARC4, cipher_name = ''RC4'', key_len = 16, mode = None, mode_name = STREAM\<rparr>,
       hash = \<lparr>hash_class = SHA, hash_name = ''SHA''\<rparr>, prf_entry = None\<rparr>),
    (0xc006, \<lparr>suite_name = ''ECDHE_ECDSA_WITH_NULL_SHA'', export = False,
       key_exchange = \<lparr>kex_class = ECDHE, kex_name = Kex_ECDHE, kex_sig = Some ECDSA\<rparr>,
       cipher = \<lparr>cipher_class = NullCipher, cipher_name = ''Null'', key_len = 0, mode = None, mode_name = CBC\<rparr>,
       hash = \<lparr>hash_class = SHA, hash_name = ''SHA''\<rparr>, prf_entry = None\<rparr>),
    (0xc007, \<lparr>suite_name = ''ECDHE_ECDSA_WITH_RC4_128_SHA'', export = False,
       key_exchange = \<lparr>kex_class = ECDHE, kex_name = Kex_ECDHE, kex_sig = Some ECDSA\<rparr>,
       cipher = \<lparr>cipher_class = ARC4, cipher_name = ''RC4'', key_len = 16, mode = None, mode_name = STREAM\<rparr>,
       hash = \<lparr>hash_class = SHA, hash_name = ''SHA''\<rparr>, prf_entry = None\<rparr>),
    (0xc008, \<lparr>suite_name = ''ECDHE_ECDSA_WITH_3DES_EDE_CBC_SHA'', export = False,
       key_exchange = \<lparr>kex_class = ECDHE, kex_name = Kex_ECDHE, kex_sig = Some ECDSA\<rparr>,
       cipher = \<lparr>cipher_class = DES3, cipher_name = ''DES3'', key_len = 8, mode = Some (MODE_CBC DES), mode_name = CBC\<rparr>,
       hash = \<lparr>hash_class = SHA, hash_name = ''SHA''\<rparr>, prf_entry = None\<rparr>),
    (0xc009, \<lparr>suite_name = ''ECDHE_ECDSA_WITH_AES_128_CBC_SHA'', export = False,
       key_exchange = \<lparr>kex_class = ECDHE, kex_name = Kex_ECDHE, kex_sig = Some ECDSA\<rparr>,
       cipher = \<lparr>cipher_class = AES, cipher_name = ''AES'', key_len = 16, mode = Some (MODE_CBC AES), mode_name = CBC\<rparr>,
       hash = \<lparr>hash_class = SHA, hash_name = ''SHA''\<rparr>, prf_entry = None\<rparr>),
    (0xc00a, \<lparr>suite_name = ''ECDHE_ECDSA_WITH_AES_256_CBC_SHA'', export = False,
       key_exchange = \<lparr>kex_class = ECDHE, kex_name = Kex_ECDHE, kex_sig = Some ECDSA\<rparr>,
       cipher = \<lparr>cipher_class = AES, cipher_name = ''AES'', key_len = 32, mode = Some (MODE_CBC AES), mode_name = CBC\<rparr>,
       hash = \<lparr>hash_class = SHA, hash_name = ''SHA''\<rparr>, prf_entry = None\<rparr>),
    (0xc010, \<lparr>suite_name = ''ECDHE_RSA_WITH_NULL_SHA'', export = False,
       key_exchange = \<lparr>kex_class = ECDHE, kex_name = Kex_ECDHE, kex_sig = Some RSA\<rparr>,
       cipher = \<lparr>cipher_class = NullCipher, cipher_name = ''Null'', key_len = 0, mode = None, mode_name = CBC\<rparr>,
       hash = \<lparr>hash_class = SHA, hash_name = ''SHA''\<rparr>, prf_entry = None\<rparr>),
    (0xc011, \<lparr>suite_name = ''ECDHE_RSA_WITH_RC4_128_SHA'', export = False,
       key_exchange = \<lparr>kex_class = ECDHE, kex_name = Kex_ECDHE, kex_sig = Some RSA\<rparr>,
       cipher = \<lparr>cipher_class = ARC4, cipher_name = ''RC4'', key_len = 16, mode = None, mode_name = STREAM\<rparr>,
       hash = \<lparr>hash_class = SHA, hash_name = ''SHA''\<rparr>, prf_entry = None\<rparr>),
    (0xc012, \<lparr>suite_name = ''ECDHE_RSA_WITH_3DES_EDE_CBC_SHA'', export = False,
       key_exchange = \<lparr>kex_class = ECDHE, kex_name = Kex_ECDHE, kex_sig = Some RSA\<rparr>,
       cipher = \<lparr>cipher_class = DES3, cipher_name = ''DES3'', key_len = 8, mode = Some (MODE_CBC DES), mode_name = CBC\<rparr>,
       hash = \<lparr>hash_class = SHA, hash_name = ''SHA''\<rparr>, prf_entry = None\<rparr>),
    (0xc013, \<lparr>suite_name = ''ECDHE_RSA_WITH_AES_128_CBC_SHA'', export = False,
       key_exchange = \<lparr>kex_class = ECDHE, kex_name = Kex_ECDHE, kex_sig = Some RSA\<rparr>,
       cipher = \<lparr>cipher_class = AES, cipher_name = ''AES'', key_len = 16, mode = Some (MODE_CBC AES), mode_name = CBC\<rparr>,
       hash = \<lparr>hash_class = SHA, hash_name = ''SHA''\<rparr>, prf_entry = None\<rparr>),
    (0xc014, \<lparr>suite_name = ''ECDHE_RSA_WITH_AES_256_CBC_SHA'', export = False,
       key_exchange = \<lparr>kex_class = ECDHE, kex_name = Kex_ECDHE, kex_sig = Some RSA\<rparr>,
       cipher = \<lparr>cipher_class = AES, cipher_name = ''AES'', key_len = 32, mode = Some (MODE_CBC AES), mode_name = CBC\<rparr>,
       hash = \<lparr>hash_class = SHA, hash_name = ''SHA''\<rparr>, prf_entry = None\<rparr>),
    (0xc023, \<lparr>suite_name = ''ECDHE_ECDSA_WITH_AES_128_CBC_SHA256'', export = False,
       key_exchange = \<lparr>kex_class = ECDHE, kex_name = Kex_ECDHE, kex_sig = Some ECDSA\<rparr>,
       cipher = \<lparr>cipher_class = AES, cipher_name = ''AES'', key_len = 16, mode = Some (MODE_CBC AES), mode_name = CBC\<rparr>,
       hash = \<lparr>hash_class = SHA256, hash_name = ''SHA256''\<rparr>, prf_entry = None\<rparr>),
    (0xc024, \<lparr>suite_name = ''ECDHE_ECDSA_WITH_AES_256_CBC_SHA384'', export = False,
       key_exchange = \<lparr>kex_class = ECDHE, kex_name = Kex_ECDHE, kex_sig = Some ECDSA\<rparr>,
       cipher = \<lparr>cipher_class = AES, cipher_name = ''AES'', key_len = 32, mode = Some (MODE_CBC AES), mode_name = CBC\<rparr>,
       hash = \<lparr>hash_class = SHA384, hash_name = ''SHA384''\<rparr>, prf_entry = None\<rparr>),
    (0xc027, \<lparr>suite_name = ''ECDHE_RSA_WITH_AES_128_CBC_SHA256'', export = False,
       key_exchange = \<lparr>kex_class = ECDHE, kex_name = Kex_ECDHE, kex_sig = Some RSA\<rparr>,
       cipher = \<lparr>cipher_class = AES, cipher_name = ''AES'', key_len = 16, mode = Some (MODE_CBC AES), mode_name = CBC\<rparr>,
       hash = \<lparr>hash_class = SHA256, hash_name = ''SHA256''\<rparr>, prf_entry = None\<rparr>),
    (0xc028, \<lparr>suite_name = ''ECDHE_RSA_WITH_AES_256_CBC_SHA384'', export = False,
       key_exchange = \<lparr>kex_class = ECDHE, kex_name = Kex_ECDHE, kex_sig = Some RSA\<rparr>,
       cipher = \<lparr>cipher_class = AES, cipher_name = ''AES'', key_len = 16, mode = Some (MODE_CBC AES), mode_name = CBC\<rparr>,
       hash = \<lparr>hash_class = SHA384, hash_name = ''SHA384''\<rparr>, prf_entry = None\<rparr>),
    (0xc02b, \<lparr>suite_name = ''ECDHE_ECDSA_WITH_AES_128_GCM_SHA256'', export = False,
       key_exchange = \<lparr>kex_class = ECDHE, kex_name = Kex_ECDHE, kex_sig = Some ECDSA\<rparr>,
       cipher = \<lparr>cipher_class = AES, cipher_name = ''AES'', key_len = 16, mode = Some (MODE_GCM AES), mode_name = GCM\<rparr>,
       hash = \<lparr>hash_class = NullHash, hash_name = ''NULL''\<rparr>, prf_entry = Some \<lparr>prf_class = SHA256, prf_name = ''SHA256''\<rparr>\<rparr>),
    (0xc02c, \<lparr>suite_name = ''ECDHE_ECDSA_WITH_AES_256_GCM_SHA384'', export = False,
       key_exchange = \<lparr>kex_class = ECDHE, kex_name = Kex_ECDHE, kex_sig = Some ECDSA\<rparr>,
       cipher = \<lparr>cipher_class = AES, cipher_name = ''AES'', key_len = 32, mode = Some (MODE_GCM AES), mode_name = GCM\<rparr>,
       hash = \<lparr>hash_class = NullHash, hash_name = ''NULL''\<rparr>, prf_entry = Some \<lparr>prf_class = SHA384, prf_name = ''SHA384''\<rparr>\<rparr>),
    (0xc030, \<lparr>suite_name = ''ECDHE_RSA_WITH_AES_256_GCM_SHA384'', export = False,
       key_exchange = \<lparr>kex_class = ECDHE, kex_name = Kex_ECDHE, kex_sig = Some RSA\<rparr>,
       cipher = \<lparr>cipher_class = AES, cipher_name = ''AES'', key_len = 32, mode = Some (MODE_GCM AES), mode_name = GCM\<rparr>,
       hash = \<lparr>hash_class = NullHash, hash_name = ''NULL''\<rparr>, prf_entry = Some \<lparr>prf_class = SHA384, prf_name = ''SHA384''\<rparr>\<rparr>)]"

text \<open>\<^verbatim>\<open>TLSCompressionParameters.comp_params\<close>, keyed the same way.\<close>

datatype compression_class = NullCompression | zlib

record comp_entry =
  comp_name :: nat
  comp_class :: compression_class

definition comp_params :: "(nat \<times> comp_entry) list" where
  "comp_params = [
    (0x00, \<lparr>comp_name = 0x00, comp_class = NullCompression\<rparr>),
    (0x01, \<lparr>comp_name = 0x01, comp_class = zlib\<rparr>)]"

text \<open>
  \<^verbatim>\<open>block_size\<close> and \<^verbatim>\<open>digest_size\<close> of a class: \<^verbatim>\<open>NullCipher\<close> and \<^verbatim>\<open>NullHash\<close> declare
  0 in this module, the others are the library's.
\<close>

definition class_block_size :: "crypto_lib \<Rightarrow> cipher_class \<Rightarrow> nat" where
  "class_block_size L c = (if c = NullCipher then 0 else lib_block_size L c)"

definition class_digest_size :: "crypto_lib \<Rightarrow> hash_class \<Rightarrow> nat" where
  "class_digest_size L h = (if h = NullHash then 0 else lib_digest_size L h)"

section \<open>\<^verbatim>\<open>class TLSSecurityParameters\<close>\<close>

text \<open>
  The symmetric key store of \<^verbatim>\<open>ssl_tls_keystore\<close>, a value object: \<open>ks_empty\<close> tells an
  \<^verbatim>\<open>EmptySymKeyStore\<close> from a \<^verbatim>\<open>CipherKeyStore(crypto_param, key, mac_key, iv)\<close>, whose
  attributes \<^verbatim>\<open>key\<close>, \<^verbatim>\<open>hmac\<close> and \<^verbatim>\<open>iv\<close> the module reads.
\<close>

record SymKeyStore =
  ks_empty :: bool
  key :: bytes
  hmac :: bytes
  iv :: bytes

definition EmptySymKeyStore :: SymKeyStore where
  "EmptySymKeyStore = \<lparr>ks_empty = True, key = [], hmac = [], iv = []\<rparr>"

definition CipherKeyStore :: "suite_descriptor \<Rightarrow> bytes \<Rightarrow> bytes \<Rightarrow> bytes \<Rightarrow> SymKeyStore" where
  "CipherKeyStore crypto_param k mac_key i = \<lparr>ks_empty = False, key = k, hmac = mac_key, iv = i\<rparr>"

record TLSSecurityParameters =
  negotiated_crypto_param :: suite_descriptor
  client_random :: bytes
  server_random :: bytes
  block_size :: nat
  cipher_mode :: "lib_mode option"
  cipher_mode_name :: CipherMode
  cipher_type :: cipher_class
  hash_type :: hash_class
  sp_prf :: TLSPRF
  pms :: bytes
  master_secret :: bytes
  client_keystore :: SymKeyStore
  server_keystore :: SymKeyStore
  mac_key_length :: nat
  iv_length :: nat
  cipher_key_length :: nat

text \<open>\<^verbatim>\<open>__set_sec_param_sizes\<close>.\<close>

definition set_sec_param_sizes ::
  "crypto_lib \<Rightarrow> TLSSecurityParameters \<Rightarrow> error + TLSSecurityParameters" where
  "set_sec_param_sizes L self =
     (let sized =
        (if cipher_mode_name self = GCM
           then Inr (self\<lparr>mac_key_length := 0, iv_length := 4\<rparr>)
         else if cipher_mode_name self = CBC
           then Inr (self\<lparr>mac_key_length :=
                            class_digest_size L (hash_class (hash (negotiated_crypto_param self))),
                          iv_length := block_size self\<rparr>)
         else if cipher_mode_name self = STREAM
           then Inr (self\<lparr>mac_key_length :=
                            class_digest_size L (hash_class (hash (negotiated_crypto_param self))),
                          iv_length := 0\<rparr>)
         else Inl (ValueError ''Unknown cipher mode''))
      in case sized of
           Inl e \<Rightarrow> Inl e
         | Inr self' \<Rightarrow>
             Inr (self'\<lparr>cipher_key_length := key_len (cipher (negotiated_crypto_param self'))\<rparr>))"

text \<open>
  \<^verbatim>\<open>TLSSecurityParameters.__init__(prf, cipher_suite, client_random, server_random)\<close>. The
  three size attributes do not exist before \<^verbatim>\<open>__set_sec_param_sizes\<close> assigns them; the
  record holds 0 until then.
\<close>

definition TLSSecurityParameters_init ::
  "crypto_lib \<Rightarrow> TLSPRF \<Rightarrow> nat \<Rightarrow> bytes \<Rightarrow> bytes \<Rightarrow> error + TLSSecurityParameters" where
  "TLSSecurityParameters_init L prf' cipher_suite client_random' server_random' =
     (case map_of crypto_params cipher_suite of
        None \<Rightarrow> Inl (RuntimeError ''Cipher not supported'')
      | Some param \<Rightarrow>
          if length client_random' \<noteq> 32 then Inl (ValueError ''Client random must be 32 bytes'')
          else if length server_random' \<noteq> 32
            then Inl (ValueError ''Server random must be 32 bytes'')
          else set_sec_param_sizes L
            \<lparr>negotiated_crypto_param = param,
             client_random = client_random',
             server_random = server_random',
             block_size = class_block_size L (cipher_class (cipher param)),
             cipher_mode = mode (cipher param),
             cipher_mode_name = mode_name (cipher param),
             cipher_type = cipher_class (cipher param),
             hash_type = hash_class (hash param),
             sp_prf = prf',
             pms = [],
             master_secret = [],
             client_keystore = EmptySymKeyStore,
             server_keystore = EmptySymKeyStore,
             mac_key_length = 0,
             iv_length = 0,
             cipher_key_length = 0\<rparr>)"

text \<open>\<^verbatim>\<open>__init_key_material(data)\<close>: six slices \<^verbatim>\<open>data[i:i + n]\<close>, \<open>i\<close> advancing.\<close>

definition init_key_material ::
  "TLSSecurityParameters \<Rightarrow> bytes \<Rightarrow> SymKeyStore \<times> SymKeyStore" where
  "init_key_material self data' =
     (let i = 0;
          client_mac_key = py_slice i (mac_key_length self) data';
          i = i + mac_key_length self;
          server_mac_key = py_slice i (mac_key_length self) data';
          i = i + mac_key_length self;
          client_key = py_slice i (cipher_key_length self) data';
          i = i + cipher_key_length self;
          server_key = py_slice i (cipher_key_length self) data';
          i = i + cipher_key_length self;
          client_iv = py_slice i (iv_length self) data';
          i = i + iv_length self;
          server_iv = py_slice i (iv_length self) data'
      in (CipherKeyStore (negotiated_crypto_param self) client_key client_mac_key client_iv,
          CipherKeyStore (negotiated_crypto_param self) server_key server_mac_key server_iv))"


text \<open>\<^verbatim>\<open>init_keys(client_random, server_random, master_secret=None)\<close>.\<close>

definition init_keys ::
  "tls_module \<Rightarrow> crypto_lib \<Rightarrow> TLSSecurityParameters \<Rightarrow> bytes \<Rightarrow> bytes \<Rightarrow> bytes option
     \<Rightarrow> (error + SymKeyStore \<times> SymKeyStore) option" where
  "init_keys tls L self client_random' server_random' master_secret' =
     (let ms = (case master_secret' of None \<Rightarrow> master_secret self | Some m \<Rightarrow> m)
      in case TLSPRF_get_bytes tls L (sp_prf self) ms TLS_MD_KEY_EXPANSION_CONST
                (server_random' @ client_random')
                (2 * (mac_key_length self + cipher_key_length self + iv_length self)) of
           None \<Rightarrow> None
         | Some (Inl e) \<Rightarrow> Some (Inl e)
         | Some (Inr key_block) \<Rightarrow> Some (Inr (init_key_material self key_block)))"


text \<open>\<^verbatim>\<open>from_master_secret(prf, cipher_suite, master_secret, client_random, server_random)\<close>.\<close>

definition from_master_secret ::
  "tls_module \<Rightarrow> crypto_lib \<Rightarrow> TLSPRF \<Rightarrow> nat \<Rightarrow> bytes \<Rightarrow> bytes \<Rightarrow> bytes
     \<Rightarrow> (error + TLSSecurityParameters) option" where
  "from_master_secret tls L prf' cipher_suite master_secret' client_random' server_random' =
     (case TLSSecurityParameters_init L prf' cipher_suite client_random' server_random' of
        Inl e \<Rightarrow> Some (Inl e)
      | Inr sec_params0 \<Rightarrow>
          (let sec_params1 = sec_params0\<lparr>master_secret := master_secret'\<rparr>
           in case init_keys tls L sec_params1 client_random' server_random' None of
                None \<Rightarrow> None
              | Some (Inl e) \<Rightarrow> Some (Inl e)
              | Some (Inr (ck, sk)) \<Rightarrow>
                  Some (Inr (sec_params1\<lparr>client_keystore := ck, server_keystore := sk\<rparr>))))"

section \<open>Contexts and sessions: the data\<close>

text \<open>
  The asymmetric and key-exchange stores of \<^verbatim>\<open>ssl_tls_keystore\<close>; a fresh context holds the
  empty ones, and nothing modelled here reads the others.
\<close>

datatype asym_keystore = EmptyAsymKeystore | RSAKeystore bytes

datatype kex_keystore = EmptyKexKeystore | DHKeyStore nat nat nat

text \<open>The fields of a ServerHello that the session reads.\<close>

record TLSServerHello =
  hello_version :: nat
  gmt_unix_time :: nat
  random_bytes :: bytes
  hello_session_id :: bytes
  cipher_suite :: nat
  compression_method :: nat

text \<open>
  A crypto context (\<^verbatim>\<open>StreamCryptoContext\<close>, \<^verbatim>\<open>CBCCryptoContext\<close>, \<^verbatim>\<open>GCMCryptoContext\<close>):
  \<open>cc_mode\<close> tells the class, \<open>cc_sec_params\<close> is \<^verbatim>\<open>self.sec_params\<close>, a cipher attribute
  that was never assigned is \<open>None\<close>. \<open>cc_explicit_iv\<close> exists on the CBC class only,
  \<open>tag_size\<close> and \<open>explicit_iv_size\<close> on the GCM class only.
\<close>

record CryptoContext =
  cc_sec_params :: TLSSecurityParameters
  cc_mode :: CipherMode
  enc_cipher :: "cipher_obj option"
  dec_cipher :: "cipher_obj option"
  cc_explicit_iv :: bytes
  tag_size :: nat
  explicit_iv_size :: nat

text \<open>
  \<^verbatim>\<open>class TLSContext\<close>. The context and its crypto context refer to each other
  (\<^verbatim>\<open>ctx.crypto_ctx\<close>, \<^verbatim>\<open>crypto_ctx.ctx\<close>); the model keeps the one value both references
  denote, the context with its engine inside, and every engine operation takes and returns it.
\<close>

record TLSContext =
  ctx_name :: string
  handshake :: "TLSServerHello option"
  sequence :: nat
  nonce :: nat
  random :: "bytes option"
  session_id :: "bytes option"
  crypto_ctx :: "CryptoContext option"
  compression :: "compression_class option"
  asym_keystore :: asym_keystore
  kex_keystore :: kex_keystore
  sym_keystore :: SymKeyStore

text \<open>\<^verbatim>\<open>TLSContext.__init__(name)\<close>.\<close>

definition TLSContext_init :: "string \<Rightarrow> TLSContext" where
  "TLSContext_init name' =
     \<lparr>ctx_name = name',
      handshake = None,
      sequence = 0,
      nonce = 0,
      random = None,
      session_id = None,
      crypto_ctx = None,
      compression = None,
      asym_keystore = EmptyAsymKeystore,
      kex_keystore = EmptyKexKeystore,
      sym_keystore = EmptySymKeyStore\<rparr>"

text \<open>The attributes of \<^verbatim>\<open>self.negotiated\<close>.\<close>

record negotiated =
  negotiated_ciphersuite :: "nat option"
  negotiated_key_exchange :: "TLSKexNames option"
  negotiated_encryption :: "(string \<times> nat \<times> CipherMode) option"
  negotiated_mac :: "string option"
  negotiated_compression :: "nat option"
  negotiated_compression_algo :: "nat option"
  negotiated_version :: "nat option"
  negotiated_sig :: "pk_class option"
  negotiated_resumption :: bool

text \<open>What \<^verbatim>\<open>warnings.warn\<close> was called with: the message, by its format arguments.\<close>

datatype warning =
    Compression_not_supported nat
  | Cipher_not_supported nat
  | GCM_tag_verification_failed string

text \<open>
  \<^verbatim>\<open>class TLSSessionCtx\<close>. \<open>session_master_secret\<close> and \<open>session_prf\<close> are its
  \<^verbatim>\<open>master_secret\<close> and \<^verbatim>\<open>prf\<close>; \<open>warnings\<close> collects the warnings its methods emit.
\<close>

record TLSSessionCtx =
  client :: bool
  server :: bool
  client_ctx :: TLSContext
  server_ctx :: TLSContext
  history :: "TLSServerHello list"
  requires_iv :: bool
  sec_params :: "TLSSecurityParameters option"
  negotiated :: negotiated
  encrypted_premaster_secret :: "bytes option"
  premaster_secret :: "bytes option"
  session_master_secret :: "bytes option"
  session_prf :: "TLSPRF option"
  warnings :: "warning list"

text \<open>\<^verbatim>\<open>TLSSessionCtx.__init__(client=True)\<close>.\<close>

definition TLSSessionCtx_init :: "bool \<Rightarrow> TLSSessionCtx" where
  "TLSSessionCtx_init client' =
     \<lparr>client = client',
      server = (\<not> client'),
      client_ctx = TLSContext_init ''Client TLS context'',
      server_ctx = TLSContext_init ''Server TLS context'',
      history = [],
      requires_iv = False,
      sec_params = None,
      negotiated =
        \<lparr>negotiated_ciphersuite = None,
         negotiated_key_exchange = None,
         negotiated_encryption = None,
         negotiated_mac = None,
         negotiated_compression = None,
         negotiated_compression_algo = None,
         negotiated_version = None,
         negotiated_sig = None,
         negotiated_resumption = False\<rparr>,
      encrypted_premaster_secret = None,
      premaster_secret = None,
      session_master_secret = None,
      session_prf = None,
      warnings = []\<rparr>"

section \<open>\<^verbatim>\<open>CryptoData\<close> and the crypto containers\<close>

record CryptoData =
  data :: bytes
  cd_sequence :: nat
  cd_version :: "nat option"
  content_type :: nat
  data_len :: nat

text \<open>
  \<^verbatim>\<open>CryptoData.__init__(data, sequence, version, content_type, data_len=None)\<close>;
  \<^verbatim>\<open>data_len or len(data)\<close> takes the length when \<^verbatim>\<open>data_len\<close> is \<^verbatim>\<open>None\<close> or 0.
\<close>

definition CryptoData_init ::
  "bytes \<Rightarrow> nat \<Rightarrow> nat option \<Rightarrow> nat \<Rightarrow> nat option \<Rightarrow> CryptoData" where
  "CryptoData_init data' sequence' version' content_type' data_len' =
     \<lparr>data = data',
      cd_sequence = sequence',
      cd_version = version',
      content_type = content_type',
      data_len = (case data_len' of
                    None \<Rightarrow> length data'
                  | Some n \<Rightarrow> if n = 0 then length data' else n)\<rparr>"

text \<open>\<^verbatim>\<open>CryptoData.from_context(tls_ctx, ctx, data)\<close>.\<close>

definition CryptoData_from_context ::
  "tls_module \<Rightarrow> TLSSessionCtx \<Rightarrow> TLSContext \<Rightarrow> bytes \<Rightarrow> CryptoData" where
  "CryptoData_from_context tls tls_ctx ctx data' =
     CryptoData_init data' (sequence ctx) (negotiated_version (negotiated tls_ctx))
       (APPLICATION_DATA tls) None"

text \<open>
  The four \<^verbatim>\<open>struct.pack\<close> lines that \<^verbatim>\<open>__mac\<close> and \<^verbatim>\<open>__aead\<close> share:
  sequence (8 bytes), content type (1), version (2), length (2), big-endian. A version that
  is still \<^verbatim>\<open>None\<close> does not pack.
\<close>

definition pack_header :: "CryptoData \<Rightarrow> error + bytes" where
  "pack_header cd =
     (case struct_pack 8 (cd_sequence cd) of
        Inl e \<Rightarrow> Inl e
      | Inr sequence' \<Rightarrow>
     (case struct_pack 1 (content_type cd) of
        Inl e \<Rightarrow> Inl e
      | Inr content_type' \<Rightarrow>
     (case (case cd_version cd of None \<Rightarrow> Inl StructError | Some v \<Rightarrow> struct_pack 2 v) of
        Inl e \<Rightarrow> Inl e
      | Inr version' \<Rightarrow>
     (case struct_pack 2 (data_len cd) of
        Inl e \<Rightarrow> Inl e
      | Inr len' \<Rightarrow> Inr (sequence' @ content_type' @ version' @ len')))))"

text \<open>An \<^verbatim>\<open>HMAC.new(key, digestmod=...)\<close> object before any \<^verbatim>\<open>update\<close>.\<close>

record HMAC_obj =
  hmac_key :: bytes
  digestmod :: hash_class

record StreamCryptoContainer =
  stream_crypto_data :: CryptoData
  stream_digest :: HMAC_obj
  stream_mac :: bytes

text \<open>\<^verbatim>\<open>StreamCryptoContainer.__init__(crypto_data, digest)\<close>, with \<^verbatim>\<open>__mac\<close>.\<close>

definition StreamCryptoContainer_init ::
  "crypto_lib \<Rightarrow> CryptoData \<Rightarrow> HMAC_obj \<Rightarrow> error + StreamCryptoContainer" where
  "StreamCryptoContainer_init L cd dg =
     (case pack_header cd of
        Inl e \<Rightarrow> Inl e
      | Inr header \<Rightarrow>
          Inr \<lparr>stream_crypto_data = cd,
               stream_digest = dg,
               stream_mac = lib_hmac L (digestmod dg) (hmac_key dg) (header @ data cd)\<rparr>)"

definition StreamCryptoContainer_from_context ::
  "crypto_lib \<Rightarrow> TLSSessionCtx \<Rightarrow> TLSContext \<Rightarrow> CryptoData \<Rightarrow> error + StreamCryptoContainer"
  where
  "StreamCryptoContainer_from_context L tls_ctx ctx cd =
     (case sec_params tls_ctx of
        None \<Rightarrow> Inl AttributeError
      | Some sp \<Rightarrow>
          StreamCryptoContainer_init L cd
            \<lparr>hmac_key = hmac (sym_keystore ctx), digestmod = hash_type sp\<rparr>)"

definition StreamCryptoContainer_str :: "StreamCryptoContainer \<Rightarrow> bytes" where
  "StreamCryptoContainer_str self = data (stream_crypto_data self) @ stream_mac self"

text \<open>
  Modelled from the spec: \<^verbatim>\<open>pkcs7.PKCS7Encoder.get_padding\<close>, the padding helper of the
  repository's module \<^verbatim>\<open>pkcs7\<close>, which is not among the sources. The specification names
  it a PKCS#7 padding helper: the padding brings the text to a multiple of the block size
  \<open>k\<close> and every padding byte equals the number of padding bytes. PKCS#7 always pads: a
  text of \<open>l\<close> bytes gets \<open>k - l mod k\<close> bytes, between 1 and \<open>k\<close>, a whole block when \<open>k\<close>
  divides \<open>l\<close>. The block size of an encoder is positive.
\<close>

definition PKCS7Encoder_get_padding :: "nat \<Rightarrow> bytes \<Rightarrow> bytes" where
  "PKCS7Encoder_get_padding k text' =
     (let val = k - length text' mod k in replicate val (of_nat val))"

record CBCCryptoContainer =
  cbc_crypto_data :: CryptoData
  cbc_digest :: HMAC_obj
  cbc_explicit_iv :: bytes
  cbc_mac :: bytes
  cbc_padding :: bytes
  cbc_padding_len :: byte

text \<open>
  \<^verbatim>\<open>CBCCryptoContainer.__init__(crypto_data, digest, explicit_iv)\<close>, with \<^verbatim>\<open>__mac\<close> and
  \<^verbatim>\<open>__pad\<close>. The encoder is \<^verbatim>\<open>pkcs7.PKCS7Encoder()\<close>, built without an argument: its block
  size is its own default \<open>pkcs7_k\<close>. \<^verbatim>\<open>chr(len(self.padding))\<close> raises above 255.
\<close>

definition CBCCryptoContainer_init ::
  "crypto_lib \<Rightarrow> CryptoData \<Rightarrow> HMAC_obj \<Rightarrow> bytes \<Rightarrow> error + CBCCryptoContainer" where
  "CBCCryptoContainer_init L cd dg explicit_iv' =
     (case pack_header cd of
        Inl e \<Rightarrow> Inl e
      | Inr header \<Rightarrow>
          (let mac' = lib_hmac L (digestmod dg) (hmac_key dg) (header @ data cd);
               padding' = PKCS7Encoder_get_padding (pkcs7_k L) (data cd @ mac' @ [0xff])
           in if length padding' < 256
              then Inr \<lparr>cbc_crypto_data = cd,
                        cbc_digest = dg,
                        cbc_explicit_iv = explicit_iv',
                        cbc_mac = mac',
                        cbc_padding = padding',
                        cbc_padding_len = of_nat (length padding')\<rparr>
              else Inl (ValueError ''chr() arg not in range(256)'')))"

text \<open>\<^verbatim>\<open>CBCCryptoContainer.from_context(tls_ctx, ctx, crypto_data)\<close>.\<close>

definition CBCCryptoContainer_from_context ::
  "crypto_lib \<Rightarrow> TLSSessionCtx \<Rightarrow> TLSContext \<Rightarrow> CryptoData \<Rightarrow> error + CBCCryptoContainer"
  where
  "CBCCryptoContainer_from_context L tls_ctx ctx cd =
     (case sec_params tls_ctx of
        None \<Rightarrow> Inl AttributeError
      | Some sp \<Rightarrow>
          (let explicit_iv' = (if requires_iv tls_ctx then os_urandom L (block_size sp) else [])
           in CBCCryptoContainer_init L cd
                \<lparr>hmac_key = hmac (sym_keystore ctx), digestmod = hash_type sp\<rparr> explicit_iv'))"

text \<open>\<^verbatim>\<open>CBCCryptoContainer.__str__\<close>.\<close>

definition CBCCryptoContainer_str :: "CBCCryptoContainer \<Rightarrow> bytes" where
  "CBCCryptoContainer_str self =
     cbc_explicit_iv self @ data (cbc_crypto_data self) @ cbc_mac self @ cbc_padding self
       @ [cbc_padding_len self]"

record GCMCryptoContainer =
  gcm_crypto_data :: CryptoData
  aead :: bytes

text \<open>\<^verbatim>\<open>GCMCryptoContainer.__init__(crypto_data)\<close>, with \<^verbatim>\<open>__aead\<close>.\<close>

definition GCMCryptoContainer_init :: "CryptoData \<Rightarrow> error + GCMCryptoContainer" where
  "GCMCryptoContainer_init cd =
     (case pack_header cd of
        Inl e \<Rightarrow> Inl e
      | Inr header \<Rightarrow> Inr \<lparr>gcm_crypto_data = cd, aead = header\<rparr>)"

definition GCMCryptoContainer_str :: "GCMCryptoContainer \<Rightarrow> bytes" where
  "GCMCryptoContainer_str self = data (gcm_crypto_data self)"

text \<open>
  The argument of \<^verbatim>\<open>encrypt(crypto_container)\<close> is an object of one of the three classes;
  \<^verbatim>\<open>str\<close> works on each, \<^verbatim>\<open>.aead\<close> on the GCM one only.
\<close>

datatype crypto_container =
    StreamContainer StreamCryptoContainer
  | CBCContainer CBCCryptoContainer
  | GCMContainer GCMCryptoContainer

fun container_str :: "crypto_container \<Rightarrow> bytes" where
  "container_str (StreamContainer c) = StreamCryptoContainer_str c"
| "container_str (CBCContainer c) = CBCCryptoContainer_str c"
| "container_str (GCMContainer c) = GCMCryptoContainer_str c"

fun container_aead :: "crypto_container \<Rightarrow> error + bytes" where
  "container_aead (GCMContainer c) = Inr (aead c)"
| "container_aead (StreamContainer c) = Inl AttributeError"
| "container_aead (CBCContainer c) = Inl AttributeError"

section \<open>The crypto contexts\<close>

text \<open>
  \<^verbatim>\<open>cipher_type.new(...)\<close>: a fresh cipher object. \<^verbatim>\<open>NullCipher.new\<close> takes any arguments
  and ignores them.
\<close>

definition cipher_new ::
  "cipher_class \<Rightarrow> bytes \<Rightarrow> lib_mode option \<Rightarrow> bytes option \<Rightarrow> cipher_obj" where
  "cipher_new ct k m i =
     \<lparr>c_type = ct, c_key = k, c_mode = m, c_iv = i, c_aad = [], c_processed = []\<rparr>"

text \<open>
  The methods of a cipher object. \<^verbatim>\<open>NullCipher\<close> is defined in the module: \<^verbatim>\<open>encrypt\<close> and
  \<^verbatim>\<open>decrypt\<close> return their argument, and it has no \<^verbatim>\<open>update\<close>, \<^verbatim>\<open>encrypt_and_digest\<close> or
  \<^verbatim>\<open>verify\<close>. The other classes are the library's.
\<close>

definition cipher_encrypt :: "crypto_lib \<Rightarrow> cipher_obj \<Rightarrow> bytes \<Rightarrow> error + bytes" where
  "cipher_encrypt L obj cleartext =
     (if c_type obj = NullCipher then Inr cleartext else lib_encrypt L obj cleartext)"

definition cipher_decrypt :: "crypto_lib \<Rightarrow> cipher_obj \<Rightarrow> bytes \<Rightarrow> error + bytes" where
  "cipher_decrypt L obj ciphertext =
     (if c_type obj = NullCipher then Inr ciphertext else lib_decrypt L obj ciphertext)"

definition cipher_update :: "cipher_obj \<Rightarrow> bytes \<Rightarrow> error + cipher_obj" where
  "cipher_update obj aad =
     (if c_type obj = NullCipher then Inl AttributeError
      else Inr (obj\<lparr>c_aad := c_aad obj @ aad\<rparr>))"

definition cipher_encrypt_and_digest ::
  "crypto_lib \<Rightarrow> cipher_obj \<Rightarrow> bytes \<Rightarrow> error + (bytes \<times> bytes)" where
  "cipher_encrypt_and_digest L obj cleartext =
     (if c_type obj = NullCipher then Inl AttributeError
      else lib_encrypt_and_digest L obj cleartext)"

definition cipher_verify :: "crypto_lib \<Rightarrow> cipher_obj \<Rightarrow> bytes \<Rightarrow> error option" where
  "cipher_verify L obj tag =
     (if c_type obj = NullCipher then Some AttributeError else lib_verify L obj tag)"

text \<open>The object after it has processed one more input.\<close>

definition processed :: "cipher_obj \<Rightarrow> bytes \<Rightarrow> cipher_obj" where
  "processed obj input = obj\<lparr>c_processed := c_processed obj @ [input]\<rparr>"

subsection \<open>\<^verbatim>\<open>StreamCryptoContext\<close>\<close>

text \<open>
  \<^verbatim>\<open>StreamCryptoContext.__init__(tls_ctx, ctx)\<close>, with \<^verbatim>\<open>__init_ciphers\<close>. A constructor
  returns the new engine and the context as it leaves it.
\<close>

definition StreamCryptoContext_init ::
  "TLSSessionCtx \<Rightarrow> TLSContext \<Rightarrow> error + (CryptoContext \<times> TLSContext)" where
  "StreamCryptoContext_init tls_ctx ctx =
     (case sec_params tls_ctx of
        None \<Rightarrow> Inl AttributeError
      | Some sp \<Rightarrow>
          Inr (\<lparr>cc_sec_params = sp,
                cc_mode = STREAM,
                enc_cipher = Some (cipher_new (cipher_type sp) (key (sym_keystore ctx)) None None),
                dec_cipher = Some (cipher_new (cipher_type sp) (key (sym_keystore ctx)) None None),
                cc_explicit_iv = [],
                tag_size = 0,
                explicit_iv_size = 0\<rparr>, ctx))"

text \<open>\<^verbatim>\<open>StreamCryptoContext.encrypt(crypto_container)\<close>.\<close>

definition StreamCryptoContext_encrypt ::
  "crypto_lib \<Rightarrow> TLSContext \<Rightarrow> crypto_container \<Rightarrow> error + (bytes \<times> TLSContext)" where
  "StreamCryptoContext_encrypt L ctx crypto_container =
     (case crypto_ctx ctx of
        None \<Rightarrow> Inl AttributeError
      | Some self \<Rightarrow>
     (case enc_cipher self of
        None \<Rightarrow> Inl AttributeError
      | Some cipher' \<Rightarrow>
     (case cipher_encrypt L cipher' (container_str crypto_container) of
        Inl e \<Rightarrow> Inl e
      | Inr ciphertext \<Rightarrow>
          Inr (ciphertext,
               ctx\<lparr>sequence := sequence ctx + 1,
                   crypto_ctx := Some (self\<lparr>enc_cipher :=
                     Some (processed cipher' (container_str crypto_container))\<rparr>)\<rparr>))))"

text \<open>\<^verbatim>\<open>StreamCryptoContext.decrypt(ciphertext, content_type)\<close>; the content type is not read.\<close>

definition StreamCryptoContext_decrypt ::
  "crypto_lib \<Rightarrow> TLSContext \<Rightarrow> bytes \<Rightarrow> nat \<Rightarrow> error + (bytes \<times> TLSContext)" where
  "StreamCryptoContext_decrypt L ctx ciphertext content_type' =
     (case crypto_ctx ctx of
        None \<Rightarrow> Inl AttributeError
      | Some self \<Rightarrow>
     (case dec_cipher self of
        None \<Rightarrow> Inl AttributeError
      | Some cipher' \<Rightarrow>
     (case cipher_decrypt L cipher' ciphertext of
        Inl e \<Rightarrow> Inl e
      | Inr cleartext \<Rightarrow>
          Inr (cleartext,
               ctx\<lparr>sequence := sequence ctx + 1,
                   crypto_ctx := Some (self\<lparr>dec_cipher :=
                     Some (processed cipher' ciphertext)\<rparr>)\<rparr>))))"

subsection \<open>\<^verbatim>\<open>CBCCryptoContext\<close>\<close>

text \<open>\<^verbatim>\<open>CBCCryptoContext.__init_ciphers\<close>: both ciphers anew, from the key store of the context.\<close>

definition CBC_init_ciphers :: "CryptoContext \<Rightarrow> TLSContext \<Rightarrow> CryptoContext" where
  "CBC_init_ciphers self ctx =
     self\<lparr>enc_cipher := Some (cipher_new (cipher_type (cc_sec_params self))
                               (key (sym_keystore ctx)) (cipher_mode (cc_sec_params self))
                               (Some (iv (sym_keystore ctx)))),
          dec_cipher := Some (cipher_new (cipher_type (cc_sec_params self))
                               (key (sym_keystore ctx)) (cipher_mode (cc_sec_params self))
                               (Some (iv (sym_keystore ctx))))\<rparr>"

text \<open>
  \<^verbatim>\<open>CBCCryptoContext.__init__(tls_ctx, ctx)\<close>: with \<^verbatim>\<open>requires_iv\<close> it overwrites the IV of
  the context's key store with \<^verbatim>\<open>"\x00" * block_size\<close> and builds no cipher yet.
\<close>

definition CBCCryptoContext_init ::
  "TLSSessionCtx \<Rightarrow> TLSContext \<Rightarrow> error + (CryptoContext \<times> TLSContext)" where
  "CBCCryptoContext_init tls_ctx ctx =
     (case sec_params tls_ctx of
        None \<Rightarrow> Inl AttributeError
      | Some sp \<Rightarrow>
          (let self = \<lparr>cc_sec_params = sp,
                       cc_mode = CBC,
                       enc_cipher = None,
                       dec_cipher = None,
                       cc_explicit_iv = [],
                       tag_size = 0,
                       explicit_iv_size = 0\<rparr>
           in if requires_iv tls_ctx
              then Inr (self,
                        ctx\<lparr>sym_keystore := (sym_keystore ctx)\<lparr>iv := replicate (block_size sp) 0\<rparr>\<rparr>)
              else Inr (CBC_init_ciphers self ctx, ctx)))"

text \<open>\<^verbatim>\<open>CBCCryptoContext.encrypt(crypto_container)\<close>.\<close>

definition CBCCryptoContext_encrypt ::
  "crypto_lib \<Rightarrow> TLSSessionCtx \<Rightarrow> TLSContext \<Rightarrow> crypto_container
     \<Rightarrow> error + (bytes \<times> TLSContext)" where
  "CBCCryptoContext_encrypt L tls_ctx ctx crypto_container =
     (case crypto_ctx ctx of
        None \<Rightarrow> Inl AttributeError
      | Some self0 \<Rightarrow>
     (let self = (if requires_iv tls_ctx then CBC_init_ciphers self0 ctx else self0)
      in case enc_cipher self of
        None \<Rightarrow> Inl AttributeError
      | Some cipher' \<Rightarrow>
     (case cipher_encrypt L cipher' (container_str crypto_container) of
        Inl e \<Rightarrow> Inl e
      | Inr ciphertext \<Rightarrow>
          Inr (ciphertext,
               ctx\<lparr>sequence := sequence ctx + 1,
                   crypto_ctx := Some (self\<lparr>enc_cipher :=
                     Some (processed cipher' (container_str crypto_container))\<rparr>)\<rparr>))))"

text \<open>\<^verbatim>\<open>CBCCryptoContext.decrypt(ciphertext, content_type)\<close>; the content type is not read.\<close>

definition CBCCryptoContext_decrypt ::
  "crypto_lib \<Rightarrow> TLSSessionCtx \<Rightarrow> TLSContext \<Rightarrow> bytes \<Rightarrow> nat
     \<Rightarrow> error + (bytes \<times> TLSContext)" where
  "CBCCryptoContext_decrypt L tls_ctx ctx ciphertext content_type' =
     (case crypto_ctx ctx of
        None \<Rightarrow> Inl AttributeError
      | Some self0 \<Rightarrow>
     (let self = (if requires_iv tls_ctx then CBC_init_ciphers self0 ctx else self0)
      in case dec_cipher self of
        None \<Rightarrow> Inl AttributeError
      | Some cipher' \<Rightarrow>
     (case cipher_decrypt L cipher' ciphertext of
        Inl e \<Rightarrow> Inl e
      | Inr cleartext \<Rightarrow>
          Inr (cleartext,
               ctx\<lparr>sequence := sequence ctx + 1,
                   crypto_ctx := Some (self\<lparr>dec_cipher :=
                     Some (processed cipher' ciphertext)\<rparr>)\<rparr>))))"

subsection \<open>\<^verbatim>\<open>GCMCryptoContext\<close>\<close>

text \<open>
  \<^verbatim>\<open>GCMCryptoContext.__init__(tls_ctx, ctx)\<close>. It also writes the two sizes to
  \<^verbatim>\<open>tls_ctx.sec_params\<close>, where the class already declares the same values 16 and 8.
\<close>

definition GCMCryptoContext_init ::
  "TLSSessionCtx \<Rightarrow> TLSContext \<Rightarrow> error + (CryptoContext \<times> TLSContext)" where
  "GCMCryptoContext_init tls_ctx ctx =
     (case sec_params tls_ctx of
        None \<Rightarrow> Inl AttributeError
      | Some sp \<Rightarrow>
          Inr (\<lparr>cc_sec_params = sp,
                cc_mode = GCM,
                enc_cipher = None,
                dec_cipher = None,
                cc_explicit_iv = [],
                tag_size = 16,
                explicit_iv_size = 8\<rparr>, ctx))"

text \<open>\<^verbatim>\<open>GCMCryptoContext.__init_ciphers(nonce)\<close>.\<close>

definition GCM_init_ciphers :: "CryptoContext \<Rightarrow> TLSContext \<Rightarrow> bytes \<Rightarrow> CryptoContext" where
  "GCM_init_ciphers self ctx nonce' =
     self\<lparr>enc_cipher := Some (cipher_new (cipher_type (cc_sec_params self))
                               (key (sym_keystore ctx)) (cipher_mode (cc_sec_params self))
                               (Some nonce')),
          dec_cipher := Some (cipher_new (cipher_type (cc_sec_params self))
                               (key (sym_keystore ctx)) (cipher_mode (cc_sec_params self))
                               (Some nonce'))\<rparr>"

text \<open>\<^verbatim>\<open>GCMCryptoContext.get_nonce(nonce=None)\<close>.\<close>

definition get_nonce :: "TLSContext \<Rightarrow> bytes option \<Rightarrow> error + bytes" where
  "get_nonce ctx nonce' =
     (case (case nonce' of None \<Rightarrow> struct_pack 8 (nonce ctx) | Some n \<Rightarrow> Inr n) of
        Inl e \<Rightarrow> Inl e
      | Inr n \<Rightarrow> Inr (iv (sym_keystore ctx) @ n))"

text \<open>\<^verbatim>\<open>GCMCryptoContext.encrypt(crypto_container)\<close>.\<close>

definition GCMCryptoContext_encrypt ::
  "crypto_lib \<Rightarrow> TLSContext \<Rightarrow> crypto_container \<Rightarrow> error + (bytes \<times> TLSContext)" where
  "GCMCryptoContext_encrypt L ctx crypto_container =
     (case crypto_ctx ctx of
        None \<Rightarrow> Inl AttributeError
      | Some self0 \<Rightarrow>
     (case get_nonce ctx None of
        Inl e \<Rightarrow> Inl e
      | Inr nonce' \<Rightarrow>
     (let self = GCM_init_ciphers self0 ctx nonce'
      in case enc_cipher self of
        None \<Rightarrow> Inl AttributeError
      | Some cipher0 \<Rightarrow>
     (case container_aead crypto_container of
        Inl e \<Rightarrow> Inl e
      | Inr aead' \<Rightarrow>
     (case cipher_update cipher0 aead' of
        Inl e \<Rightarrow> Inl e
      | Inr cipher' \<Rightarrow>
     (case cipher_encrypt_and_digest L cipher' (container_str crypto_container) of
        Inl e \<Rightarrow> Inl e
      | Inr (ciphertext, mac') \<Rightarrow>
     (case struct_pack 8 (nonce ctx) of
        Inl e \<Rightarrow> Inl e
      | Inr explicit_nonce \<Rightarrow>
          Inr (explicit_nonce @ ciphertext @ mac',
               ctx\<lparr>nonce := nonce ctx + 1,
                   sequence := sequence ctx + 1,
                   crypto_ctx := Some (self\<lparr>enc_cipher :=
                     Some (processed cipher' (container_str crypto_container))\<rparr>)\<rparr>))))))))"

text \<open>
  \<^verbatim>\<open>GCMCryptoContext.decrypt(ciphertext, content_type)\<close>. Besides the bytes and the context
  it returns the warnings the call emitted: a \<^verbatim>\<open>ValueError\<close> of \<^verbatim>\<open>verify\<close> is caught and
  turned into a warning, any other exception of \<^verbatim>\<open>verify\<close> propagates.
\<close>

definition GCMCryptoContext_decrypt ::
  "tls_module \<Rightarrow> crypto_lib \<Rightarrow> TLSSessionCtx \<Rightarrow> TLSContext \<Rightarrow> bytes \<Rightarrow> nat
     \<Rightarrow> error + (bytes \<times> TLSContext \<times> warning list)" where
  "GCMCryptoContext_decrypt tls L tls_ctx ctx wire content_type' =
     (case crypto_ctx ctx of
        None \<Rightarrow> Inl AttributeError
      | Some self0 \<Rightarrow>
     (let explicit_nonce = take (explicit_iv_size self0) wire;
          ciphertext = py_between (explicit_iv_size self0) (tag_size self0) wire;
          tag = py_suffix (tag_size self0) wire;
          crypto_data = (CryptoData_from_context tls tls_ctx ctx
                           (replicate (length ciphertext) 0))\<lparr>content_type := content_type'\<rparr>
      in case GCMCryptoContainer_init crypto_data of
        Inl e \<Rightarrow> Inl e
      | Inr crypto_container \<Rightarrow>
     (case get_nonce ctx (Some explicit_nonce) of
        Inl e \<Rightarrow> Inl e
      | Inr nonce' \<Rightarrow>
     (let self = GCM_init_ciphers self0 ctx nonce'
      in case dec_cipher self of
        None \<Rightarrow> Inl AttributeError
      | Some cipher0 \<Rightarrow>
     (case cipher_update cipher0 (aead crypto_container) of
        Inl e \<Rightarrow> Inl e
      | Inr cipher1 \<Rightarrow>
     (case cipher_decrypt L cipher1 ciphertext of
        Inl e \<Rightarrow> Inl e
      | Inr cleartext \<Rightarrow>
     (let cipher' = processed cipher1 ciphertext
      in case (case cipher_verify L cipher' tag of
                 None \<Rightarrow> Inr []
               | Some (ValueError why) \<Rightarrow> Inr [GCM_tag_verification_failed why]
               | Some e \<Rightarrow> Inl e) of
        Inl e \<Rightarrow> Inl e
      | Inr warned \<Rightarrow>
     (case struct_unpack_Q explicit_nonce of
        Inl e \<Rightarrow> Inl e
      | Inr n \<Rightarrow>
          Inr (explicit_nonce @ cleartext @ tag,
               ctx\<lparr>nonce := n,
                   sequence := sequence ctx + 1,
                   crypto_ctx := Some (self\<lparr>dec_cipher := Some cipher'\<rparr>)\<rparr>,
               warned)))))))))"

subsection \<open>Dispatch and the factory\<close>

text \<open>
  \<^verbatim>\<open>ctx.crypto_ctx.encrypt(crypto_container)\<close>: the method of the engine's class; the base
  class \<^verbatim>\<open>CryptoContext\<close> raises \<^verbatim>\<open>NotImplementedError\<close>.
\<close>

definition CryptoContext_encrypt ::
  "crypto_lib \<Rightarrow> TLSSessionCtx \<Rightarrow> TLSContext \<Rightarrow> crypto_container
     \<Rightarrow> error + (bytes \<times> TLSContext)" where
  "CryptoContext_encrypt L tls_ctx ctx crypto_container =
     (case crypto_ctx ctx of
        None \<Rightarrow> Inl AttributeError
      | Some self \<Rightarrow>
          (case cc_mode self of
             STREAM \<Rightarrow> StreamCryptoContext_encrypt L ctx crypto_container
           | CBC \<Rightarrow> CBCCryptoContext_encrypt L tls_ctx ctx crypto_container
           | GCM \<Rightarrow> GCMCryptoContext_encrypt L ctx crypto_container
           | NULL \<Rightarrow> Inl NotImplementedError))"

text \<open>
  \<^verbatim>\<open>ctx.crypto_ctx.decrypt(ciphertext, content_type)\<close>: the method of the engine's class.
  Only the GCM engine warns. The base class \<^verbatim>\<open>CryptoContext\<close> declares
  \<^verbatim>\<open>decrypt(self, ciphertext)\<close>, so the call with a content type is a \<^verbatim>\<open>TypeError\<close> there.
\<close>

definition CryptoContext_decrypt ::
  "tls_module \<Rightarrow> crypto_lib \<Rightarrow> TLSSessionCtx \<Rightarrow> TLSContext \<Rightarrow> bytes \<Rightarrow> nat
     \<Rightarrow> error + (bytes \<times> TLSContext \<times> warning list)" where
  "CryptoContext_decrypt tls L tls_ctx ctx ciphertext content_type' =
     (case crypto_ctx ctx of
        None \<Rightarrow> Inl AttributeError
      | Some self \<Rightarrow>
          (case cc_mode self of
             STREAM \<Rightarrow>
               (case StreamCryptoContext_decrypt L ctx ciphertext content_type' of
                  Inl e \<Rightarrow> Inl e
                | Inr (cleartext, ctx') \<Rightarrow> Inr (cleartext, ctx', []))
           | CBC \<Rightarrow>
               (case CBCCryptoContext_decrypt L tls_ctx ctx ciphertext content_type' of
                  Inl e \<Rightarrow> Inl e
                | Inr (cleartext, ctx') \<Rightarrow> Inr (cleartext, ctx', []))
           | GCM \<Rightarrow> GCMCryptoContext_decrypt tls L tls_ctx ctx ciphertext content_type'
           | NULL \<Rightarrow> Inl TypeError))"

text \<open>
  A run of calls on the engine of one context: each operation is a call of \<^verbatim>\<open>encrypt\<close> with
  a container or a call of \<^verbatim>\<open>decrypt\<close> with a record and a content type. The run stops at the
  first exception; otherwise it gives the results of the calls in order, the context as the
  last call leaves it, and the warnings emitted.
\<close>

datatype operation = Encrypt crypto_container | Decrypt bytes nat

fun run_operations ::
  "tls_module \<Rightarrow> crypto_lib \<Rightarrow> TLSSessionCtx \<Rightarrow> TLSContext \<Rightarrow> operation list
     \<Rightarrow> error + (bytes list \<times> TLSContext \<times> warning list)" where
  "run_operations tls L tls_ctx ctx [] = Inr ([], ctx, [])"
| "run_operations tls L tls_ctx ctx (Encrypt c # ops) =
     (case CryptoContext_encrypt L tls_ctx ctx c of
        Inl e \<Rightarrow> Inl e
      | Inr (out, ctx') \<Rightarrow>
          (case run_operations tls L tls_ctx ctx' ops of
             Inl e \<Rightarrow> Inl e
           | Inr (outs, ctx'', ws) \<Rightarrow> Inr (out # outs, ctx'', ws)))"
| "run_operations tls L tls_ctx ctx (Decrypt ciphertext content_type' # ops) =
     (case CryptoContext_decrypt tls L tls_ctx ctx ciphertext content_type' of
        Inl e \<Rightarrow> Inl e
      | Inr (out, ctx', w) \<Rightarrow>
          (case run_operations tls L tls_ctx ctx' ops of
             Inl e \<Rightarrow> Inl e
           | Inr (outs, ctx'', ws) \<Rightarrow> Inr (out # outs, ctx'', w @ ws)))"

text \<open>\<^verbatim>\<open>CryptoContextFactory(tls_ctx).new(ctx)\<close>.\<close>

definition CryptoContextFactory_new ::
  "TLSSessionCtx \<Rightarrow> TLSContext \<Rightarrow> error + (CryptoContext \<times> TLSContext)" where
  "CryptoContextFactory_new tls_ctx ctx =
     (case sec_params tls_ctx of
        None \<Rightarrow> Inl AttributeError
      | Some sp \<Rightarrow>
          (case cipher_mode_name sp of
             STREAM \<Rightarrow> StreamCryptoContext_init tls_ctx ctx
           | CBC \<Rightarrow> CBCCryptoContext_init tls_ctx ctx
           | GCM \<Rightarrow> GCMCryptoContext_init tls_ctx ctx
           | NULL \<Rightarrow> Inl (ValueError ''Unavailable cipher mode'')))"

section \<open>\<^verbatim>\<open>TLSSessionCtx\<close>: handling a ServerHello\<close>

text \<open>
  A method of the session mutates it and may raise midway: the result is the exception, if
  any, and the session as the call leaves it.
\<close>

text \<open>
  \<^verbatim>\<open>__generate_secrets\<close>. The source assigns the key-store objects of the security
  parameters to the contexts, so a later write to a context's key store (the zero IV of
  \<^verbatim>\<open>CBCCryptoContext.__init__\<close>) is a write to the store of the security parameters too. The
  model gives each context its own copy and leaves the stores of the security parameters as
  they were; the properties below read the key store through the context only.
\<close>

definition generate_secrets :: "TLSSessionCtx \<Rightarrow> error option \<times> TLSSessionCtx" where
  "generate_secrets self0 =
     (case sec_params self0 of
        None \<Rightarrow> (Some AttributeError, self0)
      | Some sp \<Rightarrow>
     (let self1 = (if ks_empty (sym_keystore (client_ctx self0))
                   then self0\<lparr>client_ctx := (client_ctx self0)\<lparr>sym_keystore := client_keystore sp\<rparr>\<rparr>
                   else self0);
          self2 = (if ks_empty (sym_keystore (server_ctx self1))
                   then self1\<lparr>server_ctx := (server_ctx self1)\<lparr>sym_keystore := server_keystore sp\<rparr>\<rparr>
                   else self1);
          self3 = self2\<lparr>session_master_secret := Some (master_secret sp)\<rparr>
      in case CryptoContextFactory_new self3 (client_ctx self3) of
        Inl e \<Rightarrow> (Some e, self3)
      | Inr (engine, ctx') \<Rightarrow>
     (let self4 = self3\<lparr>client_ctx := ctx'\<lparr>crypto_ctx := Some engine\<rparr>\<rparr>
      in case CryptoContextFactory_new self4 (server_ctx self4) of
        Inl e \<Rightarrow> (Some e, self4)
      | Inr (engine', ctx'') \<Rightarrow>
          (None, self4\<lparr>server_ctx := ctx''\<lparr>crypto_ctx := Some engine'\<rparr>\<rparr>))))"

text \<open>
  \<^verbatim>\<open>__handle_server_hello(server_hello)\<close>. The two \<^verbatim>\<open>try\<close> blocks catch the \<^verbatim>\<open>KeyError\<close> of
  their own look-ups and warn; the look-up in the call of \<^verbatim>\<open>TLSPRF(...)\<close> stands after them,
  outside any \<^verbatim>\<open>try\<close>. The outer \<open>option\<close> is \<open>None\<close> when the PRF of the resumption
  branch does not return.
\<close>

definition handle_server_hello ::
  "tls_module \<Rightarrow> crypto_lib \<Rightarrow> TLSSessionCtx \<Rightarrow> TLSServerHello
     \<Rightarrow> (error option \<times> TLSSessionCtx) option" where
  "handle_server_hello tls L self0 server_hello =
     (let self1 = self0\<lparr>server_ctx := (server_ctx self0)
                     \<lparr>handshake := Some server_hello,
                      session_id := Some (hello_session_id server_hello)\<rparr>\<rparr>
      in case struct_pack 4 (gmt_unix_time server_hello) of
        Inl e \<Rightarrow> Some (Some e, self1)
      | Inr gmt \<Rightarrow>
     (let self2 = self1
            \<lparr>server_ctx := (server_ctx self1)\<lparr>random := Some (gmt @ random_bytes server_hello)\<rparr>,
             requires_iv := (hello_version server_hello > TLS_1_0 tls),
             negotiated := (negotiated self1)
               \<lparr>negotiated_version := Some (hello_version server_hello),
                negotiated_ciphersuite := Some (cipher_suite server_hello),
                negotiated_compression := Some (compression_method server_hello)\<rparr>\<rparr>;
          self3 = (case map_of comp_params (compression_method server_hello) of
                     Some c \<Rightarrow> self2
                       \<lparr>negotiated := (negotiated self2)
                          \<lparr>negotiated_compression_algo := Some (comp_name c)\<rparr>,
                        server_ctx := (server_ctx self2)\<lparr>compression := Some (comp_class c)\<rparr>,
                        client_ctx := (client_ctx self2)\<lparr>compression := Some (comp_class c)\<rparr>\<rparr>
                   | None \<Rightarrow> self2
                       \<lparr>warnings := warnings self2
                          @ [Compression_not_supported (compression_method server_hello)]\<rparr>);
          self4 = (case map_of crypto_params (cipher_suite server_hello) of
                     Some d \<Rightarrow> self3
                       \<lparr>negotiated := (negotiated self3)
                          \<lparr>negotiated_key_exchange := Some (kex_name (key_exchange d)),
                           negotiated_sig := kex_sig (key_exchange d),
                           negotiated_encryption :=
                             Some (cipher_name (cipher d), key_len (cipher d), mode_name (cipher d)),
                           negotiated_mac := Some (hash_name (hash d))\<rparr>\<rparr>
                   | None \<Rightarrow> self3
                       \<lparr>warnings := warnings self3
                          @ [Cipher_not_supported (cipher_suite server_hello)]\<rparr>)
      in case map_of crypto_params (cipher_suite server_hello) of
        None \<Rightarrow> Some (Some KeyError, self4)
      | Some d \<Rightarrow>
     (case TLSPRF_init tls (hello_version server_hello) (map_option prf_class (prf_entry d)) of
        Inl e \<Rightarrow> Some (Some e, self4)
      | Inr prf' \<Rightarrow>
     (let self5 = self4\<lparr>session_prf := Some prf'\<rparr>
      in if negotiated_resumption (negotiated self5)
         then (case (random (client_ctx self5), random (server_ctx self5),
                     session_master_secret self5) of
                 (Some client_random', Some server_random', Some master_secret') \<Rightarrow>
                   (case from_master_secret tls L prf' (cipher_suite server_hello) master_secret'
                           client_random' server_random' of
                      None \<Rightarrow> None
                    | Some (Inl e) \<Rightarrow> Some (Some e, self5)
                    | Some (Inr sp) \<Rightarrow> Some (generate_secrets (self5\<lparr>sec_params := Some sp\<rparr>)))
               | _ \<Rightarrow> Some (Some TypeError, self5))
         else Some (None, self5)))))"

section \<open>An instance of the capabilities for evaluation\<close>

text \<open>
  A small, fully computable instance of the external capabilities, used to run the model on
  concrete inputs: a keyed checksum for the HMAC, a byte-wise XOR with the first key byte for
  the ciphers, a 16-byte tag that repeats a checksum. The tables of digest and block sizes
  are those the library documents for its classes, and the padding encoder has block size 16.
  The checksum \<open>example_hmac\<close> is one byte long whatever the digest class; where the length
  of the MAC matters, \<open>example_lib_sized\<close> has the HMAC \<open>example_hmac_sized\<close>, which repeats the
  checksum byte to the digest size of the class.
\<close>

definition example_hmac :: "hash_class \<Rightarrow> bytes \<Rightarrow> bytes \<Rightarrow> bytes" where
  "example_hmac d k m =
     [sum_list k + sum_list m + of_nat (length m)
        + (case d of NullHash \<Rightarrow> 0 | MD5 \<Rightarrow> 1 | SHA \<Rightarrow> 2 | SHA256 \<Rightarrow> 3 | SHA384 \<Rightarrow> 4)]"

definition example_xor :: "cipher_obj \<Rightarrow> bytes \<Rightarrow> bytes" where
  "example_xor obj m = map (\<lambda>b. b XOR (case c_key obj of [] \<Rightarrow> 0 | k # _ \<Rightarrow> k)) m"

definition example_tag :: "cipher_obj \<Rightarrow> bytes" where
  "example_tag obj =
     replicate 16 (of_nat (length (c_aad obj)) + sum_list (concat (c_processed obj)))"

definition example_lib :: crypto_lib where
  "example_lib =
     \<lparr>lib_hmac = example_hmac,
      lib_digest_size = (\<lambda>h. case h of MD5 \<Rightarrow> 16 | SHA \<Rightarrow> 20 | SHA256 \<Rightarrow> 32 | SHA384 \<Rightarrow> 48
                                | NullHash \<Rightarrow> 0),
      lib_block_size = (\<lambda>c. case c of AES \<Rightarrow> 16 | ARC4 \<Rightarrow> 1 | NullCipher \<Rightarrow> 0 | _ \<Rightarrow> 8),
      lib_encrypt = (\<lambda>obj m. Inr (example_xor obj m)),
      lib_decrypt = (\<lambda>obj m. Inr (example_xor obj m)),
      lib_encrypt_and_digest =
        (\<lambda>obj m. Inr (example_xor obj m, example_tag (processed obj (example_xor obj m)))),
      lib_verify = (\<lambda>obj t. if t = example_tag obj then None
                             else Some (ValueError ''MAC check failed'')),
      pkcs7_k = 16,
      os_urandom = (\<lambda>n. replicate n 0xA5)\<rparr>"

definition example_hmac_sized :: "hash_class \<Rightarrow> bytes \<Rightarrow> bytes \<Rightarrow> bytes" where
  "example_hmac_sized d k m =
     replicate (case d of NullHash \<Rightarrow> 0 | MD5 \<Rightarrow> 16 | SHA \<Rightarrow> 20 | SHA256 \<Rightarrow> 32 | SHA384 \<Rightarrow> 48)
       (sum_list k + sum_list m + of_nat (length m))"

definition example_lib_sized :: crypto_lib where
  "example_lib_sized = example_lib\<lparr>lib_hmac := example_hmac_sized\<rparr>"

definition example_tls :: tls_module where
  "example_tls =
     \<lparr>TLS_1_0 = 0x0301, TLS_1_2 = 0x0303,
      TLS_VERSIONS = [0x0300, 0x0301, 0x0302, 0x0303],
      APPLICATION_DATA = 0x17\<rparr>"

text \<open>
  A session after a handshake: the security parameters of the suite, with short fixed keys in
  place of the derived ones, and both engines as \<^verbatim>\<open>__generate_secrets\<close> builds them.
\<close>

definition example_session :: "nat \<Rightarrow> nat \<Rightarrow> TLSSessionCtx" where
  "example_session suite version =
     (case TLSSecurityParameters_init example_lib \<lparr>tls_version = version, digest = SHA256\<rparr>
             suite (replicate 32 1) (replicate 32 2) of
        Inl e \<Rightarrow> TLSSessionCtx_init True
      | Inr sp \<Rightarrow>
          snd (generate_secrets ((TLSSessionCtx_init True)
            \<lparr>requires_iv := (version > TLS_1_0 example_tls),
             negotiated := (negotiated (TLSSessionCtx_init True))
               \<lparr>negotiated_version := Some version, negotiated_ciphersuite := Some suite\<rparr>,
             sec_params := Some (sp
               \<lparr>client_keystore :=
                  CipherKeyStore (negotiated_crypto_param sp) [0x11, 0x22] [0x33] [1, 2, 3, 4],
                server_keystore :=
                  CipherKeyStore (negotiated_crypto_param sp) [0x99, 0x88] [0x77] [5, 6, 7, 8]\<rparr>)\<rparr>)))"

section \<open>The PRF as the specification words it\<close>

text \<open>
  \<open>A(0) = label || seed\<close>, \<open>A(i+1) = HMAC(secret, A(i))\<close>, so that
  \<open>A(1) = HMAC(secret, label || seed)\<close>; \<open>chunk i = HMAC(secret, A(i) || label || seed)\<close>
  for \<open>i \<ge> 1\<close>; the expansion is the chunks in order. \<open>hm\<close> is \<open>HMAC(secret, _)\<close>.
\<close>

fun spec_A :: "(bytes \<Rightarrow> bytes) \<Rightarrow> bytes \<Rightarrow> nat \<Rightarrow> bytes" where
  "spec_A hm ls 0 = ls"
| "spec_A hm ls (Suc i) = hm (spec_A hm ls i)"

definition spec_chunk :: "(bytes \<Rightarrow> bytes) \<Rightarrow> bytes \<Rightarrow> nat \<Rightarrow> bytes" where
  "spec_chunk hm ls i = hm (spec_A hm ls i @ ls)"

text \<open>The first \<open>m\<close> chunks, concatenated.\<close>

definition spec_P_hash :: "(bytes \<Rightarrow> bytes) \<Rightarrow> bytes \<Rightarrow> nat \<Rightarrow> bytes" where
  "spec_P_hash hm ls m = concat (map (spec_chunk hm ls) [1..<Suc m])"

text \<open>
  Truncated to \<open>n\<close> bytes. Every chunk of a real digest has at least one byte, so the first
  \<open>n\<close> chunks hold the first \<open>n\<close> bytes of the expansion.
\<close>

definition spec_expand :: "(bytes \<Rightarrow> bytes) \<Rightarrow> bytes \<Rightarrow> nat \<Rightarrow> bytes" where
  "spec_expand hm ls n = take n (spec_P_hash hm ls n)"

text \<open>TLS 1.2 and above: one digest.\<close>

definition spec_prf_12 ::
  "(bytes \<Rightarrow> bytes \<Rightarrow> bytes) \<Rightarrow> bytes \<Rightarrow> bytes \<Rightarrow> bytes \<Rightarrow> nat \<Rightarrow> bytes" where
  "spec_prf_12 HMAC secret label seed n = spec_expand (HMAC secret) (label @ seed) n"

text \<open>
  TLS 1.1 and below: \<open>S1\<close> is the first \<open>ceil(n/2)\<close> bytes of the secret, \<open>S2\<close> the last
  \<open>ceil(n/2)\<close>; MD5 over \<open>S1\<close>, SHA-1 over \<open>S2\<close>, XOR byte by byte.
\<close>

definition spec_prf_10 ::
  "(bytes \<Rightarrow> bytes \<Rightarrow> bytes) \<Rightarrow> (bytes \<Rightarrow> bytes \<Rightarrow> bytes) \<Rightarrow> bytes \<Rightarrow> bytes \<Rightarrow> bytes \<Rightarrow> nat \<Rightarrow> bytes"
  where
  "spec_prf_10 HMAC_MD5 HMAC_SHA1 secret label seed n =
     (let h = (length secret + 1) div 2;
          S1 = take h secret;
          S2 = drop (length secret - h) secret
      in map2 (XOR) (spec_expand (HMAC_MD5 S1) (label @ seed) n)
                    (spec_expand (HMAC_SHA1 S2) (label @ seed) n))"

section \<open>The CBC padding length as the specification words it\<close>

text \<open>
  For plaintext plus MAC of \<open>l\<close> bytes and block size \<open>B\<close>: \<open>(B - (l + 1) mod B) mod B\<close>.
\<close>

definition spec_padding_length :: "nat \<Rightarrow> nat \<Rightarrow> nat" where
  "spec_padding_length B l = (B - (l + 1) mod B) mod B"

section \<open>The counters after a run of operations\<close>

text \<open>
  The nonce counter of a GCM context after a run that starts at \<open>n\<close>: an \<^verbatim>\<open>encrypt\<close> advances
  it by one, a \<^verbatim>\<open>decrypt\<close> sets it to the explicit nonce at the head of the record.
\<close>

fun nonce_after :: "nat \<Rightarrow> operation list \<Rightarrow> nat" where
  "nonce_after n [] = n"
| "nonce_after n (Encrypt c # ops) = nonce_after (n + 1) ops"
| "nonce_after n (Decrypt wire content_type' # ops) = nonce_after (be_nat (take 8 wire)) ops"

text \<open>
  What a GCM engine needs of an operation in a run of at most \<open>N\<close> operations: to encrypt, a
  GCM container (the only one with additional data); to decrypt, a record that has the eight
  bytes of the explicit nonce, a length and a content type that fit the two bytes and the one
  byte of the additional data, and an explicit nonce that leaves the eight-byte counter room
  for the rest of the run.
\<close>

fun fits_GCM :: "nat \<Rightarrow> operation \<Rightarrow> bool" where
  "fits_GCM N (Encrypt (GCMContainer c)) = True"
| "fits_GCM N (Encrypt (StreamContainer c)) = False"
| "fits_GCM N (Encrypt (CBCContainer c)) = False"
| "fits_GCM N (Decrypt wire content_type') =
     (8 \<le> length wire \<and> length wire < 2 ^ 16 \<and> content_type' < 256
        \<and> be_nat (take 8 wire) + N < 2 ^ 64)"

text \<open>
  An engine as the factory builds it and as every call of \<^verbatim>\<open>encrypt\<close> and \<^verbatim>\<open>decrypt\<close> leaves
  it: a stream engine has its two ciphers; a CBC engine has them unless the session requires
  an explicit IV, where each call builds them anew; a GCM engine has the sizes 8 and 16 for
  the explicit nonce and the tag. No engine has the mode \<^verbatim>\<open>NULL\<close>.
\<close>

definition engine_ready :: "TLSSessionCtx \<Rightarrow> CryptoContext \<Rightarrow> bool" where
  "engine_ready tls_ctx self =
     (case cc_mode self of
        STREAM \<Rightarrow> enc_cipher self \<noteq> None \<and> dec_cipher self \<noteq> None
      | CBC \<Rightarrow> requires_iv tls_ctx \<or> (enc_cipher self \<noteq> None \<and> dec_cipher self \<noteq> None)
      | GCM \<Rightarrow> explicit_iv_size self = 8 \<and> tag_size self = 16
      | NULL \<Rightarrow> False)"

section \<open>The example instance, field by field\<close>

lemma example_lib_simps:
  "lib_hmac example_lib = example_hmac"
  "pkcs7_k example_lib = 16"
  "os_urandom example_lib n = replicate n 0xA5"
  "lib_encrypt example_lib obj m = Inr (example_xor obj m)"
  "lib_decrypt example_lib obj m = Inr (example_xor obj m)"
  "lib_encrypt_and_digest example_lib obj m =
     Inr (example_xor obj m, example_tag (processed obj (example_xor obj m)))"
  "lib_verify example_lib obj t =
     (if t = example_tag obj then None else Some (ValueError ''MAC check failed''))"
  by (simp_all add: example_lib_def)

lemma example_tls_simps:
  "TLS_1_0 example_tls = 0x0301" "TLS_1_2 example_tls = 0x0303"
  "TLS_VERSIONS example_tls = [0x0300, 0x0301, 0x0302, 0x0303]"
  "APPLICATION_DATA example_tls = 0x17"
  by (simp_all add: example_tls_def)

section \<open>Properties of the PRF\<close>

lemma spec_P_hash_Suc:
  "spec_P_hash hm ls (Suc m) = spec_P_hash hm ls m @ hm (spec_A hm ls (Suc m) @ ls)"
  by (simp add: spec_P_hash_def spec_chunk_def)

lemma spec_P_hash_length:
  assumes "\<And>m. hm m \<noteq> []"
  shows "m \<le> length (spec_P_hash hm ls m)"
proof (induction m)
  case 0
  show ?case by simp
next
  case (Suc m)
  have "0 < length (hm (spec_A hm ls (Suc m) @ ls))"
    using assms by blast
  moreover have "length (spec_P_hash hm ls (Suc m)) =
      length (spec_P_hash hm ls m) + length (hm (spec_A hm ls (Suc m) @ ls))"
    by (simp only: spec_P_hash_Suc length_append)
  ultimately show ?case using Suc by linarith
qed

lemma spec_P_hash_prefix:
  "j \<le> m \<Longrightarrow> \<exists>r. spec_P_hash hm ls m = spec_P_hash hm ls j @ r"
proof (induction m)
  case 0
  then show ?case by simp
next
  case (Suc m)
  show ?case
  proof (cases "j = Suc m")
    case True
    then show ?thesis by simp
  next
    case False
    with Suc.prems have "j \<le> m" by simp
    with Suc.IH obtain r where "spec_P_hash hm ls m = spec_P_hash hm ls j @ r" by blast
    then show ?thesis
      by (simp only: spec_P_hash_Suc append_assoc) blast
  qed
qed

lemma get_bytes_while_spec:
  assumes ne: "\<And>m. hm m \<noteq> []"
  shows "j \<le> n \<Longrightarrow>
     get_bytes_while hm ls n (spec_P_hash hm ls j) (spec_A hm ls (Suc j)) = Some (spec_expand hm ls n)"
proof (induction "n - j" arbitrary: j)
  case 0
  then have "j = n" by simp
  moreover have "n \<le> length (spec_P_hash hm ls n)"
    using ne by (rule spec_P_hash_length)
  ultimately show ?case
    by (subst get_bytes_while.simps) (simp add: spec_expand_def)
next
  case (Suc k)
  then have jn: "j < n" by simp
  show ?case
  proof (cases "length (spec_P_hash hm ls j) < n")
    case True
    have "get_bytes_while hm ls n (spec_P_hash hm ls j) (spec_A hm ls (Suc j)) =
          get_bytes_while hm ls n (spec_P_hash hm ls (Suc j)) (spec_A hm ls (Suc (Suc j)))"
      using True by (subst get_bytes_while.simps) (simp add: spec_P_hash_Suc)
    moreover have "k = n - Suc j" "Suc j \<le> n" using Suc.hyps(2) jn by simp_all
    ultimately show ?thesis using Suc.hyps(1) [of "Suc j"] by simp
  next
    case False
    obtain r where r: "spec_P_hash hm ls n = spec_P_hash hm ls j @ r"
      using spec_P_hash_prefix [of j n hm ls] jn by auto
    have "take n (spec_P_hash hm ls j) = take n (spec_P_hash hm ls n)"
      using False by (simp add: r)
    then show ?thesis
      using False by (subst get_bytes_while.simps) (simp add: spec_expand_def)
  qed
qed

lemma TLSPRF__get_bytes_spec:
  assumes "\<And>m. lib_hmac L dg secret m \<noteq> []"
  shows "TLSPRF__get_bytes L dg secret label seed n =
         Some (spec_expand (lib_hmac L dg secret) (label @ seed) n)"
  using get_bytes_while_spec [of "lib_hmac L dg secret" 0 n "label @ seed"] assms
  by (simp add: TLSPRF__get_bytes_def spec_P_hash_def)

lemma spec_expand_length:
  assumes "\<And>m. hm m \<noteq> []"
  shows "length (spec_expand hm ls n) = n"
  using spec_P_hash_length [of hm n ls] assms by (simp add: spec_expand_def)

lemma xor_range_map:
  "\<forall>i\<in>set is. i < length a \<and> i < length b \<Longrightarrow>
   xor_range a b is = Inr (map (\<lambda>i. a ! i XOR b ! i) is)"
  by (induction "is") auto

lemma xor_range_upt:
  assumes "length a = n" "length b = n"
  shows "xor_range a b [0..<n] = Inr (map2 (XOR) a b)"
proof -
  have "xor_range a b [0..<n] = Inr (map (\<lambda>i. a ! i XOR b ! i) [0..<n])"
    using assms by (intro xor_range_map) simp
  moreover have "map (\<lambda>i. a ! i XOR b ! i) [0..<n] = map2 (XOR) a b"
    using assms by (intro nth_equalityI) simp_all
  ultimately show ?thesis by simp
qed

lemma py_suffix_half:
  "py_suffix (Suc (length s) div 2) s = drop (length s - Suc (length s) div 2) s"
  by (cases s) (simp_all add: py_suffix_def)

lemma TLSPRF_get_bytes_spec:
  assumes "\<forall>d k m. lib_hmac L d k m \<noteq> []"
  shows "\<exists>out. TLSPRF_get_bytes tls L self secret label seed n = Some (Inr out)
           \<and> length out = n
           \<and> out = (if TLS_1_2 tls \<le> tls_version self
                    then spec_prf_12 (lib_hmac L (digest self)) secret label seed n
                    else spec_prf_10 (lib_hmac L MD5) (lib_hmac L SHA) secret label seed n)"
proof (cases "TLS_1_2 tls \<le> tls_version self")
  case True
  then show ?thesis
    using assms
    by (simp add: TLSPRF_get_bytes_def TLSPRF__get_bytes_spec spec_prf_12_def spec_expand_length)
next
  case False
  define h where "h = (length secret + 1) div 2"
  have hk: "h \<le> length secret" by (simp add: h_def)
  let ?a = "spec_expand (lib_hmac L MD5 (take h secret)) (label @ seed) n"
  let ?b = "spec_expand (lib_hmac L SHA (drop (length secret - h) secret)) (label @ seed) n"
  have la: "length ?a = n" and lb: "length ?b = n"
    using assms by (simp_all add: spec_expand_length)
  have "TLSPRF_get_bytes tls L self secret label seed n = Some (xor_range ?a ?b [0..<n])"
    using False assms
    by (simp add: TLSPRF_get_bytes_def TLSPRF__get_bytes_spec Let_def py_suffix_half h_def)
  also have "\<dots> = Some (Inr (map2 (XOR) ?a ?b))"
    using la lb by (simp add: xor_range_upt)
  finally show ?thesis
    using False la lb by (simp add: spec_prf_10_def Let_def h_def)
qed

section \<open>Properties of the security parameters\<close>

lemma crypto_params_modes:
  "\<forall>d \<in> set (map snd crypto_params). mode_name (cipher d) \<noteq> NULL"
  by (simp add: crypto_params_def)

lemma supported_mode:
  assumes "map_of crypto_params suite = Some d"
  shows "mode_name (cipher d) \<noteq> NULL"
proof -
  from assms have "(suite, d) \<in> set crypto_params" by (rule map_of_SomeD)
  then have "d \<in> set (map snd crypto_params)" by force
  with crypto_params_modes show ?thesis by blast
qed

lemma TLSSecurityParameters_init_sizes:
  assumes "map_of crypto_params suite = Some d"
    and "length cr = 32" and "length sr = 32"
  shows "\<exists>sp. TLSSecurityParameters_init L p suite cr sr = Inr sp
     \<and> negotiated_crypto_param sp = d
     \<and> sp_prf sp = p
     \<and> hash_type sp = hash_class (hash d)
     \<and> cipher_type sp = cipher_class (cipher d)
     \<and> cipher_mode_name sp = mode_name (cipher d)
     \<and> block_size sp = class_block_size L (cipher_class (cipher d))
     \<and> cipher_key_length sp = key_len (cipher d)
     \<and> (case mode_name (cipher d) of
           GCM \<Rightarrow> mac_key_length sp = 0 \<and> iv_length sp = 4
         | CBC \<Rightarrow> mac_key_length sp = class_digest_size L (hash_type sp)
                   \<and> iv_length sp = block_size sp
         | STREAM \<Rightarrow> mac_key_length sp = class_digest_size L (hash_type sp)
                   \<and> iv_length sp = 0
         | NULL \<Rightarrow> False)"
  using assms supported_mode [OF assms(1)]
  by (cases "mode_name (cipher d)")
     (simp_all add: TLSSecurityParameters_init_def set_sec_param_sizes_def Let_def)


lemma lookup_RSA_WITH_AES_128_CBC_SHA:
  "map_of crypto_params 0x002f =
     Some \<lparr>suite_name = ''RSA_WITH_AES_128_CBC_SHA'', export = False,
           key_exchange = \<lparr>kex_class = RSA, kex_name = Kex_RSA, kex_sig = None\<rparr>,
           cipher = \<lparr>cipher_class = AES, cipher_name = ''AES'', key_len = 16,
                     mode = Some (MODE_CBC AES), mode_name = CBC\<rparr>,
           hash = \<lparr>hash_class = SHA, hash_name = ''SHA''\<rparr>, prf_entry = None\<rparr>"
  by (simp add: crypto_params_def)

lemma example_sizes:
  "class_digest_size example_lib SHA = 20"
  "class_block_size example_lib AES = 16"
  by (simp_all add: class_digest_size_def class_block_size_def example_lib_def)

lemma lookup_RSA_WITH_RC4_128_SHA:
  "map_of crypto_params 0x0005 =
     Some \<lparr>suite_name = ''RSA_WITH_RC4_128_SHA'', export = False,
           key_exchange = \<lparr>kex_class = RSA, kex_name = Kex_RSA, kex_sig = None\<rparr>,
           cipher = \<lparr>cipher_class = ARC4, cipher_name = ''RC4'', key_len = 16,
                     mode = None, mode_name = STREAM\<rparr>,
           hash = \<lparr>hash_class = SHA, hash_name = ''SHA''\<rparr>, prf_entry = None\<rparr>"
  by (simp add: crypto_params_def)







section \<open>Properties of the crypto contexts\<close>

lemma pack_header_ok:
  assumes "cd_sequence cd < 2 ^ 64" "content_type cd < 256" "cd_version cd = Some v"
    "v < 2 ^ 16" "data_len cd < 2 ^ 16"
  shows "pack_header cd = Inr (be_bytes 8 (cd_sequence cd) @ be_bytes 1 (content_type cd)
                               @ be_bytes 2 v @ be_bytes 2 (data_len cd))"
  using assms by (simp add: pack_header_def struct_pack_def)

lemma GCM_record_slices:
  assumes "length en = 8" "length tag = 16"
  shows "take 8 (en @ ct @ tag) = en"
    and "py_between 8 16 (en @ ct @ tag) = ct"
    and "py_suffix 16 (en @ ct @ tag) = tag"
  using assms by (simp_all add: py_between_def py_suffix_def)

lemma GCM_decrypt_record:
  assumes eng: "crypto_ctx ctx = Some self" "explicit_iv_size self = 8" "tag_size self = 16"
    and len: "length en = 8" "length tag = 16"
    and nn: "cipher_type (cc_sec_params self) \<noteq> NullCipher"
    and hdr: "sequence ctx < 2 ^ 64" "ctype < 256"
      "negotiated_version (negotiated tls_ctx) = Some v" "v < 2 ^ 16" "length ct < 2 ^ 16"
    and aad: "aad = be_bytes 8 (sequence ctx) @ be_bytes 1 ctype @ be_bytes 2 v
                    @ be_bytes 2 (length ct)"
    and fresh: "fresh = cipher_new (cipher_type (cc_sec_params self)) (key (sym_keystore ctx))
                   (cipher_mode (cc_sec_params self)) (Some (iv (sym_keystore ctx) @ en))"
    and dec: "lib_decrypt L (fresh\<lparr>c_aad := aad\<rparr>) ct = Inr clear"
    and ctx': "ctx' = ctx\<lparr>nonce := be_nat en, sequence := sequence ctx + 1,
                 crypto_ctx := Some (self\<lparr>enc_cipher := Some fresh,
                    dec_cipher := Some (processed (fresh\<lparr>c_aad := aad\<rparr>) ct)\<rparr>)\<rparr>"
  shows "GCMCryptoContext_decrypt tls L tls_ctx ctx (en @ ct @ tag) ctype =
     (case lib_verify L (processed (fresh\<lparr>c_aad := aad\<rparr>) ct) tag of
        None \<Rightarrow> Inr (en @ clear @ tag, ctx', [])
      | Some (ValueError why) \<Rightarrow> Inr (en @ clear @ tag, ctx', [GCM_tag_verification_failed why])
      | Some e \<Rightarrow> Inl e)"
proof -
  let ?cd = "(CryptoData_from_context tls tls_ctx ctx (replicate (length ct) 0))
               \<lparr>content_type := ctype\<rparr>"
  have hd: "pack_header ?cd = Inr aad"
    using hdr aad
    by (subst pack_header_ok [where v = v])
       (simp_all add: CryptoData_from_context_def CryptoData_init_def)
  have cont: "GCMCryptoContainer_init ?cd = Inr \<lparr>gcm_crypto_data = ?cd, aead = aad\<rparr>"
    by (simp add: GCMCryptoContainer_init_def hd)
  have upd: "cipher_update fresh aad = Inr (fresh\<lparr>c_aad := aad\<rparr>)"
    using nn by (simp add: cipher_update_def fresh cipher_new_def)
  have dec': "cipher_decrypt L (fresh\<lparr>c_aad := aad\<rparr>) ct = Inr clear"
    using nn dec by (simp add: cipher_decrypt_def fresh cipher_new_def)
  have ver: "cipher_verify L (processed (fresh\<lparr>c_aad := aad\<rparr>) ct) tag
             = lib_verify L (processed (fresh\<lparr>c_aad := aad\<rparr>) ct) tag"
    using nn by (simp add: cipher_verify_def fresh cipher_new_def processed_def)
  have unp: "struct_unpack_Q en = Inr (be_nat en)"
    using len by (simp add: struct_unpack_Q_def)
  show ?thesis
    unfolding GCMCryptoContext_decrypt_def
    using eng len
    by (simp add: GCM_record_slices [OF len] Let_def cont get_nonce_def GCM_init_ciphers_def
          fresh [symmetric] upd dec' ver unp ctx'
        split: option.splits error.splits)
qed

lemma lookup_ECDHE_ECDSA_WITH_AES_128_GCM_SHA256:
  "map_of crypto_params 0xc02b =
     Some \<lparr>suite_name = ''ECDHE_ECDSA_WITH_AES_128_GCM_SHA256'', export = False,
           key_exchange = \<lparr>kex_class = ECDHE, kex_name = Kex_ECDHE, kex_sig = Some ECDSA\<rparr>,
           cipher = \<lparr>cipher_class = AES, cipher_name = ''AES'', key_len = 16,
                     mode = Some (MODE_GCM AES), mode_name = GCM\<rparr>,
           hash = \<lparr>hash_class = NullHash, hash_name = ''NULL''\<rparr>,
           prf_entry = Some \<lparr>prf_class = SHA256, prf_name = ''SHA256''\<rparr>\<rparr>"
  by (simp add: crypto_params_def)

lemma example_session_GCM:
  "\<exists>sp. sec_params (example_session 0xc02b 0x0303) = Some sp
      \<and> cipher_type sp = AES \<and> cipher_mode sp = Some (MODE_GCM AES)
      \<and> cipher_mode_name sp = GCM
      \<and> negotiated_version (negotiated (example_session 0xc02b 0x0303)) = Some 0x0303
      \<and> client_ctx (example_session 0xc02b 0x0303) =
          (TLSContext_init ''Client TLS context'')
            \<lparr>sym_keystore := \<lparr>ks_empty = False, key = [0x11, 0x22], hmac = [0x33],
                               iv = [1, 2, 3, 4]\<rparr>,
             crypto_ctx := Some \<lparr>cc_sec_params = sp, cc_mode = GCM, enc_cipher = None,
                                 dec_cipher = None, cc_explicit_iv = [], tag_size = 16,
                                 explicit_iv_size = 8\<rparr>\<rparr>"
  by (simp add: example_session_def TLSSecurityParameters_init_def
        lookup_ECDHE_ECDSA_WITH_AES_128_GCM_SHA256 set_sec_param_sizes_def Let_def
        generate_secrets_def TLSSessionCtx_init_def TLSContext_init_def EmptySymKeyStore_def
        CryptoContextFactory_new_def GCMCryptoContext_init_def CipherKeyStore_def
        class_block_size_def example_lib_def)

lemma length_be_bytes: "length (be_bytes k v) = k"
  by (simp add: be_bytes_def)

lemma example_GCM_decrypt:
  assumes "length ct < 2 ^ 16"
  shows "\<exists>ctx'. GCMCryptoContext_decrypt example_tls example_lib (example_session 0xc02b 0x0303)
            (client_ctx (example_session 0xc02b 0x0303)) (replicate 8 0 @ ct @ replicate 16 t) 0x17
          = Inr (replicate 8 0 @ map (\<lambda>b. b XOR 0x11) ct @ replicate 16 t, ctx',
                 if t = 13 + sum_list ct then []
                 else [GCM_tag_verification_failed ''MAC check failed''])
        \<and> nonce ctx' = 0 \<and> sequence ctx' = 1"
proof -
  let ?S = "example_session 0xc02b 0x0303"
  obtain sp where sp: "sec_params ?S = Some sp" "cipher_type sp = AES"
      "cipher_mode sp = Some (MODE_GCM AES)"
      "negotiated_version (negotiated ?S) = Some 0x0303"
    and ctx: "client_ctx ?S = (TLSContext_init ''Client TLS context'')
            \<lparr>sym_keystore := \<lparr>ks_empty = False, key = [0x11, 0x22], hmac = [0x33],
                               iv = [1, 2, 3, 4]\<rparr>,
             crypto_ctx := Some \<lparr>cc_sec_params = sp, cc_mode = GCM, enc_cipher = None,
                                 dec_cipher = None, cc_explicit_iv = [], tag_size = 16,
                                 explicit_iv_size = 8\<rparr>\<rparr>"
    using example_session_GCM by blast
  let ?self = "\<lparr>cc_sec_params = sp, cc_mode = GCM, enc_cipher = None,
                 dec_cipher = None, cc_explicit_iv = [], tag_size = 16, explicit_iv_size = 8\<rparr>"
  let ?ctx = "client_ctx ?S"
  have 1: "crypto_ctx ?ctx = Some ?self" by (simp add: ctx)
  have 7: "sequence ?ctx < 2 ^ 64" by (simp add: ctx TLSContext_init_def)
  have 6: "cipher_type (cc_sec_params ?self) \<noteq> NullCipher" by (simp add: sp)
  have 9: "negotiated_version (negotiated ?S) = Some 0x0303" by (rule sp(4))
  note rec = GCM_decrypt_record [where tls = example_tls and L = example_lib and ctx = ?ctx
      and self = ?self and en = "replicate 8 0" and tag = "replicate 16 t" and ct = ct
      and ctype = "0x17" and tls_ctx = ?S and v = "0x0303", OF 1 _ _ _ _ 6 7 _ 9 _ assms refl refl _ refl]
  have be: "be_nat (replicate 8 0) = 0" by (simp add: be_nat_def numeral_eq_Suc)
  show ?thesis
    by (subst rec)
       (simp_all add: example_lib_simps example_tag_def processed_def cipher_new_def
          example_xor_def ctx be length_be_bytes TLSContext_init_def)
qed

lemma example_GCM_ctx:
  obtains self where
    "crypto_ctx (client_ctx (example_session 0xc02b 0x0303)) = Some self"
    "explicit_iv_size self = 8" "tag_size self = 16" "cc_mode self = GCM"
    "enc_cipher self = None" "dec_cipher self = None"
    "cipher_type (cc_sec_params self) = AES"
    "cipher_mode (cc_sec_params self) = Some (MODE_GCM AES)"
    "sequence (client_ctx (example_session 0xc02b 0x0303)) = 0"
    "nonce (client_ctx (example_session 0xc02b 0x0303)) = 0"
    "key (sym_keystore (client_ctx (example_session 0xc02b 0x0303))) = [0x11, 0x22]"
    "iv (sym_keystore (client_ctx (example_session 0xc02b 0x0303))) = [1, 2, 3, 4]"
    "negotiated_version (negotiated (example_session 0xc02b 0x0303)) = Some 0x0303"
proof -
  obtain sp where sp: "cipher_type sp = AES" "cipher_mode sp = Some (MODE_GCM AES)"
      "negotiated_version (negotiated (example_session 0xc02b 0x0303)) = Some 0x0303"
    and ctx: "client_ctx (example_session 0xc02b 0x0303) =
          (TLSContext_init ''Client TLS context'')
            \<lparr>sym_keystore := \<lparr>ks_empty = False, key = [0x11, 0x22], hmac = [0x33],
                               iv = [1, 2, 3, 4]\<rparr>,
             crypto_ctx := Some \<lparr>cc_sec_params = sp, cc_mode = GCM, enc_cipher = None,
                                 dec_cipher = None, cc_explicit_iv = [], tag_size = 16,
                                 explicit_iv_size = 8\<rparr>\<rparr>"
    using example_session_GCM by blast
  show thesis
    by (rule that [of "\<lparr>cc_sec_params = sp, cc_mode = GCM, enc_cipher = None,
                        dec_cipher = None, cc_explicit_iv = [], tag_size = 16,
                        explicit_iv_size = 8\<rparr>"])
       (simp_all add: ctx sp TLSContext_init_def)
qed

lemma replicate_8: "replicate 8 x = [x, x, x, x, x, x, x, x]"
  by (simp add: numeral_eq_Suc)

lemma replicate_16: "replicate 16 x = [x, x, x, x, x, x, x, x, x, x, x, x, x, x, x, x]"
  by (simp add: numeral_eq_Suc)

lemma example_GCM_encrypt:
  "\<exists>ctx'. GCMCryptoContext_encrypt example_lib (client_ctx (example_session 0xc02b 0x0303))
       (GCMContainer \<lparr>gcm_crypto_data = \<lparr>data = [1, 2, 3, 4, 5, 6], cd_sequence = 0,
                                           cd_version = Some 0x0303, content_type = 0x17,
                                           data_len = 6\<rparr>,
                       aead = [0, 0, 0, 0, 0, 0, 0, 0, 23, 3, 3, 0, 6]\<rparr>)
     = Inr (replicate 8 0 @ [16, 19, 18, 21, 20, 23] @ replicate 16 130, ctx')
     \<and> sequence ctx' = 1 \<and> nonce ctx' = 1"
proof -
  obtain self where f: "crypto_ctx (client_ctx (example_session 0xc02b 0x0303)) = Some self"
    "cipher_type (cc_sec_params self) = AES"
    "nonce (client_ctx (example_session 0xc02b 0x0303)) = 0"
    "sequence (client_ctx (example_session 0xc02b 0x0303)) = 0"
    "key (sym_keystore (client_ctx (example_session 0xc02b 0x0303))) = [0x11, 0x22]"
    by (rule example_GCM_ctx)
  have p: "struct_pack 8 0 = Inr [0, 0, 0, 0, 0, 0, 0, 0]"
    by (simp add: struct_pack_def be_bytes_def upt_rec)
  show ?thesis
    by (simp add: GCMCryptoContext_encrypt_def f get_nonce_def p GCM_init_ciphers_def
          cipher_new_def cipher_update_def cipher_encrypt_and_digest_def
          GCMCryptoContainer_str_def example_lib_simps example_xor_def example_tag_def
          processed_def replicate_8 replicate_16)
qed

lemma Stream_decrypt_raw:
  assumes "crypto_ctx ctx = Some self" and "dec_cipher self = Some obj"
  shows "StreamCryptoContext_decrypt L ctx wire ctype =
           (case cipher_decrypt L obj wire of
              Inl e \<Rightarrow> Inl e
            | Inr cleartext \<Rightarrow>
                Inr (cleartext,
                     ctx\<lparr>sequence := sequence ctx + 1,
                         crypto_ctx := Some (self\<lparr>dec_cipher := Some (processed obj wire)\<rparr>)\<rparr>))"
  using assms by (simp add: StreamCryptoContext_decrypt_def)

lemma CBC_decrypt_raw:
  assumes "crypto_ctx ctx = Some self"
    and "obj = (if requires_iv tls_ctx
                then cipher_new (cipher_type (cc_sec_params self)) (key (sym_keystore ctx))
                       (cipher_mode (cc_sec_params self)) (Some (iv (sym_keystore ctx)))
                else the (dec_cipher self))"
    and "requires_iv tls_ctx \<or> dec_cipher self \<noteq> None"
  shows "CBCCryptoContext_decrypt L tls_ctx ctx wire ctype =
           (case cipher_decrypt L obj wire of
              Inl e \<Rightarrow> Inl e
            | Inr cleartext \<Rightarrow>
                Inr (cleartext,
                     ctx\<lparr>sequence := sequence ctx + 1,
                         crypto_ctx := Some
                           ((if requires_iv tls_ctx then CBC_init_ciphers self ctx else self)
                              \<lparr>dec_cipher := Some (processed obj wire)\<rparr>)\<rparr>))"
  using assms
  by (auto simp: CBCCryptoContext_decrypt_def CBC_init_ciphers_def Let_def split: sum.splits)

lemma Stream_decrypt_no_mac:
  "map_sum id fst (StreamCryptoContext_decrypt (L\<lparr>lib_hmac := h, pkcs7_k := k\<rparr>)
                     (ctx\<lparr>sym_keystore := (sym_keystore ctx)\<lparr>hmac := m\<rparr>\<rparr>) wire ctype)
   = map_sum id fst (StreamCryptoContext_decrypt L ctx wire ctype)"
  by (simp add: StreamCryptoContext_decrypt_def cipher_decrypt_def
           split: option.splits sum.splits)

lemma CBC_decrypt_no_mac:
  "map_sum id fst (CBCCryptoContext_decrypt (L\<lparr>lib_hmac := h, pkcs7_k := k\<rparr>) tls_ctx
                     (ctx\<lparr>sym_keystore := (sym_keystore ctx)\<lparr>hmac := m\<rparr>\<rparr>) wire ctype)
   = map_sum id fst (CBCCryptoContext_decrypt L tls_ctx ctx wire ctype)"
  by (simp add: CBCCryptoContext_decrypt_def cipher_decrypt_def CBC_init_ciphers_def Let_def
           split: option.splits sum.splits)

lemma lookup_RSA_WITH_NULL_SHA:
  "map_of crypto_params 0x0002 =
     Some \<lparr>suite_name = ''RSA_WITH_NULL_SHA'', export = False,
           key_exchange = \<lparr>kex_class = RSA, kex_name = Kex_RSA, kex_sig = None\<rparr>,
           cipher = \<lparr>cipher_class = NullCipher, cipher_name = ''Null'', key_len = 0,
                     mode = None, mode_name = CBC\<rparr>,
           hash = \<lparr>hash_class = SHA, hash_name = ''SHA''\<rparr>, prf_entry = None\<rparr>"
  by (simp add: crypto_params_def)

lemma example_session_NULL:
  "\<exists>sp. sec_params (example_session 0x0002 0x0301) = Some sp
      \<and> cipher_type sp = NullCipher \<and> cipher_mode sp = None \<and> cipher_mode_name sp = CBC
      \<and> block_size sp = 0 \<and> hash_type sp = SHA
      \<and> \<not> requires_iv (example_session 0x0002 0x0301)
      \<and> negotiated_version (negotiated (example_session 0x0002 0x0301)) = Some 0x0301
      \<and> client_ctx (example_session 0x0002 0x0301) =
          (TLSContext_init ''Client TLS context'')
            \<lparr>sym_keystore := \<lparr>ks_empty = False, key = [0x11, 0x22], hmac = [0x33],
                               iv = [1, 2, 3, 4]\<rparr>,
             crypto_ctx := Some \<lparr>cc_sec_params = sp, cc_mode = CBC,
                 enc_cipher = Some (cipher_new NullCipher [0x11, 0x22] None (Some [1, 2, 3, 4])),
                 dec_cipher = Some (cipher_new NullCipher [0x11, 0x22] None (Some [1, 2, 3, 4])),
                 cc_explicit_iv = [], tag_size = 0, explicit_iv_size = 0\<rparr>\<rparr>"
  by (simp add: example_session_def TLSSecurityParameters_init_def
        lookup_RSA_WITH_NULL_SHA set_sec_param_sizes_def Let_def
        generate_secrets_def TLSSessionCtx_init_def TLSContext_init_def EmptySymKeyStore_def
        CryptoContextFactory_new_def CBCCryptoContext_init_def CBC_init_ciphers_def
        CipherKeyStore_def class_block_size_def class_digest_size_def example_tls_def)

lemma example_session_RC4:
  "\<exists>sp. sec_params (example_session 0x0005 0x0301) = Some sp
      \<and> cipher_type sp = ARC4 \<and> cipher_mode_name sp = STREAM
      \<and> client_ctx (example_session 0x0005 0x0301) =
          (TLSContext_init ''Client TLS context'')
            \<lparr>sym_keystore := \<lparr>ks_empty = False, key = [0x11, 0x22], hmac = [0x33],
                               iv = [1, 2, 3, 4]\<rparr>,
             crypto_ctx := Some \<lparr>cc_sec_params = sp, cc_mode = STREAM,
                 enc_cipher = Some (cipher_new ARC4 [0x11, 0x22] None None),
                 dec_cipher = Some (cipher_new ARC4 [0x11, 0x22] None None),
                 cc_explicit_iv = [], tag_size = 0, explicit_iv_size = 0\<rparr>\<rparr>"
  by (simp add: example_session_def TLSSecurityParameters_init_def
        lookup_RSA_WITH_RC4_128_SHA set_sec_param_sizes_def Let_def
        generate_secrets_def TLSSessionCtx_init_def TLSContext_init_def EmptySymKeyStore_def
        CryptoContextFactory_new_def StreamCryptoContext_init_def
        CipherKeyStore_def class_block_size_def class_digest_size_def example_tls_def)

lemma CBC_init_requires_iv:
  assumes "requires_iv tls_ctx" and "sec_params tls_ctx = Some sp"
    and "CBCCryptoContext_init tls_ctx ctx0 = Inr (self0, ctx1)"
  shows "iv (sym_keystore ctx1) = replicate (block_size sp) 0"
    and "key (sym_keystore ctx1) = key (sym_keystore ctx0)"
    and "cc_sec_params self0 = sp" and "cc_mode self0 = CBC"
    and "enc_cipher self0 = None" and "dec_cipher self0 = None"
  using assms by (auto simp: CBCCryptoContext_init_def Let_def)

lemma CBC_encrypt_requires_iv:
  assumes "requires_iv tls_ctx" and "crypto_ctx ctx = Some self"
    and "fresh = cipher_new (cipher_type (cc_sec_params self)) (key (sym_keystore ctx))
                   (cipher_mode (cc_sec_params self)) (Some (iv (sym_keystore ctx)))"
  shows "CBCCryptoContext_encrypt L tls_ctx ctx c =
           (case cipher_encrypt L fresh (container_str c) of
              Inl e \<Rightarrow> Inl e
            | Inr ciphertext \<Rightarrow>
                Inr (ciphertext,
                     ctx\<lparr>sequence := sequence ctx + 1,
                         crypto_ctx := Some (self\<lparr>enc_cipher :=
                                                    Some (processed fresh (container_str c)),
                                                  dec_cipher := Some fresh\<rparr>)\<rparr>))"
  using assms
  by (simp add: CBCCryptoContext_encrypt_def CBC_init_ciphers_def Let_def split: sum.splits)

lemma CBC_decrypt_requires_iv:
  assumes "requires_iv tls_ctx" and "crypto_ctx ctx = Some self"
    and "fresh = cipher_new (cipher_type (cc_sec_params self)) (key (sym_keystore ctx))
                   (cipher_mode (cc_sec_params self)) (Some (iv (sym_keystore ctx)))"
  shows "CBCCryptoContext_decrypt L tls_ctx ctx wire ctype =
           (case cipher_decrypt L fresh wire of
              Inl e \<Rightarrow> Inl e
            | Inr cleartext \<Rightarrow>
                Inr (cleartext,
                     ctx\<lparr>sequence := sequence ctx + 1,
                         crypto_ctx := Some (self\<lparr>enc_cipher := Some fresh,
                                                  dec_cipher := Some (processed fresh wire)\<rparr>)\<rparr>))"
  using assms
  by (simp add: CBCCryptoContext_decrypt_def CBC_init_ciphers_def Let_def split: sum.splits)

lemma CBC_from_context_explicit_iv:
  assumes "requires_iv tls_ctx" and "sec_params tls_ctx = Some sp"
    and "CBCCryptoContainer_from_context L tls_ctx ctx cd = Inr c"
  shows "cbc_explicit_iv c = os_urandom L (block_size sp)"
    and "CBCCryptoContainer_str c =
           os_urandom L (block_size sp) @ data cd @ cbc_mac c @ cbc_padding c @ [cbc_padding_len c]"
  using assms
  by (auto simp: CBCCryptoContainer_from_context_def CBCCryptoContainer_init_def
        CBCCryptoContainer_str_def Let_def split: sum.splits if_splits)

lemma example_session_AES_1_1:
  "\<exists>sp. sec_params (example_session 0x002f 0x0302) = Some sp
      \<and> cipher_type sp = AES \<and> cipher_mode sp = Some (MODE_CBC AES)
      \<and> cipher_mode_name sp = CBC \<and> block_size sp = 16 \<and> hash_type sp = SHA
      \<and> requires_iv (example_session 0x002f 0x0302)
      \<and> negotiated_version (negotiated (example_session 0x002f 0x0302)) = Some 0x0302
      \<and> CBCCryptoContext_init (example_session 0x002f 0x0302)
            ((TLSContext_init ''Client TLS context'')
               \<lparr>sym_keystore := \<lparr>ks_empty = False, key = [0x11, 0x22], hmac = [0x33],
                                  iv = [1, 2, 3, 4]\<rparr>\<rparr>)
          = Inr (\<lparr>cc_sec_params = sp, cc_mode = CBC, enc_cipher = None, dec_cipher = None,
                  cc_explicit_iv = [], tag_size = 0, explicit_iv_size = 0\<rparr>,
                 (TLSContext_init ''Client TLS context'')
                   \<lparr>sym_keystore := \<lparr>ks_empty = False, key = [0x11, 0x22], hmac = [0x33],
                                      iv = replicate 16 0\<rparr>\<rparr>)
      \<and> client_ctx (example_session 0x002f 0x0302) =
          (TLSContext_init ''Client TLS context'')
            \<lparr>sym_keystore := \<lparr>ks_empty = False, key = [0x11, 0x22], hmac = [0x33],
                               iv = replicate 16 0\<rparr>,
             crypto_ctx := Some \<lparr>cc_sec_params = sp, cc_mode = CBC, enc_cipher = None,
                                 dec_cipher = None, cc_explicit_iv = [], tag_size = 0,
                                 explicit_iv_size = 0\<rparr>\<rparr>"
  by (simp add: example_session_def TLSSecurityParameters_init_def
        lookup_RSA_WITH_AES_128_CBC_SHA set_sec_param_sizes_def Let_def
        generate_secrets_def TLSSessionCtx_init_def TLSContext_init_def EmptySymKeyStore_def
        CryptoContextFactory_new_def CBCCryptoContext_init_def
        CipherKeyStore_def class_block_size_def class_digest_size_def example_tls_def
        example_lib_def)

lemma example_CBC_container:
  "CBCCryptoContainer_from_context example_lib (example_session 0x002f 0x0302)
     (client_ctx (example_session 0x002f 0x0302))
     (CryptoData_from_context example_tls (example_session 0x002f 0x0302)
        (client_ctx (example_session 0x002f 0x0302)) [1, 2, 3])
   = Inr \<lparr>cbc_crypto_data = \<lparr>data = [1, 2, 3], cd_sequence = 0, cd_version = Some 0x0302,
                               content_type = 0x17, data_len = 3\<rparr>,
          cbc_digest = \<lparr>hmac_key = [0x33], digestmod = SHA\<rparr>,
          cbc_explicit_iv = replicate 16 0xA5,
          cbc_mac = [0x6A],
          cbc_padding = replicate 11 11,
          cbc_padding_len = 11\<rparr>"
proof -
  obtain sp where sp: "sec_params (example_session 0x002f 0x0302) = Some sp"
    "block_size sp = 16" "hash_type sp = SHA" "requires_iv (example_session 0x002f 0x0302)"
    "negotiated_version (negotiated (example_session 0x002f 0x0302)) = Some 0x0302"
    and ctx: "client_ctx (example_session 0x002f 0x0302) =
          (TLSContext_init ''Client TLS context'')
            \<lparr>sym_keystore := \<lparr>ks_empty = False, key = [0x11, 0x22], hmac = [0x33],
                               iv = replicate 16 0\<rparr>,
             crypto_ctx := Some \<lparr>cc_sec_params = sp, cc_mode = CBC, enc_cipher = None,
                                 dec_cipher = None, cc_explicit_iv = [], tag_size = 0,
                                 explicit_iv_size = 0\<rparr>\<rparr>"
    using example_session_AES_1_1 by blast
  show ?thesis
    by (simp add: CBCCryptoContainer_from_context_def sp ctx CryptoData_from_context_def
          CryptoData_init_def TLSContext_init_def example_tls_simps example_lib_simps
          CBCCryptoContainer_init_def pack_header_def struct_pack_def be_bytes_def upt_rec
          example_hmac_def PKCS7Encoder_get_padding_def Let_def)
qed

lemma example_CBC_ctx:
  obtains sp self where
    "sec_params (example_session 0x002f 0x0302) = Some sp"
    "requires_iv (example_session 0x002f 0x0302)"
    "cipher_type sp = AES" "cipher_mode sp = Some (MODE_CBC AES)" "block_size sp = 16"
    "CBCCryptoContext_init (example_session 0x002f 0x0302)
            ((TLSContext_init ''Client TLS context'')
               \<lparr>sym_keystore := \<lparr>ks_empty = False, key = [0x11, 0x22], hmac = [0x33],
                                  iv = [1, 2, 3, 4]\<rparr>\<rparr>)
       = Inr (self, (client_ctx (example_session 0x002f 0x0302))\<lparr>crypto_ctx := None\<rparr>)"
    "crypto_ctx (client_ctx (example_session 0x002f 0x0302)) = Some self"
    "cc_sec_params self = sp"
    "sequence (client_ctx (example_session 0x002f 0x0302)) = 0"
proof -
  obtain sp where sp: "sec_params (example_session 0x002f 0x0302) = Some sp"
    "requires_iv (example_session 0x002f 0x0302)"
    "cipher_type sp = AES" "cipher_mode sp = Some (MODE_CBC AES)" "block_size sp = 16"
    "CBCCryptoContext_init (example_session 0x002f 0x0302)
            ((TLSContext_init ''Client TLS context'')
               \<lparr>sym_keystore := \<lparr>ks_empty = False, key = [0x11, 0x22], hmac = [0x33],
                                  iv = [1, 2, 3, 4]\<rparr>\<rparr>)
          = Inr (\<lparr>cc_sec_params = sp, cc_mode = CBC, enc_cipher = None, dec_cipher = None,
                  cc_explicit_iv = [], tag_size = 0, explicit_iv_size = 0\<rparr>,
                 (TLSContext_init ''Client TLS context'')
                   \<lparr>sym_keystore := \<lparr>ks_empty = False, key = [0x11, 0x22], hmac = [0x33],
                                      iv = replicate 16 0\<rparr>\<rparr>)"
    and ctx: "client_ctx (example_session 0x002f 0x0302) =
          (TLSContext_init ''Client TLS context'')
            \<lparr>sym_keystore := \<lparr>ks_empty = False, key = [0x11, 0x22], hmac = [0x33],
                               iv = replicate 16 0\<rparr>,
             crypto_ctx := Some \<lparr>cc_sec_params = sp, cc_mode = CBC, enc_cipher = None,
                                 dec_cipher = None, cc_explicit_iv = [], tag_size = 0,
                                 explicit_iv_size = 0\<rparr>\<rparr>"
    using example_session_AES_1_1 by blast
  show thesis
    by (rule that [of sp "\<lparr>cc_sec_params = sp, cc_mode = CBC, enc_cipher = None,
                             dec_cipher = None, cc_explicit_iv = [], tag_size = 0,
                             explicit_iv_size = 0\<rparr>"])
       (insert sp ctx, simp_all add: TLSContext_init_def)
qed

lemma CBC_container_framing:
  assumes "CBCCryptoContainer_init L cd dg eiv = Inr c"
  shows "cbc_crypto_data c = cd" and "cbc_explicit_iv c = eiv"
    and "cbc_padding c = PKCS7Encoder_get_padding (pkcs7_k L) (data cd @ cbc_mac c @ [0xff])"
    and "length (cbc_padding c) < 256"
    and "cbc_padding_len c = of_nat (length (cbc_padding c))"
  using assms
  by (auto simp: CBCCryptoContainer_init_def Let_def split: sum.splits if_splits)

lemma CBC_from_context_init:
  assumes "CBCCryptoContainer_from_context L tls_ctx ctx cd = Inr c"
  shows "\<exists>dg eiv. CBCCryptoContainer_init L cd dg eiv = Inr c"
  using assms
  by (auto simp: CBCCryptoContainer_from_context_def Let_def split: option.splits)

lemma lookup_RSA_WITH_DES_CBC_SHA:
  "map_of crypto_params 0x0009 =
     Some \<lparr>suite_name = ''RSA_WITH_DES_CBC_SHA'', export = False,
           key_exchange = \<lparr>kex_class = RSA, kex_name = Kex_RSA, kex_sig = None\<rparr>,
           cipher = \<lparr>cipher_class = DES, cipher_name = ''DES'', key_len = 8,
                     mode = Some (MODE_CBC DES), mode_name = CBC\<rparr>,
           hash = \<lparr>hash_class = SHA, hash_name = ''SHA''\<rparr>, prf_entry = None\<rparr>"
  by (simp add: crypto_params_def)

lemma example_session_DES_1_0:
  "\<exists>sp. sec_params (example_session 0x0009 0x0301) = Some sp
      \<and> block_size sp = 8 \<and> hash_type sp = SHA
      \<and> \<not> requires_iv (example_session 0x0009 0x0301)
      \<and> hmac (sym_keystore (client_ctx (example_session 0x0009 0x0301))) = [0x33]"
  by (simp add: example_session_def TLSSecurityParameters_init_def
        lookup_RSA_WITH_DES_CBC_SHA set_sec_param_sizes_def Let_def
        generate_secrets_def TLSSessionCtx_init_def TLSContext_init_def EmptySymKeyStore_def
        CryptoContextFactory_new_def CBCCryptoContext_init_def CBC_init_ciphers_def
        CipherKeyStore_def class_block_size_def class_digest_size_def example_tls_def
        example_lib_def)

lemma example_session_AES_1_0:
  "\<exists>sp. sec_params (example_session 0x002f 0x0301) = Some sp
      \<and> block_size sp = 16 \<and> hash_type sp = SHA
      \<and> \<not> requires_iv (example_session 0x002f 0x0301)
      \<and> hmac (sym_keystore (client_ctx (example_session 0x002f 0x0301))) = [0x33]"
  by (simp add: example_session_def TLSSecurityParameters_init_def
        lookup_RSA_WITH_AES_128_CBC_SHA set_sec_param_sizes_def Let_def
        generate_secrets_def TLSSessionCtx_init_def TLSContext_init_def EmptySymKeyStore_def
        CryptoContextFactory_new_def CBCCryptoContext_init_def CBC_init_ciphers_def
        CipherKeyStore_def class_block_size_def class_digest_size_def example_tls_def
        example_lib_def)

section \<open>The ServerHello with an unknown cipher suite\<close>

lemma lookup_RSA_WITH_IDEA_CBC_SHA: "map_of crypto_params 0x0007 = None"
  by (simp add: crypto_params_def)

section \<open>Properties of the CBC container\<close>

lemma pkcs7_pad_dvd:
  assumes "0 < (k :: nat)"
  shows "k dvd l + (k - l mod k)"
proof -
  have le: "l mod k \<le> k" "l mod k \<le> l" using assms by (simp_all add: less_imp_le)
  have "l + (k - l mod k) = (l - l mod k) + k" using le by simp
  also have "\<dots> = k * (l div k) + k" by (simp add: minus_mod_eq_mult_div)
  finally have "l + (k - l mod k) = k * (l div k + 1)" by simp
  then show ?thesis by simp
qed

lemma get_padding_bytes:
  "PKCS7Encoder_get_padding k (xs @ ys @ [b])
   = replicate (k - (length xs + length ys + 1) mod k)
       (of_nat (k - (length xs + length ys + 1) mod k))"
  by (simp add: PKCS7Encoder_get_padding_def Let_def)

lemma CBC_init_returns:
  assumes "pack_header cd = Inr header"
    and "mac = lib_hmac L (digestmod dg) (hmac_key dg) (header @ data cd)"
    and "p = pkcs7_k L - (length (data cd) + length mac + 1) mod pkcs7_k L"
    and "pkcs7_k L < 256"
  shows "CBCCryptoContainer_init L cd dg eiv
         = Inr \<lparr>cbc_crypto_data = cd, cbc_digest = dg, cbc_explicit_iv = eiv, cbc_mac = mac,
                cbc_padding = replicate p (of_nat p), cbc_padding_len = of_nat p\<rparr>"
proof -
  have lt: "p < 256" using assms(3,4) by simp
  have pad: "PKCS7Encoder_get_padding (pkcs7_k L) (data cd @ mac @ [0xff])
             = replicate p (of_nat p)"
    unfolding assms(3) by (rule get_padding_bytes)
  have mac': "lib_hmac L (digestmod dg) (hmac_key dg) (header @ data cd) = mac"
    using assms(2) by simp
  show ?thesis
    unfolding CBCCryptoContainer_init_def
    by (simp add: assms(1) mac' Let_def pad lt)
qed

lemma CBC_from_context_mac:
  assumes "CBCCryptoContainer_from_context L tls_ctx ctx cd = Inr c"
    and "sec_params tls_ctx = Some sp"
  shows "\<exists>header. pack_header cd = Inr header
           \<and> cbc_mac c = lib_hmac L (hash_type sp) (hmac (sym_keystore ctx)) (header @ data cd)
           \<and> cbc_padding c = PKCS7Encoder_get_padding (pkcs7_k L) (data cd @ cbc_mac c @ [0xff])"
  using assms
  by (auto simp: CBCCryptoContainer_from_context_def CBCCryptoContainer_init_def Let_def
      split: sum.splits if_splits)

lemma CBC_from_context_returns:
  assumes "sec_params tls_ctx = Some sp"
    and "pack_header cd = Inr header"
    and "mac = lib_hmac L (hash_type sp) (hmac (sym_keystore ctx)) (header @ data cd)"
    and "p = pkcs7_k L - (length (data cd) + length mac + 1) mod pkcs7_k L"
    and "pkcs7_k L < 256"
  shows "CBCCryptoContainer_from_context L tls_ctx ctx cd
         = Inr \<lparr>cbc_crypto_data = cd,
                cbc_digest = \<lparr>hmac_key = hmac (sym_keystore ctx), digestmod = hash_type sp\<rparr>,
                cbc_explicit_iv =
                  (if requires_iv tls_ctx then os_urandom L (block_size sp) else []),
                cbc_mac = mac,
                cbc_padding = replicate p (of_nat p), cbc_padding_len = of_nat p\<rparr>"
  unfolding CBCCryptoContainer_from_context_def
  by (simp add: assms(1) Let_def
        CBC_init_returns [OF assms(2) _ assms(4) assms(5),
          where dg = "\<lparr>hmac_key = hmac (sym_keystore ctx), digestmod = hash_type sp\<rparr>"]
        assms(3))

lemma example_lib_sized_simps:
  "lib_hmac example_lib_sized = example_hmac_sized"
  "pkcs7_k example_lib_sized = 16"
  "pkcs7_k (example_lib_sized\<lparr>pkcs7_k := k\<rparr>) = k"
  "lib_hmac (example_lib_sized\<lparr>pkcs7_k := k\<rparr>) = example_hmac_sized"
  "os_urandom example_lib_sized n = replicate n 0xA5"
  by (simp_all add: example_lib_sized_def example_lib_def)

lemma data_CryptoData_init: "data (CryptoData_init d s v t n) = d"
  by (simp add: CryptoData_init_def)

lemma length_example_hmac_sized: "length (example_hmac_sized SHA k m) = 20"
  by (simp add: example_hmac_sized_def)

lemma example_headers:
  "pack_header (CryptoData_init [1, 2, 3] 0 (Some 0x0302) 0x17 None)
     = Inr [0, 0, 0, 0, 0, 0, 0, 0, 23, 3, 2, 0, 3]"
  "pack_header (CryptoData_init [1, 2, 3, 4, 5, 6, 7, 8, 9, 10, 11] 0 (Some 0x0301) 0x17 None)
     = Inr [0, 0, 0, 0, 0, 0, 0, 0, 23, 3, 1, 0, 11]"
  "pack_header (CryptoData_init [1] 0 (Some 0x0301) 0x17 None)
     = Inr [0, 0, 0, 0, 0, 0, 0, 0, 23, 3, 1, 0, 1]"
  by (simp_all add: CryptoData_init_def pack_header_def struct_pack_def be_bytes_def upt_rec)

section \<open>Properties of a run of operations\<close>

lemma Factory_new_ready:
  assumes "CryptoContextFactory_new tls_ctx ctx = Inr (engine, ctx1)"
  shows "engine_ready tls_ctx engine"
    and "sequence ctx1 = sequence ctx" and "nonce ctx1 = nonce ctx"
  using assms
  by (auto simp: CryptoContextFactory_new_def StreamCryptoContext_init_def
        CBCCryptoContext_init_def GCMCryptoContext_init_def CBC_init_ciphers_def Let_def
        engine_ready_def
      split: option.splits CipherMode.splits if_splits)

lemma encrypt_keeps:
  assumes "CryptoContext_encrypt L tls_ctx ctx c = Inr (out, ctx')"
    and "crypto_ctx ctx = Some self"
  shows "sequence ctx' = sequence ctx + 1
       \<and> nonce ctx' = (if cc_mode self = GCM then nonce ctx + 1 else nonce ctx)
       \<and> (\<exists>self'. crypto_ctx ctx' = Some self' \<and> cc_mode self' = cc_mode self
             \<and> cc_sec_params self' = cc_sec_params self
             \<and> (engine_ready tls_ctx self \<longrightarrow> engine_ready tls_ctx self'))"
proof (cases "cc_mode self")
  case NULL
  with assms show ?thesis by (simp add: CryptoContext_encrypt_def)
next
  case STREAM
  with assms show ?thesis
    by (auto simp: CryptoContext_encrypt_def StreamCryptoContext_encrypt_def engine_ready_def
        split: option.splits sum.splits)
next
  case CBC
  with assms show ?thesis
    by (auto simp: CryptoContext_encrypt_def CBCCryptoContext_encrypt_def CBC_init_ciphers_def
          Let_def engine_ready_def
        split: option.splits sum.splits if_splits)
next
  case GCM
  with assms show ?thesis
    by (auto simp: CryptoContext_encrypt_def GCMCryptoContext_encrypt_def GCM_init_ciphers_def
          Let_def engine_ready_def
        split: option.splits sum.splits prod.splits)
qed

lemma decrypt_keeps:
  assumes "CryptoContext_decrypt tls L tls_ctx ctx wire ctype = Inr (out, ctx', w)"
    and "crypto_ctx ctx = Some self"
  shows "sequence ctx' = sequence ctx + 1
       \<and> nonce ctx' = (if cc_mode self = GCM then be_nat (take (explicit_iv_size self) wire)
                       else nonce ctx)
       \<and> (\<exists>self'. crypto_ctx ctx' = Some self' \<and> cc_mode self' = cc_mode self
             \<and> cc_sec_params self' = cc_sec_params self
             \<and> (engine_ready tls_ctx self \<longrightarrow> engine_ready tls_ctx self'))"
proof (cases "cc_mode self")
  case NULL
  with assms show ?thesis by (simp add: CryptoContext_decrypt_def)
next
  case STREAM
  with assms show ?thesis
    by (auto simp: CryptoContext_decrypt_def StreamCryptoContext_decrypt_def engine_ready_def
        split: option.splits sum.splits)
next
  case CBC
  with assms show ?thesis
    by (auto simp: CryptoContext_decrypt_def CBCCryptoContext_decrypt_def CBC_init_ciphers_def
          Let_def engine_ready_def
        split: option.splits sum.splits if_splits)
next
  case GCM
  with assms show ?thesis
    by (auto simp: CryptoContext_decrypt_def GCMCryptoContext_decrypt_def GCM_init_ciphers_def
          Let_def engine_ready_def struct_unpack_Q_def
        split: option.splits sum.splits prod.splits if_splits error.splits)
qed

lemma run_operations_counters:
  assumes "run_operations tls L tls_ctx ctx ops = Inr (outs, ctx', ws)"
    and "crypto_ctx ctx = Some self"
    and "cc_mode self = GCM \<longrightarrow> engine_ready tls_ctx self"
  shows "length outs = length ops
       \<and> sequence ctx' = sequence ctx + length ops
       \<and> nonce ctx' = (if cc_mode self = GCM then nonce_after (nonce ctx) ops else nonce ctx)"
  using assms
proof (induction ops arbitrary: ctx self outs ws)
  case Nil
  then show ?case by simp
next
  case (Cons op ops)
  show ?case
  proof (cases op)
    case (Encrypt c)
    from Cons.prems(1) Encrypt obtain out ctx1 outs1 where
      step: "CryptoContext_encrypt L tls_ctx ctx c = Inr (out, ctx1)"
      and rest: "run_operations tls L tls_ctx ctx1 ops = Inr (outs1, ctx', ws)"
      and outs: "outs = out # outs1"
      by (auto split: sum.splits prod.splits)
    from encrypt_keeps [OF step Cons.prems(2)] obtain self1 where
      s1: "sequence ctx1 = sequence ctx + 1"
      and n1: "nonce ctx1 = (if cc_mode self = GCM then nonce ctx + 1 else nonce ctx)"
      and e1: "crypto_ctx ctx1 = Some self1" and m1: "cc_mode self1 = cc_mode self"
      and r1: "engine_ready tls_ctx self \<longrightarrow> engine_ready tls_ctx self1"
      by blast
    have "cc_mode self1 = GCM \<longrightarrow> engine_ready tls_ctx self1"
      using Cons.prems(3) m1 r1 by simp
    from Cons.IH [OF rest e1 this] s1 n1 m1 outs Encrypt show ?thesis by simp
  next
    case (Decrypt wire ctype)
    from Cons.prems(1) Decrypt obtain out ctx1 w1 outs1 ws1 where
      step: "CryptoContext_decrypt tls L tls_ctx ctx wire ctype = Inr (out, ctx1, w1)"
      and rest: "run_operations tls L tls_ctx ctx1 ops = Inr (outs1, ctx', ws1)"
      and outs: "outs = out # outs1"
      by (auto split: sum.splits prod.splits)
    from decrypt_keeps [OF step Cons.prems(2)] obtain self1 where
      s1: "sequence ctx1 = sequence ctx + 1"
      and n1: "nonce ctx1 = (if cc_mode self = GCM
                             then be_nat (take (explicit_iv_size self) wire) else nonce ctx)"
      and e1: "crypto_ctx ctx1 = Some self1" and m1: "cc_mode self1 = cc_mode self"
      and r1: "engine_ready tls_ctx self \<longrightarrow> engine_ready tls_ctx self1"
      by blast
    have g: "cc_mode self1 = GCM \<longrightarrow> engine_ready tls_ctx self1"
      using Cons.prems(3) m1 r1 by simp
    have "cc_mode self = GCM \<longrightarrow> explicit_iv_size self = 8"
      using Cons.prems(3) by (auto simp: engine_ready_def)
    with Cons.IH [OF rest e1 g] s1 n1 m1 outs Decrypt show ?thesis by simp
  qed
qed

lemma nonce_after_encrypts: "nonce_after n (map Encrypt cs) = n + length cs"
  by (induction cs arbitrary: n) simp_all

lemma nonce_after_append: "nonce_after n (ops @ ops') = nonce_after (nonce_after n ops) ops'"
  by (induction n ops rule: nonce_after.induct) simp_all

lemma nonce_after_last_decrypt:
  "nonce_after n (ops @ Decrypt wire ctype # map Encrypt cs) = be_nat (take 8 wire) + length cs"
  by (simp add: nonce_after_append nonce_after_encrypts)

lemma encrypt_returns:
  assumes "crypto_ctx ctx = Some self" and "engine_ready tls_ctx self"
    and enc: "\<forall>obj m. \<exists>x. lib_encrypt L obj m = Inr x"
    and aead: "\<forall>obj m. \<exists>x t. lib_encrypt_and_digest L obj m = Inr (x, t)"
    and gcm: "cc_mode self = GCM \<longrightarrow> fits_GCM N (Encrypt c) \<and> nonce ctx < 2 ^ 64
                \<and> cipher_type (cc_sec_params self) \<noteq> NullCipher"
  shows "\<exists>out ctx'. CryptoContext_encrypt L tls_ctx ctx c = Inr (out, ctx')"
proof -
  have e: "lib_encrypt L obj m \<noteq> Inl err" for obj m err
    using enc [rule_format, of obj m] by auto
  have ce: "cipher_encrypt L obj m \<noteq> Inl err" for obj m err
    using e by (simp add: cipher_encrypt_def)
  have a: "lib_encrypt_and_digest L obj m \<noteq> Inl err" for obj m err
    using aead [rule_format, of obj m] by auto
  show ?thesis
  proof (cases "cc_mode self")
    case NULL
    with assms(2) show ?thesis by (simp add: engine_ready_def)
  next
    case STREAM
    with assms(1,2) ce show ?thesis
      by (auto simp: CryptoContext_encrypt_def StreamCryptoContext_encrypt_def engine_ready_def
          split: option.splits sum.splits)
  next
    case CBC
    with assms(1,2) ce show ?thesis
      by (auto simp: CryptoContext_encrypt_def CBCCryptoContext_encrypt_def
            CBC_init_ciphers_def Let_def engine_ready_def
          split: option.splits sum.splits)
  next
    case GCM
    with gcm obtain g where c: "c = GCMContainer g" and n: "nonce ctx < 2 ^ 64"
      and nn: "cipher_type (cc_sec_params self) \<noteq> NullCipher"
      by (cases c) auto
    have pk: "struct_pack 8 (nonce ctx) = Inr (be_bytes 8 (nonce ctx))"
      using n by (simp add: struct_pack_def)
    from GCM assms(1) a nn show ?thesis
      by (auto simp: CryptoContext_encrypt_def GCMCryptoContext_encrypt_def c get_nonce_def
            pk GCM_init_ciphers_def cipher_new_def cipher_update_def
            cipher_encrypt_and_digest_def Let_def
          split: option.splits sum.splits prod.splits)
  qed
qed

lemma decrypt_returns:
  assumes "crypto_ctx ctx = Some self" and "engine_ready tls_ctx self"
    and dec: "\<forall>obj m. \<exists>x. lib_decrypt L obj m = Inr x"
    and ver: "\<forall>obj t. lib_verify L obj t = None
                \<or> (\<exists>why. lib_verify L obj t = Some (ValueError why))"
    and gcm: "cc_mode self = GCM \<longrightarrow> fits_GCM N (Decrypt wire ctype) \<and> sequence ctx < 2 ^ 64
                \<and> cipher_type (cc_sec_params self) \<noteq> NullCipher
                \<and> (\<exists>v. negotiated_version (negotiated tls_ctx) = Some v \<and> v < 2 ^ 16)"
  shows "\<exists>out ctx' w. CryptoContext_decrypt tls L tls_ctx ctx wire ctype = Inr (out, ctx', w)"
proof -
  have d: "lib_decrypt L obj m \<noteq> Inl err" for obj m err
    using dec [rule_format, of obj m] by auto
  have cd: "cipher_decrypt L obj m \<noteq> Inl err" for obj m err
    using d by (simp add: cipher_decrypt_def)
  show ?thesis
  proof (cases "cc_mode self")
    case NULL
    with assms(2) show ?thesis by (simp add: engine_ready_def)
  next
    case STREAM
    with assms(1,2) cd show ?thesis
      by (auto simp: CryptoContext_decrypt_def StreamCryptoContext_decrypt_def engine_ready_def
          split: option.splits sum.splits)
  next
    case CBC
    with assms(1,2) cd show ?thesis
      by (auto simp: CryptoContext_decrypt_def CBCCryptoContext_decrypt_def
            CBC_init_ciphers_def Let_def engine_ready_def
          split: option.splits sum.splits)
  next
    case GCM
    with gcm assms(2) obtain v where
      w: "8 \<le> length wire" "length wire < 2 ^ 16" "ctype < 256"
      and sq: "sequence ctx < 2 ^ 64"
      and nn: "cipher_type (cc_sec_params self) \<noteq> NullCipher"
      and v: "negotiated_version (negotiated tls_ctx) = Some v" "v < 2 ^ 16"
      and sz: "explicit_iv_size self = 8" "tag_size self = 16"
      by (auto simp: engine_ready_def)
    let ?ct = "py_between 8 16 wire"
    let ?cd = "(CryptoData_from_context tls tls_ctx ctx (replicate (length ?ct) 0))
                 \<lparr>content_type := ctype\<rparr>"
    have lct: "length ?ct < 2 ^ 16" using w(2) by (simp add: py_between_def)
    define aad where "aad = be_bytes 8 (sequence ctx) @ be_bytes 1 ctype @ be_bytes 2 v
                  @ be_bytes 2 (length ?ct)"
    have hd: "pack_header ?cd = Inr aad"
      unfolding aad_def using sq w(3) v lct
      by (subst pack_header_ok [where v = v])
         (simp_all add: CryptoData_from_context_def CryptoData_init_def)
    have cont: "GCMCryptoContainer_init ?cd = Inr \<lparr>gcm_crypto_data = ?cd, aead = aad\<rparr>"
      by (simp add: GCMCryptoContainer_init_def hd)
    have unp: "struct_unpack_Q (take 8 wire) = Inr (be_nat (take 8 wire))"
      using w(1) by (simp add: struct_unpack_Q_def)
    have vr: "cipher_verify L obj t = None
              \<or> (\<exists>why. cipher_verify L obj t = Some (ValueError why))"
      if "c_type obj \<noteq> NullCipher" for obj t
      using ver [rule_format, of obj t] that by (simp add: cipher_verify_def)
    define fresh where "fresh = cipher_new (cipher_type (cc_sec_params self))
        (key (sym_keystore ctx)) (cipher_mode (cc_sec_params self))
        (Some (iv (sym_keystore ctx) @ take 8 wire))"
    have upd: "cipher_update fresh aad = Inr (fresh\<lparr>c_aad := aad\<rparr>)"
      using nn by (simp add: cipher_update_def cipher_new_def fresh_def)
    obtain clear where cl: "cipher_decrypt L (fresh\<lparr>c_aad := aad\<rparr>) ?ct = Inr clear"
      using cd [of "fresh\<lparr>c_aad := aad\<rparr>" ?ct]
      by (cases "cipher_decrypt L (fresh\<lparr>c_aad := aad\<rparr>) ?ct") auto
    have "c_type (processed (fresh\<lparr>c_aad := aad\<rparr>) ?ct) \<noteq> NullCipher"
      using nn by (simp add: processed_def cipher_new_def fresh_def)
    from vr [OF this, of "py_suffix 16 wire"]
    show ?thesis
      unfolding CryptoContext_decrypt_def GCMCryptoContext_decrypt_def
      using GCM assms(1) sz
      by (auto simp: Let_def cont get_nonce_def GCM_init_ciphers_def fresh_def [symmetric]
            upd cl unp)
  qed
qed

lemma run_operations_returns:
  assumes enc: "\<forall>obj m. \<exists>x. lib_encrypt L obj m = Inr x"
    and dec: "\<forall>obj m. \<exists>x. lib_decrypt L obj m = Inr x"
    and aead: "\<forall>obj m. \<exists>x t. lib_encrypt_and_digest L obj m = Inr (x, t)"
    and ver: "\<forall>obj t. lib_verify L obj t = None
                \<or> (\<exists>why. lib_verify L obj t = Some (ValueError why))"
    and "crypto_ctx ctx = Some self" and "engine_ready tls_ctx self"
    and "cc_mode self = GCM \<longrightarrow> cipher_type (cc_sec_params self) \<noteq> NullCipher
           \<and> (\<exists>v. negotiated_version (negotiated tls_ctx) = Some v \<and> v < 2 ^ 16)
           \<and> sequence ctx + length ops \<le> 2 ^ 64 \<and> nonce ctx + length ops \<le> 2 ^ 64
           \<and> length ops \<le> N \<and> (\<forall>op \<in> set ops. fits_GCM N op)"
  shows "\<exists>outs ctx' ws. run_operations tls L tls_ctx ctx ops = Inr (outs, ctx', ws)"
  using assms(5-)
proof (induction ops arbitrary: ctx self)
  case Nil
  then show ?case by simp
next
  case (Cons op ops)
  note eng = Cons.prems(1) and rdy = Cons.prems(2) and gcm = Cons.prems(3)
  show ?case
  proof (cases op)
    case (Encrypt c)
    have "cc_mode self = GCM \<longrightarrow> fits_GCM N (Encrypt c) \<and> nonce ctx < 2 ^ 64
            \<and> cipher_type (cc_sec_params self) \<noteq> NullCipher"
      using gcm Encrypt by auto
    from encrypt_returns [OF eng rdy enc aead this] obtain out ctx1 where
      step: "CryptoContext_encrypt L tls_ctx ctx c = Inr (out, ctx1)" by blast
    from encrypt_keeps [OF step eng] rdy obtain self1 where
      s1: "sequence ctx1 = sequence ctx + 1"
      and n1: "nonce ctx1 = (if cc_mode self = GCM then nonce ctx + 1 else nonce ctx)"
      and e1: "crypto_ctx ctx1 = Some self1" and m1: "cc_mode self1 = cc_mode self"
      and p1: "cc_sec_params self1 = cc_sec_params self"
      and r1: "engine_ready tls_ctx self1"
      by blast
    have "cc_mode self1 = GCM \<longrightarrow> cipher_type (cc_sec_params self1) \<noteq> NullCipher
           \<and> (\<exists>v. negotiated_version (negotiated tls_ctx) = Some v \<and> v < 2 ^ 16)
           \<and> sequence ctx1 + length ops \<le> 2 ^ 64 \<and> nonce ctx1 + length ops \<le> 2 ^ 64
           \<and> length ops \<le> N \<and> (\<forall>op \<in> set ops. fits_GCM N op)"
      using gcm m1 p1 s1 n1 by auto
    from Cons.IH [OF e1 r1 this] obtain outs ctx' ws where
      "run_operations tls L tls_ctx ctx1 ops = Inr (outs, ctx', ws)" by blast
    with step Encrypt show ?thesis by simp
  next
    case (Decrypt wire ctype)
    have "cc_mode self = GCM \<longrightarrow> fits_GCM N (Decrypt wire ctype) \<and> sequence ctx < 2 ^ 64
            \<and> cipher_type (cc_sec_params self) \<noteq> NullCipher
            \<and> (\<exists>v. negotiated_version (negotiated tls_ctx) = Some v \<and> v < 2 ^ 16)"
      using gcm Decrypt by auto
    from decrypt_returns [OF eng rdy dec ver this, where tls = tls] obtain out ctx1 w1 where
      step: "CryptoContext_decrypt tls L tls_ctx ctx wire ctype = Inr (out, ctx1, w1)" by blast
    from decrypt_keeps [OF step eng] rdy obtain self1 where
      s1: "sequence ctx1 = sequence ctx + 1"
      and n1: "nonce ctx1 = (if cc_mode self = GCM
                             then be_nat (take (explicit_iv_size self) wire) else nonce ctx)"
      and e1: "crypto_ctx ctx1 = Some self1" and m1: "cc_mode self1 = cc_mode self"
      and p1: "cc_sec_params self1 = cc_sec_params self"
      and r1: "engine_ready tls_ctx self1"
      by blast
    have sz: "cc_mode self = GCM \<longrightarrow> explicit_iv_size self = 8"
      using rdy by (auto simp: engine_ready_def)
    have "cc_mode self1 = GCM \<longrightarrow> cipher_type (cc_sec_params self1) \<noteq> NullCipher
           \<and> (\<exists>v. negotiated_version (negotiated tls_ctx) = Some v \<and> v < 2 ^ 16)
           \<and> sequence ctx1 + length ops \<le> 2 ^ 64 \<and> nonce ctx1 + length ops \<le> 2 ^ 64
           \<and> length ops \<le> N \<and> (\<forall>op \<in> set ops. fits_GCM N op)"
      using gcm m1 p1 s1 n1 sz Decrypt by auto
    from Cons.IH [OF e1 r1 this] obtain outs ctx' ws where
      "run_operations tls L tls_ctx ctx1 ops = Inr (outs, ctx', ws)" by blast
    with step Decrypt show ?thesis by simp
  qed
qed

section \<open>The claims\<close>

text \<open>
  Claim C3. When every HMAC digest of the library has at least one byte, \<^verbatim>\<open>TLSPRF.get_bytes\<close>
  returns, for every secret, label, seed and length \<open>n\<close>, exactly \<open>n\<close> bytes: for TLS 1.2 and
  above the P_hash expansion of the single digest, truncated to \<open>n\<close>; below, the byte-wise
  XOR of the MD5 expansion keyed with the first \<open>ceil(len/2)\<close> bytes of the secret and the
  SHA-1 expansion keyed with the last \<open>ceil(len/2)\<close> bytes.
\<close>

theorem C3_get_bytes:
  assumes "\<forall>d k m. lib_hmac L d k m \<noteq> []"
  shows "\<exists>out. TLSPRF_get_bytes tls L self secret label seed n = Some (Inr out)
           \<and> length out = n
           \<and> out = (if TLS_1_2 tls \<le> tls_version self
                    then spec_prf_12 (lib_hmac L (digest self)) secret label seed n
                    else spec_prf_10 (lib_hmac L MD5) (lib_hmac L SHA) secret label seed n)"
  using assms by (rule TLSPRF_get_bytes_spec)

theorem C3_get_bytes_witness:
  "(\<forall>d k m. lib_hmac example_lib d k m \<noteq> [])
   \<and> TLSPRF_get_bytes example_tls example_lib \<lparr>tls_version = 0x0301, digest = SHA256\<rparr>
        [1, 2, 3] (str_bytes ''ab'') [9] 3
      = Some (Inr (spec_prf_10 (lib_hmac example_lib MD5) (lib_hmac example_lib SHA)
                     [1, 2, 3] (str_bytes ''ab'') [9] 3))
   \<and> length (spec_prf_10 (lib_hmac example_lib MD5) (lib_hmac example_lib SHA)
                     [1, 2, 3] (str_bytes ''ab'') [9] 3) = 3"
proof -
  have ne: "\<forall>d k m. lib_hmac example_lib d k m \<noteq> []"
    by (simp add: example_lib_simps example_hmac_def)
  show ?thesis
    using ne C3_get_bytes [OF ne, of example_tls "\<lparr>tls_version = 0x0301, digest = SHA256\<rparr>"
      "[1, 2, 3]" "str_bytes ''ab''" "[9]" 3]
    by (auto simp: example_tls_simps)
qed



text \<open>
  Claim C4. For every suite of the registry (and 32-byte randoms) the constructor of
  \<^verbatim>\<open>TLSSecurityParameters\<close> succeeds and sets the sizes by mode: GCM has MAC key length 0
  and IV length 4; CBC has the digest size of the negotiated hash and the block size of the
  cipher; STREAM has the digest size of the negotiated hash and IV length 0. The cipher key
  length is the descriptor's \<^verbatim>\<open>key_len\<close>. No registered suite has another mode.
\<close>

theorem C4_sec_param_sizes:
  assumes "map_of crypto_params suite = Some d"
    and "length cr = 32" and "length sr = 32"
  shows "\<exists>sp. TLSSecurityParameters_init L p suite cr sr = Inr sp
     \<and> cipher_key_length sp = key_len (cipher d)
     \<and> hash_type sp = hash_class (hash d)
     \<and> block_size sp = class_block_size L (cipher_class (cipher d))
     \<and> (case mode_name (cipher d) of
           GCM \<Rightarrow> mac_key_length sp = 0 \<and> iv_length sp = 4
         | CBC \<Rightarrow> mac_key_length sp = class_digest_size L (hash_type sp)
                   \<and> iv_length sp = block_size sp
         | STREAM \<Rightarrow> mac_key_length sp = class_digest_size L (hash_type sp)
                   \<and> iv_length sp = 0
         | NULL \<Rightarrow> False)"
  using TLSSecurityParameters_init_sizes [OF assms, of L p] by blast

theorem C4_sec_param_sizes_witness:
  "\<exists>sp. TLSSecurityParameters_init example_lib \<lparr>tls_version = 0x0301, digest = SHA256\<rparr>
           0x002f (replicate 32 1) (replicate 32 2) = Inr sp
     \<and> cipher_key_length sp = 16 \<and> mac_key_length sp = 20 \<and> iv_length sp = 16"
  using C4_sec_param_sizes [OF lookup_RSA_WITH_AES_128_CBC_SHA, of "replicate 32 1"
      "replicate 32 2" example_lib "\<lparr>tls_version = 0x0301, digest = SHA256\<rparr>"]
  by (auto simp: example_sizes)

text \<open>
  Claim C10. For a GCM record \<open>en || ct || tag\<close> with an 8-byte explicit nonce and a
  16-byte tag, whose header fields fit their wire widths (sequence below \<open>2^64\<close>, content
  type below 256, version and payload length below \<open>2^16\<close>) and which the library decrypts to
  \<open>clear\<close>, \<^verbatim>\<open>GCMCryptoContext.decrypt\<close> returns \<open>en || clear || tag\<close>, the wire nonce and tag
  around the decrypted payload; it sets the nonce counter of the context to the value of the
  wire nonce and increments the sequence number by 1. This holds whether the tag verifies or
  \<^verbatim>\<open>verify\<close> raises its \<^verbatim>\<open>ValueError\<close>.
\<close>

theorem C10_gcm_decrypt_echo:
  assumes "crypto_ctx ctx = Some self" and "explicit_iv_size self = 8" and "tag_size self = 16"
    and "length en = 8" and "length tag = 16"
    and "cipher_type (cc_sec_params self) \<noteq> NullCipher"
    and "sequence ctx < 2 ^ 64" and "ctype < 256"
    and "negotiated_version (negotiated tls_ctx) = Some v" and "v < 2 ^ 16"
    and "length ct < 2 ^ 16"
    and "aad = be_bytes 8 (sequence ctx) @ be_bytes 1 ctype @ be_bytes 2 v
                 @ be_bytes 2 (length ct)"
    and "fresh = cipher_new (cipher_type (cc_sec_params self)) (key (sym_keystore ctx))
                   (cipher_mode (cc_sec_params self)) (Some (iv (sym_keystore ctx) @ en))"
    and "lib_decrypt L (fresh\<lparr>c_aad := aad\<rparr>) ct = Inr clear"
    and "lib_verify L (processed (fresh\<lparr>c_aad := aad\<rparr>) ct) tag = None
         \<or> (\<exists>why. lib_verify L (processed (fresh\<lparr>c_aad := aad\<rparr>) ct) tag
                     = Some (ValueError why))"
  shows "\<exists>ctx' w. GCMCryptoContext_decrypt tls L tls_ctx ctx (en @ ct @ tag) ctype
                    = Inr (en @ clear @ tag, ctx', w)
              \<and> nonce ctx' = be_nat en
              \<and> sequence ctx' = sequence ctx + 1"
  using GCM_decrypt_record [OF assms(1-14) refl, where tls = tls] assms(15)
  by auto

text \<open>
  Claim C1, as the code has it. When the tag of such a record does not verify (\<^verbatim>\<open>verify\<close>
  raises \<^verbatim>\<open>ValueError\<close>), \<^verbatim>\<open>GCMCryptoContext.decrypt\<close> emits the warning
  "Verification of GCM tag failed" and returns normally: the bytes \<open>en || clear || tag\<close> and
  the updated context are exactly those it returns when the tag verifies; only the warning
  differs. No error reaches the caller.
\<close>

theorem C1_gcm_tag_failure_warns:
  assumes "crypto_ctx ctx = Some self" and "explicit_iv_size self = 8" and "tag_size self = 16"
    and "length en = 8" and "length tag = 16"
    and "cipher_type (cc_sec_params self) \<noteq> NullCipher"
    and "sequence ctx < 2 ^ 64" and "ctype < 256"
    and "negotiated_version (negotiated tls_ctx) = Some v" and "v < 2 ^ 16"
    and "length ct < 2 ^ 16"
    and "aad = be_bytes 8 (sequence ctx) @ be_bytes 1 ctype @ be_bytes 2 v
                 @ be_bytes 2 (length ct)"
    and "fresh = cipher_new (cipher_type (cc_sec_params self)) (key (sym_keystore ctx))
                   (cipher_mode (cc_sec_params self)) (Some (iv (sym_keystore ctx) @ en))"
    and "lib_decrypt L (fresh\<lparr>c_aad := aad\<rparr>) ct = Inr clear"
    and "lib_verify L (processed (fresh\<lparr>c_aad := aad\<rparr>) ct) tag = Some (ValueError why)"
  shows "\<exists>ctx'. GCMCryptoContext_decrypt tls L tls_ctx ctx (en @ ct @ tag) ctype
                  = Inr (en @ clear @ tag, ctx', [GCM_tag_verification_failed why])
              \<and> GCMCryptoContext_decrypt tls (L\<lparr>lib_verify := \<lambda>obj t. None\<rparr>) tls_ctx ctx
                    (en @ ct @ tag) ctype
                  = Inr (en @ clear @ tag, ctx', [])"
proof -
  have dec': "lib_decrypt (L\<lparr>lib_verify := \<lambda>obj t. None\<rparr>) (fresh\<lparr>c_aad := aad\<rparr>) ct = Inr clear"
    using assms(14) by simp
  show ?thesis
    using GCM_decrypt_record [OF assms(1-14) refl, where tls = tls]
      GCM_decrypt_record [OF assms(1-13) dec' refl, where tls = tls] assms(15)
    by simp
qed

text \<open>
  The claim as stated, that a tampered record is reported as an error, fails: the record
  below is the encryption of \<open>[1, 2, 3, 4, 5, 6]\<close>; with the lowest bit of its first
  ciphertext byte flipped its tag no longer verifies, and \<^verbatim>\<open>decrypt\<close> returns the tampered
  plaintext as an ordinary result.
\<close>

theorem C1_counterexample:
  "(\<exists>ctx'. GCMCryptoContext_encrypt example_lib (client_ctx (example_session 0xc02b 0x0303))
       (GCMContainer \<lparr>gcm_crypto_data = \<lparr>data = [1, 2, 3, 4, 5, 6], cd_sequence = 0,
                                           cd_version = Some 0x0303, content_type = 0x17,
                                           data_len = 6\<rparr>,
                       aead = [0, 0, 0, 0, 0, 0, 0, 0, 23, 3, 3, 0, 6]\<rparr>)
     = Inr (replicate 8 0 @ [16, 19, 18, 21, 20, 23] @ replicate 16 130, ctx'))
   \<and> (\<exists>ctx'. GCMCryptoContext_decrypt example_tls example_lib (example_session 0xc02b 0x0303)
         (client_ctx (example_session 0xc02b 0x0303))
         (replicate 8 0 @ [16, 19, 18, 21, 20, 23] @ replicate 16 130) 0x17
     = Inr (replicate 8 0 @ [1, 2, 3, 4, 5, 6] @ replicate 16 130, ctx', []))
   \<and> (\<exists>ctx'. GCMCryptoContext_decrypt example_tls example_lib (example_session 0xc02b 0x0303)
         (client_ctx (example_session 0xc02b 0x0303))
         (replicate 8 0 @ [17, 19, 18, 21, 20, 23] @ replicate 16 130) 0x17
     = Inr (replicate 8 0 @ [0, 2, 3, 4, 5, 6] @ replicate 16 130, ctx',
            [GCM_tag_verification_failed ''MAC check failed'']))"
proof (intro conjI)
  show "\<exists>ctx'. GCMCryptoContext_encrypt example_lib (client_ctx (example_session 0xc02b 0x0303))
       (GCMContainer \<lparr>gcm_crypto_data = \<lparr>data = [1, 2, 3, 4, 5, 6], cd_sequence = 0,
                                           cd_version = Some 0x0303, content_type = 0x17,
                                           data_len = 6\<rparr>,
                       aead = [0, 0, 0, 0, 0, 0, 0, 0, 23, 3, 3, 0, 6]\<rparr>)
     = Inr (replicate 8 0 @ [16, 19, 18, 21, 20, 23] @ replicate 16 130, ctx')"
    using example_GCM_encrypt by blast
  show "\<exists>ctx'. GCMCryptoContext_decrypt example_tls example_lib (example_session 0xc02b 0x0303)
         (client_ctx (example_session 0xc02b 0x0303))
         (replicate 8 0 @ [16, 19, 18, 21, 20, 23] @ replicate 16 130) 0x17
     = Inr (replicate 8 0 @ [1, 2, 3, 4, 5, 6] @ replicate 16 130, ctx', [])"
    using example_GCM_decrypt [of "[16, 19, 18, 21, 20, 23]" 130] by auto
  show "\<exists>ctx'. GCMCryptoContext_decrypt example_tls example_lib (example_session 0xc02b 0x0303)
         (client_ctx (example_session 0xc02b 0x0303))
         (replicate 8 0 @ [17, 19, 18, 21, 20, 23] @ replicate 16 130) 0x17
     = Inr (replicate 8 0 @ [0, 2, 3, 4, 5, 6] @ replicate 16 130, ctx',
            [GCM_tag_verification_failed ''MAC check failed''])"
    using example_GCM_decrypt [of "[17, 19, 18, 21, 20, 23]" 130] by auto
qed

theorem C10_gcm_decrypt_echo_witness:
  "\<exists>ctx' w. GCMCryptoContext_decrypt example_tls example_lib (example_session 0xc02b 0x0303)
        (client_ctx (example_session 0xc02b 0x0303))
        ([0, 0, 0, 0, 0, 0, 1, 2] @ [16, 19, 18, 21, 20, 23] @ replicate 16 130) 0x17
      = Inr ([0, 0, 0, 0, 0, 0, 1, 2] @ [1, 2, 3, 4, 5, 6] @ replicate 16 130, ctx', w)
    \<and> nonce ctx' = 258 \<and> sequence ctx' = 1"
proof -
  let ?S = "example_session 0xc02b 0x0303"
  obtain self where f: "crypto_ctx (client_ctx ?S) = Some self"
    "explicit_iv_size self = 8" "tag_size self = 16"
    "cipher_type (cc_sec_params self) = AES"
    "sequence (client_ctx ?S) = 0"
    "key (sym_keystore (client_ctx ?S)) = [0x11, 0x22]"
    "negotiated_version (negotiated ?S) = Some 0x0303"
    by (rule example_GCM_ctx)
  have "\<exists>ctx' w. GCMCryptoContext_decrypt example_tls example_lib ?S (client_ctx ?S)
        ([0, 0, 0, 0, 0, 0, 1, 2] @ [16, 19, 18, 21, 20, 23] @ replicate 16 130) 0x17
      = Inr ([0, 0, 0, 0, 0, 0, 1, 2] @ [1, 2, 3, 4, 5, 6] @ replicate 16 130, ctx', w)
    \<and> nonce ctx' = be_nat [0, 0, 0, 0, 0, 0, 1, 2]
    \<and> sequence ctx' = sequence (client_ctx ?S) + 1"
    by (rule C10_gcm_decrypt_echo [where self = self and v = "0x0303", OF f(1) f(2) f(3) _ _ _ _ _ f(7) _ _ refl refl])
       (simp_all add: f example_lib_simps example_xor_def cipher_new_def)
  then show ?thesis
    by (simp add: f be_nat_def)
qed

theorem C1_gcm_tag_failure_warns_witness:
  "\<exists>ctx'. GCMCryptoContext_decrypt example_tls example_lib (example_session 0xc02b 0x0303)
        (client_ctx (example_session 0xc02b 0x0303))
        (replicate 8 0 @ [17, 19, 18, 21, 20, 23] @ replicate 16 130) 0x17
      = Inr (replicate 8 0 @ [0, 2, 3, 4, 5, 6] @ replicate 16 130, ctx',
             [GCM_tag_verification_failed ''MAC check failed''])
    \<and> GCMCryptoContext_decrypt example_tls (example_lib\<lparr>lib_verify := \<lambda>obj t. None\<rparr>)
        (example_session 0xc02b 0x0303) (client_ctx (example_session 0xc02b 0x0303))
        (replicate 8 0 @ [17, 19, 18, 21, 20, 23] @ replicate 16 130) 0x17
      = Inr (replicate 8 0 @ [0, 2, 3, 4, 5, 6] @ replicate 16 130, ctx', [])"
proof -
  let ?S = "example_session 0xc02b 0x0303"
  obtain self where f: "crypto_ctx (client_ctx ?S) = Some self"
    "explicit_iv_size self = 8" "tag_size self = 16"
    "cipher_type (cc_sec_params self) = AES"
    "sequence (client_ctx ?S) = 0"
    "key (sym_keystore (client_ctx ?S)) = [0x11, 0x22]"
    "negotiated_version (negotiated ?S) = Some 0x0303"
    by (rule example_GCM_ctx)
  show ?thesis
    by (rule C1_gcm_tag_failure_warns [where self = self and v = "0x0303", OF f(1) f(2) f(3) _ _ _ _ _ f(7) _ _ refl refl])
       (simp_all add: f example_lib_simps example_xor_def cipher_new_def example_tag_def
          processed_def length_be_bytes)
qed

text \<open>
  Claim C9. \<^verbatim>\<open>StreamCryptoContext.decrypt\<close> and \<^verbatim>\<open>CBCCryptoContext.decrypt\<close> hand the whole
  input to the cipher and return what it gives: when the cipher returns, the call returns
  exactly that output (the framed record with its MAC and, for CBC, its padding and
  padding-length byte still in it) and advances the sequence number; when the cipher raises,
  the call raises that same exception and no other. Neither result depends on the HMAC, on
  the MAC key or on the padding encoder: nothing is verified, so no integrity error exists.
  The CBC cipher is the one of the engine, or with \<^verbatim>\<open>requires_iv\<close> a fresh one.
\<close>

theorem C9_decrypt_raw:
  assumes "crypto_ctx sctx = Some sself" and "dec_cipher sself = Some sobj"
    and "crypto_ctx cctx = Some cself"
    and "cobj = (if requires_iv tls_ctx
                 then cipher_new (cipher_type (cc_sec_params cself)) (key (sym_keystore cctx))
                        (cipher_mode (cc_sec_params cself)) (Some (iv (sym_keystore cctx)))
                 else the (dec_cipher cself))"
    and "requires_iv tls_ctx \<or> dec_cipher cself \<noteq> None"
  shows "(\<forall>cleartext. cipher_decrypt L sobj wire = Inr cleartext \<longrightarrow>
            (\<exists>ctx'. StreamCryptoContext_decrypt L sctx wire ctype = Inr (cleartext, ctx')
                   \<and> sequence ctx' = sequence sctx + 1))
       \<and> (\<forall>e. cipher_decrypt L sobj wire = Inl e \<longrightarrow>
            StreamCryptoContext_decrypt L sctx wire ctype = Inl e)
       \<and> (\<forall>cleartext. cipher_decrypt L cobj wire = Inr cleartext \<longrightarrow>
            (\<exists>ctx'. CBCCryptoContext_decrypt L tls_ctx cctx wire ctype = Inr (cleartext, ctx')
                   \<and> sequence ctx' = sequence cctx + 1))
       \<and> (\<forall>e. cipher_decrypt L cobj wire = Inl e \<longrightarrow>
            CBCCryptoContext_decrypt L tls_ctx cctx wire ctype = Inl e)
       \<and> map_sum id fst (StreamCryptoContext_decrypt (L\<lparr>lib_hmac := h, pkcs7_k := k\<rparr>)
                           (sctx\<lparr>sym_keystore := (sym_keystore sctx)\<lparr>hmac := m\<rparr>\<rparr>) wire ctype)
           = map_sum id fst (StreamCryptoContext_decrypt L sctx wire ctype)
       \<and> map_sum id fst (CBCCryptoContext_decrypt (L\<lparr>lib_hmac := h, pkcs7_k := k\<rparr>) tls_ctx
                           (cctx\<lparr>sym_keystore := (sym_keystore cctx)\<lparr>hmac := m\<rparr>\<rparr>) wire ctype)
           = map_sum id fst (CBCCryptoContext_decrypt L tls_ctx cctx wire ctype)"
  using Stream_decrypt_raw [OF assms(1,2), where L = L and wire = wire and ctype = ctype]
    CBC_decrypt_raw [OF assms(3,4,5), where L = L and wire = wire and ctype = ctype]
  by (simp add: Stream_decrypt_no_mac CBC_decrypt_no_mac)

theorem C9_decrypt_raw_witness:
  "(\<exists>ctx'. StreamCryptoContext_decrypt example_lib (client_ctx (example_session 0x0005 0x0301))
              [0xDE, 0xAD] 0x17 = Inr ([0xCF, 0xBC], ctx')
          \<and> sequence ctx' = 1)
   \<and> (\<exists>ctx'. CBCCryptoContext_decrypt example_lib (example_session 0x0002 0x0301)
              (client_ctx (example_session 0x0002 0x0301)) [0xDE, 0xAD, 0xBE, 0xEF] 0x17
            = Inr ([0xDE, 0xAD, 0xBE, 0xEF], ctx')
          \<and> sequence ctx' = 1)"
proof -
  let ?sctx = "client_ctx (example_session 0x0005 0x0301)"
  let ?S = "example_session 0x0002 0x0301"
  let ?cctx = "client_ctx ?S"
  obtain ssp where s: "?sctx = (TLSContext_init ''Client TLS context'')
            \<lparr>sym_keystore := \<lparr>ks_empty = False, key = [0x11, 0x22], hmac = [0x33],
                               iv = [1, 2, 3, 4]\<rparr>,
             crypto_ctx := Some \<lparr>cc_sec_params = ssp, cc_mode = STREAM,
                 enc_cipher = Some (cipher_new ARC4 [0x11, 0x22] None None),
                 dec_cipher = Some (cipher_new ARC4 [0x11, 0x22] None None),
                 cc_explicit_iv = [], tag_size = 0, explicit_iv_size = 0\<rparr>\<rparr>"
    using example_session_RC4 by blast
  obtain csp where c: "?cctx = (TLSContext_init ''Client TLS context'')
            \<lparr>sym_keystore := \<lparr>ks_empty = False, key = [0x11, 0x22], hmac = [0x33],
                               iv = [1, 2, 3, 4]\<rparr>,
             crypto_ctx := Some \<lparr>cc_sec_params = csp, cc_mode = CBC,
                 enc_cipher = Some (cipher_new NullCipher [0x11, 0x22] None (Some [1, 2, 3, 4])),
                 dec_cipher = Some (cipher_new NullCipher [0x11, 0x22] None (Some [1, 2, 3, 4])),
                 cc_explicit_iv = [], tag_size = 0, explicit_iv_size = 0\<rparr>\<rparr>"
    and r: "\<not> requires_iv ?S"
    using example_session_NULL by blast
  have 1: "crypto_ctx ?sctx = Some \<lparr>cc_sec_params = ssp, cc_mode = STREAM,
                 enc_cipher = Some (cipher_new ARC4 [0x11, 0x22] None None),
                 dec_cipher = Some (cipher_new ARC4 [0x11, 0x22] None None),
                 cc_explicit_iv = [], tag_size = 0, explicit_iv_size = 0\<rparr>"
    by (simp add: s)
  have 3: "crypto_ctx ?cctx = Some \<lparr>cc_sec_params = csp, cc_mode = CBC,
                 enc_cipher = Some (cipher_new NullCipher [0x11, 0x22] None (Some [1, 2, 3, 4])),
                 dec_cipher = Some (cipher_new NullCipher [0x11, 0x22] None (Some [1, 2, 3, 4])),
                 cc_explicit_iv = [], tag_size = 0, explicit_iv_size = 0\<rparr>"
    by (simp add: c)
  have sd: "cipher_decrypt example_lib (cipher_new ARC4 [0x11, 0x22] None None) [0xDE, 0xAD]
              = Inr [0xCF, 0xBC]"
    by (simp add: cipher_decrypt_def cipher_new_def example_lib_simps example_xor_def)
  have cd: "cipher_decrypt example_lib (cipher_new NullCipher [0x11, 0x22] None (Some [1, 2, 3, 4]))
              [0xDE, 0xAD, 0xBE, 0xEF] = Inr [0xDE, 0xAD, 0xBE, 0xEF]"
    by (simp add: cipher_decrypt_def cipher_new_def)
  have seq: "sequence ?sctx = 0" "sequence ?cctx = 0"
    by (simp_all add: s c TLSContext_init_def)
  from C9_decrypt_raw [OF 1 _ 3 refl, where tls_ctx = ?S and L = example_lib
      and wire = "[0xDE, 0xAD, 0xBE, 0xEF]" and ctype = "0x17"
      and sobj = "cipher_new ARC4 [0x11, 0x22] None None"]
    C9_decrypt_raw [OF 1 _ 3 refl, where tls_ctx = ?S and L = example_lib
      and wire = "[0xDE, 0xAD]" and ctype = "0x17"
      and sobj = "cipher_new ARC4 [0x11, 0x22] None None"]
  show ?thesis
    using r sd cd seq by simp
qed

text \<open>
  Claim C6, as the code has it. In a session that requires an explicit IV (TLS 1.1 and
  above) the CBC context builds both ciphers anew before every \<^verbatim>\<open>encrypt\<close> and every
  \<^verbatim>\<open>decrypt\<close>, from the key of the context and the IV of its key store, which the constructor
  has set to \<open>block_size\<close> zero bytes: the result of either call is that of a fresh zero-IV
  cipher on the input, whatever the engine processed before, so chaining is reset per record,
  and the key store is left as it was. The fresh random explicit IV is not the IV of the
  cipher: \<^verbatim>\<open>from_context\<close> puts \<^verbatim>\<open>os.urandom(block_size)\<close> in front of the framed
  plaintext, and on \<^verbatim>\<open>decrypt\<close> the peer's explicit IV is the first block of the input.
\<close>

theorem C6_cbc_reinit_zero_iv:
  assumes "requires_iv tls_ctx" and "sec_params tls_ctx = Some sp"
    and "CBCCryptoContext_init tls_ctx ctx0 = Inr (self0, ctx1)"
    and "crypto_ctx ctx = Some self" and "cc_sec_params self = sp"
    and "sym_keystore ctx = sym_keystore ctx1"
    and "fresh = cipher_new (cipher_type sp) (key (sym_keystore ctx0)) (cipher_mode sp)
                   (Some (replicate (block_size sp) 0))"
  shows "CBCCryptoContext_encrypt L tls_ctx ctx c =
           (case cipher_encrypt L fresh (container_str c) of
              Inl e \<Rightarrow> Inl e
            | Inr ciphertext \<Rightarrow>
                Inr (ciphertext,
                     ctx\<lparr>sequence := sequence ctx + 1,
                         crypto_ctx := Some (self\<lparr>enc_cipher :=
                                                    Some (processed fresh (container_str c)),
                                                  dec_cipher := Some fresh\<rparr>)\<rparr>))
       \<and> CBCCryptoContext_decrypt L tls_ctx ctx wire ctype =
           (case cipher_decrypt L fresh wire of
              Inl e \<Rightarrow> Inl e
            | Inr cleartext \<Rightarrow>
                Inr (cleartext,
                     ctx\<lparr>sequence := sequence ctx + 1,
                         crypto_ctx := Some (self\<lparr>enc_cipher := Some fresh,
                                                  dec_cipher := Some (processed fresh wire)\<rparr>)\<rparr>))
       \<and> (\<forall>cd cont. CBCCryptoContainer_from_context L tls_ctx ctx cd = Inr cont \<longrightarrow>
              cbc_explicit_iv cont = os_urandom L (block_size sp)
            \<and> CBCCryptoContainer_str cont =
                os_urandom L (block_size sp) @ data cd @ cbc_mac cont @ cbc_padding cont
                  @ [cbc_padding_len cont])"
proof -
  have f: "fresh = cipher_new (cipher_type (cc_sec_params self)) (key (sym_keystore ctx))
                   (cipher_mode (cc_sec_params self)) (Some (iv (sym_keystore ctx)))"
    using CBC_init_requires_iv(1,2) [OF assms(1,2,3)] assms(5,6,7) by simp
  show ?thesis
    using CBC_encrypt_requires_iv [OF assms(1) assms(4) f, of L c]
      CBC_decrypt_requires_iv [OF assms(1) assms(4) f, of L wire ctype]
      CBC_from_context_explicit_iv [OF assms(1,2)]
    by blast
qed

text \<open>
  The claim as stated, that the ciphers are initialised with the explicit IV, fails: in an
  AES-CBC session of TLS 1.1 the container carries the explicit IV \<open>A5...A5\<close>, and the cipher
  that encrypts it was built with the IV \<open>00...00\<close>; a record that arrives with the explicit
  IV \<open>5A...5A\<close> is decrypted by a cipher built with \<open>00...00\<close> as well.
\<close>

theorem C6_counterexample:
  "(\<exists>cont out ctx' self'.
       CBCCryptoContainer_from_context example_lib (example_session 0x002f 0x0302)
         (client_ctx (example_session 0x002f 0x0302))
         (CryptoData_from_context example_tls (example_session 0x002f 0x0302)
            (client_ctx (example_session 0x002f 0x0302)) [1, 2, 3]) = Inr cont
     \<and> cbc_explicit_iv cont = replicate 16 0xA5
     \<and> CBCCryptoContext_encrypt example_lib (example_session 0x002f 0x0302)
           (client_ctx (example_session 0x002f 0x0302)) (CBCContainer cont) = Inr (out, ctx')
     \<and> crypto_ctx ctx' = Some self'
     \<and> map_option c_iv (enc_cipher self') = Some (Some (replicate 16 0)))
   \<and> (\<exists>cleartext ctx' self'.
       CBCCryptoContext_decrypt example_lib (example_session 0x002f 0x0302)
         (client_ctx (example_session 0x002f 0x0302))
         (replicate 16 0x5A @ replicate 16 0x09) 0x17 = Inr (cleartext, ctx')
     \<and> crypto_ctx ctx' = Some self'
     \<and> map_option c_iv (dec_cipher self') = Some (Some (replicate 16 0)))
   \<and> replicate 16 (0 :: byte) \<noteq> replicate 16 0xA5
   \<and> replicate 16 (0 :: byte) \<noteq> replicate 16 0x5A"
proof -
  let ?S = "example_session 0x002f 0x0302"
  obtain sp self where f: "requires_iv ?S" "crypto_ctx (client_ctx ?S) = Some self"
    "cipher_type sp = AES" "cc_sec_params self = sp"
    "CBCCryptoContext_init ?S
            ((TLSContext_init ''Client TLS context'')
               \<lparr>sym_keystore := \<lparr>ks_empty = False, key = [0x11, 0x22], hmac = [0x33],
                                  iv = [1, 2, 3, 4]\<rparr>\<rparr>)
       = Inr (self, (client_ctx ?S)\<lparr>crypto_ctx := None\<rparr>)"
    "sec_params ?S = Some sp" "block_size sp = 16"
    by (rule example_CBC_ctx)
  have iv0: "iv (sym_keystore (client_ctx ?S)) = replicate 16 0"
    using CBC_init_requires_iv(1) [OF f(1) f(6) f(5)] f(7) by simp
  note enc = CBC_encrypt_requires_iv [OF f(1) f(2) refl, where L = example_lib]
  note dec = CBC_decrypt_requires_iv [OF f(1) f(2) refl, where L = example_lib]
  show ?thesis
    by (simp add: example_CBC_container enc dec cipher_encrypt_def cipher_decrypt_def
          cipher_new_def f iv0 example_lib_simps processed_def replicate_16)
qed

theorem C6_cbc_reinit_zero_iv_witness:
  "requires_iv (example_session 0x002f 0x0302)
   \<and> (\<exists>ctx'. CBCCryptoContext_encrypt example_lib (example_session 0x002f 0x0302)
          (client_ctx (example_session 0x002f 0x0302))
          (CBCContainer \<lparr>cbc_crypto_data = \<lparr>data = [1, 2, 3], cd_sequence = 0,
                                              cd_version = Some 0x0302, content_type = 0x17,
                                              data_len = 3\<rparr>,
                          cbc_digest = \<lparr>hmac_key = [0x33], digestmod = SHA\<rparr>,
                          cbc_explicit_iv = [0xA5, 0xA5], cbc_mac = [0x6A],
                          cbc_padding = [2, 2], cbc_padding_len = 2\<rparr>)
        = Inr ([0xB4, 0xB4, 0x10, 0x13, 0x12, 0x7B, 0x13, 0x13, 0x13], ctx')
        \<and> sequence ctx' = 1)
   \<and> (\<exists>ctx'. CBCCryptoContext_decrypt example_lib (example_session 0x002f 0x0302)
          (client_ctx (example_session 0x002f 0x0302)) [0xB4, 0xB4, 0x10] 0x17
        = Inr ([0xA5, 0xA5, 0x01], ctx')
        \<and> sequence ctx' = 1)"
proof -
  let ?S = "example_session 0x002f 0x0302"
  obtain sp self where f: "requires_iv ?S" "crypto_ctx (client_ctx ?S) = Some self"
    "cipher_type sp = AES" "cc_sec_params self = sp"
    "CBCCryptoContext_init ?S
            ((TLSContext_init ''Client TLS context'')
               \<lparr>sym_keystore := \<lparr>ks_empty = False, key = [0x11, 0x22], hmac = [0x33],
                                  iv = [1, 2, 3, 4]\<rparr>\<rparr>)
       = Inr (self, (client_ctx ?S)\<lparr>crypto_ctx := None\<rparr>)"
    "sec_params ?S = Some sp" "sequence (client_ctx ?S) = 0"
    by (rule example_CBC_ctx)
  have ks: "sym_keystore (client_ctx ?S) = sym_keystore ((client_ctx ?S)\<lparr>crypto_ctx := None\<rparr>)"
    by simp
  note inst = C6_cbc_reinit_zero_iv [OF f(1) f(6) f(5) f(2) f(4) ks refl, where L = example_lib]
  show ?thesis
    by (simp add: inst f cipher_encrypt_def cipher_decrypt_def cipher_new_def
          example_lib_simps example_xor_def CBCCryptoContainer_str_def TLSContext_init_def)
qed

text \<open>
  Claim C8, evaluated on the code. For a ServerHello whose cipher-suite id has no descriptor
  in \<open>crypto_params\<close> (and whose \<open>gmt_unix_time\<close> fits the four bytes of \<^verbatim>\<open>"!I"\<close>),
  \<^verbatim>\<open>__handle_server_hello\<close> records the warning "Cipher not supported" in its second
  \<^verbatim>\<open>try\<close> block and then raises \<^verbatim>\<open>KeyError\<close>: the look-up of the descriptor in the call of
  \<^verbatim>\<open>TLSPRF(...)\<close> stands outside the \<^verbatim>\<open>try\<close>. At the raise the negotiated suite id is stored,
  the negotiated key exchange and encryption, the PRF of the session and its security
  parameters are what they were before the message.
\<close>

theorem C8_unknown_suite_raises:
  assumes "map_of crypto_params (cipher_suite server_hello) = None"
    and "gmt_unix_time server_hello < 2 ^ 32"
  shows "\<exists>self'. handle_server_hello tls L self server_hello = Some (Some KeyError, self')
       \<and> Cipher_not_supported (cipher_suite server_hello) \<in> set (warnings self')
       \<and> negotiated_ciphersuite (negotiated self') = Some (cipher_suite server_hello)
       \<and> negotiated_key_exchange (negotiated self') = negotiated_key_exchange (negotiated self)
       \<and> negotiated_encryption (negotiated self') = negotiated_encryption (negotiated self)
       \<and> session_prf self' = session_prf self
       \<and> sec_params self' = sec_params self"
  using assms
  by (simp add: handle_server_hello_def struct_pack_def Let_def split: option.splits)

theorem C8_unknown_suite_raises_witness:
  "\<exists>self'. handle_server_hello example_tls example_lib (TLSSessionCtx_init True)
       \<lparr>hello_version = 0x0301, gmt_unix_time = 0, random_bytes = replicate 28 0,
        hello_session_id = [], cipher_suite = 0x0007, compression_method = 0\<rparr>
     = Some (Some KeyError, self')
     \<and> warnings self' = [Cipher_not_supported 0x0007]
     \<and> session_prf self' = None"
proof -
  let ?hello = "\<lparr>hello_version = 0x0301, gmt_unix_time = 0, random_bytes = replicate 28 0,
        hello_session_id = [], cipher_suite = 0x0007, compression_method = 0\<rparr>"
  have 1: "map_of crypto_params (cipher_suite ?hello) = None"
    by (simp add: lookup_RSA_WITH_IDEA_CBC_SHA)
  have 2: "gmt_unix_time ?hello < 2 ^ 32" by simp
  obtain self' where r: "handle_server_hello example_tls example_lib (TLSSessionCtx_init True) ?hello
      = Some (Some KeyError, self')" "session_prf self' = session_prf (TLSSessionCtx_init True)"
    using C8_unknown_suite_raises [OF 1 2, of example_tls example_lib "TLSSessionCtx_init True"]
    by blast
  have w: "warnings self' = [Cipher_not_supported 0x0007]"
    using r(1)
    by (auto simp: handle_server_hello_def struct_pack_def Let_def lookup_RSA_WITH_IDEA_CBC_SHA
          comp_params_def TLSSessionCtx_init_def)
  show ?thesis using r w by (simp add: TLSSessionCtx_init_def)
qed

text \<open>
  Claim C5, as the code has it. \<^verbatim>\<open>CBCCryptoContainer\<close> pads with \<^verbatim>\<open>pkcs7.PKCS7Encoder()\<close>,
  an encoder built without the cipher's block size \<open>B\<close>: the padding is the encoder's
  padding of plaintext, MAC and one dummy byte for the encoder's own block size \<open>k\<close>. When
  the header of the record packs and \<open>0 < k < 256\<close>, \<^verbatim>\<open>from_context\<close> returns a container:
  its MAC is the HMAC of header and plaintext; for plaintext plus MAC of \<open>l\<close> bytes the
  padding has \<open>p = k - (l + 1) mod k\<close> bytes, between 1 and \<open>k\<close>, each equal to \<open>p\<close>; the
  padding-length byte \<open>p\<close> follows the padding; and plaintext, MAC, padding and
  padding-length byte together are a multiple of \<open>k\<close> long. The whole framed record is a
  multiple of \<open>B\<close> long when \<open>B\<close> divides \<open>k\<close> and the explicit IV is a multiple of \<open>B\<close> long.
  The length \<open>p\<close> is the \<open>(k - (l + 1) mod k) mod k\<close> of the claim, with \<open>k\<close> for \<open>B\<close>, unless
  \<open>k\<close> divides \<open>l + 1\<close>: there the formula of the claim gives 0 and the container has a whole
  block of \<open>k\<close> padding bytes.
\<close>

theorem C5_cbc_padding:
  assumes "sec_params tls_ctx = Some sp"
    and "pack_header cd = Inr header"
    and "0 < pkcs7_k L" and "pkcs7_k L < 256"
    and "mac = lib_hmac L (hash_type sp) (hmac (sym_keystore ctx)) (header @ data cd)"
    and "l = length (data cd) + length mac"
    and "p = pkcs7_k L - (l + 1) mod pkcs7_k L"
  shows "\<exists>c. CBCCryptoContainer_from_context L tls_ctx ctx cd = Inr c
       \<and> cbc_explicit_iv c = (if requires_iv tls_ctx then os_urandom L (block_size sp) else [])
       \<and> cbc_mac c = mac
       \<and> cbc_padding c = replicate p (of_nat p)
       \<and> 0 < p \<and> p \<le> pkcs7_k L
       \<and> cbc_padding_len c = of_nat p
       \<and> CBCCryptoContainer_str c
           = cbc_explicit_iv c @ data cd @ mac @ cbc_padding c @ [cbc_padding_len c]
       \<and> pkcs7_k L dvd length (data cd @ mac @ cbc_padding c @ [cbc_padding_len c])
       \<and> (block_size sp dvd pkcs7_k L \<and> block_size sp dvd length (cbc_explicit_iv c)
            \<longrightarrow> block_size sp dvd length (CBCCryptoContainer_str c))
       \<and> (if (l + 1) mod pkcs7_k L = 0
          then p = pkcs7_k L \<and> spec_padding_length (pkcs7_k L) l = 0
          else p = spec_padding_length (pkcs7_k L) l)"
proof -
  let ?k = "pkcs7_k L"
  let ?eiv = "if requires_iv tls_ctx then os_urandom L (block_size sp) else []"
  let ?c = "\<lparr>cbc_crypto_data = cd,
             cbc_digest = \<lparr>hmac_key = hmac (sym_keystore ctx), digestmod = hash_type sp\<rparr>,
             cbc_explicit_iv = ?eiv, cbc_mac = mac,
             cbc_padding = replicate p (of_nat p), cbc_padding_len = of_nat p\<rparr>"
  have p': "p = ?k - (length (data cd) + length mac + 1) mod ?k"
    using assms(6,7) by simp
  have ret: "CBCCryptoContainer_from_context L tls_ctx ctx cd = Inr ?c"
    using assms(1,2) assms(5) p' assms(4) by (rule CBC_from_context_returns)
  have lt: "(l + 1) mod ?k < ?k" using assms(3) by simp
  have pos: "0 < p" "p \<le> ?k" using lt assms(7) by simp_all
  have str: "CBCCryptoContainer_str ?c
           = ?eiv @ data cd @ mac @ replicate p (of_nat p) @ [of_nat p]"
    by (simp add: CBCCryptoContainer_str_def)
  have "?k dvd (l + 1) + (?k - (l + 1) mod ?k)"
    using assms(3) by (rule pkcs7_pad_dvd)
  then have dv: "?k dvd length (data cd @ mac @ replicate p (of_nat p) @ [of_nat p :: byte])"
    by (simp add: assms(6,7) ac_simps)
  have tot: "block_size sp dvd length (CBCCryptoContainer_str ?c)"
    if "block_size sp dvd ?k" "block_size sp dvd length ?eiv"
  proof -
    from that(1) dv
    have "block_size sp dvd length (data cd @ mac @ replicate p (of_nat p) @ [of_nat p :: byte])"
      by (rule dvd_trans)
    with that(2) show ?thesis
      unfolding str by (simp only: length_append dvd_add)
  qed
  have sp: "if (l + 1) mod ?k = 0 then p = ?k \<and> spec_padding_length ?k l = 0
            else p = spec_padding_length ?k l"
    using lt assms(7) by (simp add: spec_padding_length_def)
  show ?thesis
    apply (rule exI [of _ ?c])
    using ret pos dv tot sp by (simp add: CBCCryptoContainer_str_def)
qed

text \<open>
  The claim as stated fails, with a MAC of the digest size (20 bytes for HMAC-SHA). An
  AES-CBC session (\<open>B = 16\<close>) of TLS 1.0 frames eleven bytes: plaintext plus MAC is 31 bytes
  long, the claim asks for no padding, and the container has sixteen padding bytes \<open>0x10\<close> and
  the padding-length byte \<open>0x10\<close>. A DES-CBC session (\<open>B = 8\<close>) frames one byte: plaintext
  plus MAC is 21 bytes long, the claim asks for two padding bytes, and the container has ten
  bytes \<open>0x0A\<close>, the padding to the encoder's own block size 16. Both framed records are a
  multiple of \<open>B\<close> long all the same. And whatever positive block size the encoder has, the
  AES record does not get the padding length of the claim: the encoder always pads.
\<close>

theorem C5_counterexample:
  "(\<exists>c. CBCCryptoContainer_from_context example_lib_sized
           (example_session 0x002f 0x0301) (client_ctx (example_session 0x002f 0x0301))
           (CryptoData_init [1, 2, 3, 4, 5, 6, 7, 8, 9, 10, 11] 0 (Some 0x0301) 0x17 None)
         = Inr c
       \<and> block_size (the (sec_params (example_session 0x002f 0x0301))) = 16
       \<and> length (data (cbc_crypto_data c)) = 11 \<and> length (cbc_mac c) = 20
       \<and> spec_padding_length 16 (11 + 20) = 0
       \<and> cbc_padding c = replicate 16 16 \<and> cbc_padding_len c = 16
       \<and> length (CBCCryptoContainer_str c) = 48)
   \<and> (\<exists>c. CBCCryptoContainer_from_context example_lib_sized
           (example_session 0x0009 0x0301) (client_ctx (example_session 0x0009 0x0301))
           (CryptoData_init [1] 0 (Some 0x0301) 0x17 None)
         = Inr c
       \<and> block_size (the (sec_params (example_session 0x0009 0x0301))) = 8
       \<and> length (data (cbc_crypto_data c)) = 1 \<and> length (cbc_mac c) = 20
       \<and> spec_padding_length 8 (1 + 20) = 2
       \<and> cbc_padding c = replicate 10 10 \<and> cbc_padding_len c = 10
       \<and> length (CBCCryptoContainer_str c) = 32)
   \<and> (\<forall>k. \<not> (0 < k \<and> (\<exists>c.
         CBCCryptoContainer_from_context (example_lib_sized\<lparr>pkcs7_k := k\<rparr>)
           (example_session 0x002f 0x0301) (client_ctx (example_session 0x002f 0x0301))
           (CryptoData_init [1, 2, 3, 4, 5, 6, 7, 8, 9, 10, 11] 0 (Some 0x0301) 0x17 None)
         = Inr c
       \<and> length (cbc_padding c) = spec_padding_length 16 (11 + length (cbc_mac c)))))"
proof (intro conjI)
  let ?A = "example_session 0x002f 0x0301"
  let ?D = "example_session 0x0009 0x0301"
  obtain sp16 where s16: "sec_params ?A = Some sp16"
    "block_size sp16 = 16" "hash_type sp16 = SHA" "\<not> requires_iv ?A"
    using example_session_AES_1_0 by blast
  obtain sp8 where s8: "sec_params ?D = Some sp8"
    "block_size sp8 = 8" "hash_type sp8 = SHA" "\<not> requires_iv ?D"
    using example_session_DES_1_0 by blast
  note a = CBC_from_context_returns [OF s16(1) example_headers(2) refl refl,
      where L = example_lib_sized and ctx = "client_ctx ?A"]
  show "\<exists>c. CBCCryptoContainer_from_context example_lib_sized ?A (client_ctx ?A)
           (CryptoData_init [1, 2, 3, 4, 5, 6, 7, 8, 9, 10, 11] 0 (Some 0x0301) 0x17 None)
         = Inr c
       \<and> block_size (the (sec_params ?A)) = 16
       \<and> length (data (cbc_crypto_data c)) = 11 \<and> length (cbc_mac c) = 20
       \<and> spec_padding_length 16 (11 + 20) = 0
       \<and> cbc_padding c = replicate 16 16 \<and> cbc_padding_len c = 16
       \<and> length (CBCCryptoContainer_str c) = 48"
    by (simp add: a example_lib_sized_simps s16 length_example_hmac_sized data_CryptoData_init
          spec_padding_length_def CBCCryptoContainer_str_def)
  note d = CBC_from_context_returns [OF s8(1) example_headers(3) refl refl,
      where L = example_lib_sized and ctx = "client_ctx ?D"]
  show "\<exists>c. CBCCryptoContainer_from_context example_lib_sized ?D (client_ctx ?D)
           (CryptoData_init [1] 0 (Some 0x0301) 0x17 None)
         = Inr c
       \<and> block_size (the (sec_params ?D)) = 8
       \<and> length (data (cbc_crypto_data c)) = 1 \<and> length (cbc_mac c) = 20
       \<and> spec_padding_length 8 (1 + 20) = 2
       \<and> cbc_padding c = replicate 10 10 \<and> cbc_padding_len c = 10
       \<and> length (CBCCryptoContainer_str c) = 32"
    by (simp add: d example_lib_sized_simps s8 length_example_hmac_sized data_CryptoData_init
          spec_padding_length_def CBCCryptoContainer_str_def)
  show "\<forall>k. \<not> (0 < k \<and> (\<exists>c.
         CBCCryptoContainer_from_context (example_lib_sized\<lparr>pkcs7_k := k\<rparr>) ?A (client_ctx ?A)
           (CryptoData_init [1, 2, 3, 4, 5, 6, 7, 8, 9, 10, 11] 0 (Some 0x0301) 0x17 None)
         = Inr c
       \<and> length (cbc_padding c) = spec_padding_length 16 (11 + length (cbc_mac c))))"
  proof (intro allI notI, elim conjE exE)
    fix k c
    assume k: "0 < (k :: nat)"
      and c: "CBCCryptoContainer_from_context (example_lib_sized\<lparr>pkcs7_k := k\<rparr>) ?A (client_ctx ?A)
           (CryptoData_init [1, 2, 3, 4, 5, 6, 7, 8, 9, 10, 11] 0 (Some 0x0301) 0x17 None)
         = Inr c"
      and l: "length (cbc_padding c) = spec_padding_length 16 (11 + length (cbc_mac c))"
    from CBC_from_context_mac [OF c s16(1)]
    have m: "length (cbc_mac c) = 20"
      and pd: "cbc_padding c = PKCS7Encoder_get_padding k
                 (data (CryptoData_init [1, 2, 3, 4, 5, 6, 7, 8, 9, 10, 11] 0 (Some 0x0301) 0x17
                    None) @ cbc_mac c @ [0xff])"
      by (auto simp: example_lib_sized_simps s16 length_example_hmac_sized)
    have "length (cbc_padding c) = k - 32 mod k"
      unfolding pd get_padding_bytes by (simp add: m data_CryptoData_init)
    moreover have "32 mod k < k" using k by simp
    ultimately have "0 < length (cbc_padding c)" by simp
    moreover have "spec_padding_length 16 (11 + length (cbc_mac c)) = 0"
      by (simp add: m spec_padding_length_def)
    ultimately show False using l by simp
  qed
qed

theorem C5_cbc_padding_witness:
  "\<exists>c. CBCCryptoContainer_from_context example_lib_sized (example_session 0x002f 0x0302)
         (client_ctx (example_session 0x002f 0x0302))
         (CryptoData_init [1, 2, 3] 0 (Some 0x0302) 0x17 None) = Inr c
     \<and> pack_header (CryptoData_init [1, 2, 3] 0 (Some 0x0302) 0x17 None)
         = Inr [0, 0, 0, 0, 0, 0, 0, 0, 23, 3, 2, 0, 3]
     \<and> pkcs7_k example_lib_sized = 16
     \<and> cbc_explicit_iv c = replicate 16 0xA5
     \<and> length (cbc_mac c) = 20
     \<and> cbc_padding c = replicate 8 8 \<and> cbc_padding_len c = 8
     \<and> length (CBCCryptoContainer_str c) = 48
     \<and> spec_padding_length 16 (3 + 20) = 8"
proof -
  let ?S = "example_session 0x002f 0x0302"
  obtain sp where sp: "sec_params ?S = Some sp" "block_size sp = 16" "hash_type sp = SHA"
    "requires_iv ?S"
    using example_session_AES_1_1 by blast
  have k: "0 < pkcs7_k example_lib_sized" "pkcs7_k example_lib_sized < 256"
    by (simp_all add: example_lib_sized_simps)
  note inst = C5_cbc_padding [OF sp(1) example_headers(1) k refl refl refl,
      where ctx = "client_ctx ?S"]
  from inst show ?thesis
    by (auto simp: example_lib_sized_simps sp length_example_hmac_sized data_CryptoData_init
          example_headers(1) spec_padding_length_def)
qed

text \<open>
  Claim C7, as the code has it. A fresh \<^verbatim>\<open>TLSContext\<close> gets its key store and its engine from
  the factory. Every call of \<^verbatim>\<open>encrypt\<close> and every call of \<^verbatim>\<open>decrypt\<close> on that context
  advances the same sequence number by one: when a run of calls returns, the sequence number
  is the number of calls, the \<open>N\<close> encrypts and the decrypts together. The nonce counter stays
  0 with a stream or CBC engine; with a GCM engine an \<^verbatim>\<open>encrypt\<close> advances it by one and a
  \<^verbatim>\<open>decrypt\<close> sets it to the explicit nonce of the record, so that it is \<open>N\<close> after \<open>N\<close>
  encrypts and no decrypt, and the explicit nonce of the last decrypted record plus the number
  of encrypts since otherwise. And the run does return: when the ciphers of the library
  accept every input and \<^verbatim>\<open>verify\<close> raises nothing but \<^verbatim>\<open>ValueError\<close>, and, for a GCM engine,
  the cipher class is not \<^verbatim>\<open>NullCipher\<close>, the version is negotiated, the run has at most
  \<open>2\<^sup>6\<^sup>4\<close> operations and each one fits the engine.
\<close>

theorem C7_operation_counters:
  assumes "CryptoContextFactory_new tls_ctx ((TLSContext_init name')\<lparr>sym_keystore := ks\<rparr>)
             = Inr (engine, ctx1)"
  shows "(\<forall>outs ctx' ws.
            run_operations tls L tls_ctx (ctx1\<lparr>crypto_ctx := Some engine\<rparr>) ops
              = Inr (outs, ctx', ws)
            \<longrightarrow> length outs = length ops \<and> sequence ctx' = length ops
                \<and> nonce ctx' = (if cc_mode engine = GCM then nonce_after 0 ops else 0))
       \<and> ((\<forall>obj m. \<exists>x. lib_encrypt L obj m = Inr x)
            \<and> (\<forall>obj m. \<exists>x. lib_decrypt L obj m = Inr x)
            \<and> (\<forall>obj m. \<exists>x t. lib_encrypt_and_digest L obj m = Inr (x, t))
            \<and> (\<forall>obj t. lib_verify L obj t = None
                   \<or> (\<exists>why. lib_verify L obj t = Some (ValueError why)))
            \<and> (cc_mode engine = GCM \<longrightarrow>
                   cipher_type (cc_sec_params engine) \<noteq> NullCipher
                 \<and> (\<exists>v. negotiated_version (negotiated tls_ctx) = Some v \<and> v < 2 ^ 16)
                 \<and> length ops \<le> 2 ^ 64 \<and> (\<forall>op \<in> set ops. fits_GCM (length ops) op))
          \<longrightarrow> (\<exists>outs ctx' ws.
                 run_operations tls L tls_ctx (ctx1\<lparr>crypto_ctx := Some engine\<rparr>) ops
                   = Inr (outs, ctx', ws)))
       \<and> nonce_after 0 (map Encrypt cs) = length cs
       \<and> nonce_after 0 (ops @ Decrypt wire content_type' # map Encrypt cs)
           = be_nat (take 8 wire) + length cs"
proof (intro conjI allI impI)
  let ?ctx = "ctx1\<lparr>crypto_ctx := Some engine\<rparr>"
  note new = Factory_new_ready [OF assms]
  have zero: "sequence ?ctx = 0" "nonce ?ctx = 0"
    using new(2,3) by (simp_all add: TLSContext_init_def)
  have eng: "crypto_ctx ?ctx = Some engine" by simp
  {
    fix outs ctx' ws
    assume run: "run_operations tls L tls_ctx ?ctx ops = Inr (outs, ctx', ws)"
    from run_operations_counters [OF run eng] new(1) zero
    show "length outs = length ops" and "sequence ctx' = length ops"
      and "nonce ctx' = (if cc_mode engine = GCM then nonce_after 0 ops else 0)"
      by simp_all
  }
  {
    assume h: "(\<forall>obj m. \<exists>x. lib_encrypt L obj m = Inr x)
            \<and> (\<forall>obj m. \<exists>x. lib_decrypt L obj m = Inr x)
            \<and> (\<forall>obj m. \<exists>x t. lib_encrypt_and_digest L obj m = Inr (x, t))
            \<and> (\<forall>obj t. lib_verify L obj t = None
                   \<or> (\<exists>why. lib_verify L obj t = Some (ValueError why)))
            \<and> (cc_mode engine = GCM \<longrightarrow>
                   cipher_type (cc_sec_params engine) \<noteq> NullCipher
                 \<and> (\<exists>v. negotiated_version (negotiated tls_ctx) = Some v \<and> v < 2 ^ 16)
                 \<and> length ops \<le> 2 ^ 64 \<and> (\<forall>op \<in> set ops. fits_GCM (length ops) op))"
    then have g: "cc_mode engine = GCM \<longrightarrow> cipher_type (cc_sec_params engine) \<noteq> NullCipher
           \<and> (\<exists>v. negotiated_version (negotiated tls_ctx) = Some v \<and> v < 2 ^ 16)
           \<and> sequence ?ctx + length ops \<le> 2 ^ 64 \<and> nonce ?ctx + length ops \<le> 2 ^ 64
           \<and> length ops \<le> length ops \<and> (\<forall>op \<in> set ops. fits_GCM (length ops) op)"
      using zero by simp
    from h have l: "\<forall>obj m. \<exists>x. lib_encrypt L obj m = Inr x"
      "\<forall>obj m. \<exists>x. lib_decrypt L obj m = Inr x"
      "\<forall>obj m. \<exists>x t. lib_encrypt_and_digest L obj m = Inr (x, t)"
      "\<forall>obj t. lib_verify L obj t = None \<or> (\<exists>why. lib_verify L obj t = Some (ValueError why))"
      by blast+
    show "\<exists>outs ctx' ws. run_operations tls L tls_ctx ?ctx ops = Inr (outs, ctx', ws)"
      by (rule run_operations_returns [OF l eng new(1) g])
  }
  show "nonce_after 0 (map Encrypt cs) = length cs"
    by (simp add: nonce_after_encrypts)
  show "nonce_after 0 (ops @ Decrypt wire content_type' # map Encrypt cs)
           = be_nat (take 8 wire) + length cs"
    by (rule nonce_after_last_decrypt)
qed

theorem C7_operation_counters_witness:
  "(\<exists>engine ctx1 outs ctx' ws.
      CryptoContextFactory_new (example_session 0x0005 0x0301)
        ((TLSContext_init ''Client TLS context'')
           \<lparr>sym_keystore := \<lparr>ks_empty = False, key = [0x11, 0x22], hmac = [0x33],
                              iv = [1, 2, 3, 4]\<rparr>\<rparr>) = Inr (engine, ctx1)
    \<and> cc_mode engine = STREAM
    \<and> run_operations example_tls example_lib (example_session 0x0005 0x0301)
        (ctx1\<lparr>crypto_ctx := Some engine\<rparr>)
        [Encrypt (StreamContainer
                   \<lparr>stream_crypto_data = CryptoData_init [1, 2] 0 (Some 0x0301) 0x17 None,
                    stream_digest = \<lparr>hmac_key = [0x33], digestmod = SHA\<rparr>,
                    stream_mac = [0x6A]\<rparr>),
         Decrypt [0x10, 0x13] 0x17,
         Encrypt (StreamContainer
                   \<lparr>stream_crypto_data = CryptoData_init [3] 2 (Some 0x0301) 0x17 None,
                    stream_digest = \<lparr>hmac_key = [0x33], digestmod = SHA\<rparr>,
                    stream_mac = [0x6B]\<rparr>)]
      = Inr (outs, ctx', ws)
    \<and> length outs = 3 \<and> sequence ctx' = 3 \<and> nonce ctx' = 0)
 \<and> (\<exists>engine ctx1 outs ctx' ws.
      CryptoContextFactory_new (example_session 0x002f 0x0302)
        ((TLSContext_init ''Client TLS context'')
           \<lparr>sym_keystore := \<lparr>ks_empty = False, key = [0x11, 0x22], hmac = [0x33],
                              iv = [1, 2, 3, 4]\<rparr>\<rparr>) = Inr (engine, ctx1)
    \<and> cc_mode engine = CBC
    \<and> run_operations example_tls example_lib (example_session 0x002f 0x0302)
        (ctx1\<lparr>crypto_ctx := Some engine\<rparr>)
        [Encrypt (CBCContainer
                   \<lparr>cbc_crypto_data = CryptoData_init [1, 2, 3] 0 (Some 0x0302) 0x17 None,
                    cbc_digest = \<lparr>hmac_key = [0x33], digestmod = SHA\<rparr>,
                    cbc_explicit_iv = replicate 16 0xA5, cbc_mac = [0x6A],
                    cbc_padding = replicate 11 11, cbc_padding_len = 11\<rparr>),
         Decrypt (replicate 32 0x5A) 0x17,
         Encrypt (CBCContainer
                   \<lparr>cbc_crypto_data = CryptoData_init [1, 2, 3] 2 (Some 0x0302) 0x17 None,
                    cbc_digest = \<lparr>hmac_key = [0x33], digestmod = SHA\<rparr>,
                    cbc_explicit_iv = replicate 16 0xA5, cbc_mac = [0x6A],
                    cbc_padding = replicate 11 11, cbc_padding_len = 11\<rparr>)]
      = Inr (outs, ctx', ws)
    \<and> length outs = 3 \<and> sequence ctx' = 3 \<and> nonce ctx' = 0)
 \<and> (\<exists>engine ctx1 outs ctx' ws.
      CryptoContextFactory_new (example_session 0xc02b 0x0303)
        ((TLSContext_init ''Client TLS context'')
           \<lparr>sym_keystore := \<lparr>ks_empty = False, key = [0x11, 0x22], hmac = [0x33],
                              iv = [1, 2, 3, 4]\<rparr>\<rparr>) = Inr (engine, ctx1)
    \<and> cc_mode engine = GCM
    \<and> run_operations example_tls example_lib (example_session 0xc02b 0x0303)
        (ctx1\<lparr>crypto_ctx := Some engine\<rparr>)
        [Encrypt (GCMContainer
                   \<lparr>gcm_crypto_data = CryptoData_init [1, 2] 0 (Some 0x0303) 0x17 None,
                    aead = [0, 0, 0, 0, 0, 0, 0, 0, 23, 3, 3, 0, 2]\<rparr>),
         Decrypt ([0, 0, 0, 0, 0, 0, 1, 2] @ [0x10, 0x13] @ replicate 16 0) 0x17,
         Encrypt (GCMContainer
                   \<lparr>gcm_crypto_data = CryptoData_init [3] 2 (Some 0x0303) 0x17 None,
                    aead = [0, 0, 0, 0, 0, 0, 0, 2, 23, 3, 3, 0, 1]\<rparr>)]
      = Inr (outs, ctx', ws)
    \<and> length outs = 3 \<and> sequence ctx' = 3 \<and> nonce ctx' = 259)
 \<and> (\<exists>engine ctx1 outs ctx' ws.
      CryptoContextFactory_new (example_session 0xc02b 0x0303)
        ((TLSContext_init ''Client TLS context'')
           \<lparr>sym_keystore := \<lparr>ks_empty = False, key = [0x11, 0x22], hmac = [0x33],
                              iv = [1, 2, 3, 4]\<rparr>\<rparr>) = Inr (engine, ctx1)
    \<and> cc_mode engine = GCM
    \<and> run_operations example_tls example_lib (example_session 0xc02b 0x0303)
        (ctx1\<lparr>crypto_ctx := Some engine\<rparr>)
        [Encrypt (GCMContainer
                   \<lparr>gcm_crypto_data = CryptoData_init [1, 2] 0 (Some 0x0303) 0x17 None,
                    aead = [0, 0, 0, 0, 0, 0, 0, 0, 23, 3, 3, 0, 2]\<rparr>),
         Encrypt (GCMContainer
                   \<lparr>gcm_crypto_data = CryptoData_init [3] 1 (Some 0x0303) 0x17 None,
                    aead = [0, 0, 0, 0, 0, 0, 0, 1, 23, 3, 3, 0, 1]\<rparr>)]
      = Inr (outs, ctx', ws)
    \<and> length outs = 2 \<and> sequence ctx' = 2 \<and> nonce ctx' = 2)"
proof -
  have lib: "(\<forall>obj m. \<exists>x. lib_encrypt example_lib obj m = Inr x)"
    "(\<forall>obj m. \<exists>x. lib_decrypt example_lib obj m = Inr x)"
    "(\<forall>obj m. \<exists>x t. lib_encrypt_and_digest example_lib obj m = Inr (x, t))"
    "(\<forall>obj t. lib_verify example_lib obj t = None
         \<or> (\<exists>why. lib_verify example_lib obj t = Some (ValueError why)))"
    by (simp_all add: example_lib_simps)

  have R: "(\<exists>engine ctx1 outs ctx' ws.
          CryptoContextFactory_new (example_session 0x0005 0x0301)
            ((TLSContext_init ''Client TLS context'')
               \<lparr>sym_keystore := \<lparr>ks_empty = False, key = [0x11, 0x22], hmac = [0x33],
                                  iv = [1, 2, 3, 4]\<rparr>\<rparr>) = Inr (engine, ctx1)
        \<and> cc_mode engine = STREAM
        \<and> run_operations example_tls example_lib (example_session 0x0005 0x0301)
            (ctx1\<lparr>crypto_ctx := Some engine\<rparr>)
            [Encrypt (StreamContainer
                       \<lparr>stream_crypto_data = CryptoData_init [1, 2] 0 (Some 0x0301) 0x17 None,
                        stream_digest = \<lparr>hmac_key = [0x33], digestmod = SHA\<rparr>,
                        stream_mac = [0x6A]\<rparr>),
             Decrypt [0x10, 0x13] 0x17,
             Encrypt (StreamContainer
                       \<lparr>stream_crypto_data = CryptoData_init [3] 2 (Some 0x0301) 0x17 None,
                        stream_digest = \<lparr>hmac_key = [0x33], digestmod = SHA\<rparr>,
                        stream_mac = [0x6B]\<rparr>)]
          = Inr (outs, ctx', ws)
        \<and> length outs = 3 \<and> sequence ctx' = 3 \<and> nonce ctx' = 0)"
  proof -
    let ?S = "example_session 0x0005 0x0301"
    let ?ctx0 = "((TLSContext_init ''Client TLS context'')
           \<lparr>sym_keystore := \<lparr>ks_empty = False, key = [0x11, 0x22], hmac = [0x33],
                              iv = [1, 2, 3, 4]\<rparr>\<rparr>)"
    let ?ops = "[Encrypt (StreamContainer
                   \<lparr>stream_crypto_data = CryptoData_init [1, 2] 0 (Some 0x0301) 0x17 None,
                    stream_digest = \<lparr>hmac_key = [0x33], digestmod = SHA\<rparr>,
                    stream_mac = [0x6A]\<rparr>),
         Decrypt [0x10, 0x13] 0x17,
         Encrypt (StreamContainer
                   \<lparr>stream_crypto_data = CryptoData_init [3] 2 (Some 0x0301) 0x17 None,
                    stream_digest = \<lparr>hmac_key = [0x33], digestmod = SHA\<rparr>,
                    stream_mac = [0x6B]\<rparr>)]"
    obtain sp where sp: "sec_params ?S = Some sp" "cipher_type sp = ARC4" "cipher_mode_name sp = STREAM"
      using example_session_RC4 by blast
    let ?engine = "\<lparr>cc_sec_params = sp, cc_mode = STREAM,
                 enc_cipher = Some (cipher_new ARC4 [0x11, 0x22] None None),
                 dec_cipher = Some (cipher_new ARC4 [0x11, 0x22] None None),
                 cc_explicit_iv = [], tag_size = 0, explicit_iv_size = 0\<rparr>"
    let ?ctx1 = "((TLSContext_init ''Client TLS context'')
           \<lparr>sym_keystore := \<lparr>ks_empty = False, key = [0x11, 0x22], hmac = [0x33],
                              iv = [1, 2, 3, 4]\<rparr>\<rparr>)"
    have new: "CryptoContextFactory_new ?S ?ctx0 = Inr (?engine, ?ctx1)"
      by (simp add: CryptoContextFactory_new_def StreamCryptoContext_init_def sp TLSContext_init_def)
    note t = C7_operation_counters [OF new, where tls = example_tls and L = example_lib
        and ops = ?ops and cs = "[]" and wire = "[]" and content_type' = 0]
    have "\<exists>outs ctx' ws. run_operations example_tls example_lib ?S
            (?ctx1\<lparr>crypto_ctx := Some ?engine\<rparr>) ?ops = Inr (outs, ctx', ws)"
      using t lib by (simp)
    then obtain outs ctx' ws where
      run: "run_operations example_tls example_lib ?S
              (?ctx1\<lparr>crypto_ctx := Some ?engine\<rparr>) ?ops = Inr (outs, ctx', ws)"
      by blast
    from t run have "length outs = 3 \<and> sequence ctx' = 3 \<and> nonce ctx' = 0"
      by (simp)
    with new run show ?thesis by fastforce
  qed

  have A: "(\<exists>engine ctx1 outs ctx' ws.
          CryptoContextFactory_new (example_session 0x002f 0x0302)
            ((TLSContext_init ''Client TLS context'')
               \<lparr>sym_keystore := \<lparr>ks_empty = False, key = [0x11, 0x22], hmac = [0x33],
                                  iv = [1, 2, 3, 4]\<rparr>\<rparr>) = Inr (engine, ctx1)
        \<and> cc_mode engine = CBC
        \<and> run_operations example_tls example_lib (example_session 0x002f 0x0302)
            (ctx1\<lparr>crypto_ctx := Some engine\<rparr>)
            [Encrypt (CBCContainer
                       \<lparr>cbc_crypto_data = CryptoData_init [1, 2, 3] 0 (Some 0x0302) 0x17 None,
                        cbc_digest = \<lparr>hmac_key = [0x33], digestmod = SHA\<rparr>,
                        cbc_explicit_iv = replicate 16 0xA5, cbc_mac = [0x6A],
                        cbc_padding = replicate 11 11, cbc_padding_len = 11\<rparr>),
             Decrypt (replicate 32 0x5A) 0x17,
             Encrypt (CBCContainer
                       \<lparr>cbc_crypto_data = CryptoData_init [1, 2, 3] 2 (Some 0x0302) 0x17 None,
                        cbc_digest = \<lparr>hmac_key = [0x33], digestmod = SHA\<rparr>,
                        cbc_explicit_iv = replicate 16 0xA5, cbc_mac = [0x6A],
                        cbc_padding = replicate 11 11, cbc_padding_len = 11\<rparr>)]
          = Inr (outs, ctx', ws)
        \<and> length outs = 3 \<and> sequence ctx' = 3 \<and> nonce ctx' = 0)"
  proof -
    let ?S = "example_session 0x002f 0x0302"
    let ?ctx0 = "((TLSContext_init ''Client TLS context'')
           \<lparr>sym_keystore := \<lparr>ks_empty = False, key = [0x11, 0x22], hmac = [0x33],
                              iv = [1, 2, 3, 4]\<rparr>\<rparr>)"
    let ?ops = "[Encrypt (CBCContainer
                   \<lparr>cbc_crypto_data = CryptoData_init [1, 2, 3] 0 (Some 0x0302) 0x17 None,
                    cbc_digest = \<lparr>hmac_key = [0x33], digestmod = SHA\<rparr>,
                    cbc_explicit_iv = replicate 16 0xA5, cbc_mac = [0x6A],
                    cbc_padding = replicate 11 11, cbc_padding_len = 11\<rparr>),
         Decrypt (replicate 32 0x5A) 0x17,
         Encrypt (CBCContainer
                   \<lparr>cbc_crypto_data = CryptoData_init [1, 2, 3] 2 (Some 0x0302) 0x17 None,
                    cbc_digest = \<lparr>hmac_key = [0x33], digestmod = SHA\<rparr>,
                    cbc_explicit_iv = replicate 16 0xA5, cbc_mac = [0x6A],
                    cbc_padding = replicate 11 11, cbc_padding_len = 11\<rparr>)]"
    obtain sp where sp: "sec_params ?S = Some sp" "cipher_type sp = AES" "cipher_mode_name sp = CBC" "block_size sp = 16" "requires_iv ?S"
      using example_session_AES_1_1 by blast
    let ?engine = "\<lparr>cc_sec_params = sp, cc_mode = CBC, enc_cipher = None, dec_cipher = None,
                   cc_explicit_iv = [], tag_size = 0, explicit_iv_size = 0\<rparr>"
    let ?ctx1 = "(TLSContext_init ''Client TLS context'')
                   \<lparr>sym_keystore := \<lparr>ks_empty = False, key = [0x11, 0x22], hmac = [0x33],
                                      iv = replicate 16 0\<rparr>\<rparr>"
    have new: "CryptoContextFactory_new ?S ?ctx0 = Inr (?engine, ?ctx1)"
      by (simp add: CryptoContextFactory_new_def CBCCryptoContext_init_def sp TLSContext_init_def)
    note t = C7_operation_counters [OF new, where tls = example_tls and L = example_lib
        and ops = ?ops and cs = "[]" and wire = "[]" and content_type' = 0]
    have "\<exists>outs ctx' ws. run_operations example_tls example_lib ?S
            (?ctx1\<lparr>crypto_ctx := Some ?engine\<rparr>) ?ops = Inr (outs, ctx', ws)"
      using t lib by (simp)
    then obtain outs ctx' ws where
      run: "run_operations example_tls example_lib ?S
              (?ctx1\<lparr>crypto_ctx := Some ?engine\<rparr>) ?ops = Inr (outs, ctx', ws)"
      by blast
    from t run have "length outs = 3 \<and> sequence ctx' = 3 \<and> nonce ctx' = 0"
      by (simp)
    with new run show ?thesis by fastforce
  qed

  have G: "(\<exists>engine ctx1 outs ctx' ws.
          CryptoContextFactory_new (example_session 0xc02b 0x0303)
            ((TLSContext_init ''Client TLS context'')
               \<lparr>sym_keystore := \<lparr>ks_empty = False, key = [0x11, 0x22], hmac = [0x33],
                                  iv = [1, 2, 3, 4]\<rparr>\<rparr>) = Inr (engine, ctx1)
        \<and> cc_mode engine = GCM
        \<and> run_operations example_tls example_lib (example_session 0xc02b 0x0303)
            (ctx1\<lparr>crypto_ctx := Some engine\<rparr>)
            [Encrypt (GCMContainer
                       \<lparr>gcm_crypto_data = CryptoData_init [1, 2] 0 (Some 0x0303) 0x17 None,
                        aead = [0, 0, 0, 0, 0, 0, 0, 0, 23, 3, 3, 0, 2]\<rparr>),
             Decrypt ([0, 0, 0, 0, 0, 0, 1, 2] @ [0x10, 0x13] @ replicate 16 0) 0x17,
             Encrypt (GCMContainer
                       \<lparr>gcm_crypto_data = CryptoData_init [3] 2 (Some 0x0303) 0x17 None,
                        aead = [0, 0, 0, 0, 0, 0, 0, 2, 23, 3, 3, 0, 1]\<rparr>)]
          = Inr (outs, ctx', ws)
        \<and> length outs = 3 \<and> sequence ctx' = 3 \<and> nonce ctx' = 259)"
  proof -
    let ?S = "example_session 0xc02b 0x0303"
    let ?ctx0 = "((TLSContext_init ''Client TLS context'')
           \<lparr>sym_keystore := \<lparr>ks_empty = False, key = [0x11, 0x22], hmac = [0x33],
                              iv = [1, 2, 3, 4]\<rparr>\<rparr>)"
    let ?ops = "[Encrypt (GCMContainer
                   \<lparr>gcm_crypto_data = CryptoData_init [1, 2] 0 (Some 0x0303) 0x17 None,
                    aead = [0, 0, 0, 0, 0, 0, 0, 0, 23, 3, 3, 0, 2]\<rparr>),
         Decrypt ([0, 0, 0, 0, 0, 0, 1, 2] @ [0x10, 0x13] @ replicate 16 0) 0x17,
         Encrypt (GCMContainer
                   \<lparr>gcm_crypto_data = CryptoData_init [3] 2 (Some 0x0303) 0x17 None,
                    aead = [0, 0, 0, 0, 0, 0, 0, 2, 23, 3, 3, 0, 1]\<rparr>)]"
    obtain sp where sp: "sec_params ?S = Some sp" "cipher_type sp = AES" "cipher_mode_name sp = GCM"
      "negotiated_version (negotiated ?S) = Some 0x0303"
      using example_session_GCM by blast
    let ?engine = "\<lparr>cc_sec_params = sp, cc_mode = GCM, enc_cipher = None, dec_cipher = None,
                   cc_explicit_iv = [], tag_size = 16, explicit_iv_size = 8\<rparr>"
    let ?ctx1 = "((TLSContext_init ''Client TLS context'')
           \<lparr>sym_keystore := \<lparr>ks_empty = False, key = [0x11, 0x22], hmac = [0x33],
                              iv = [1, 2, 3, 4]\<rparr>\<rparr>)"
    have new: "CryptoContextFactory_new ?S ?ctx0 = Inr (?engine, ?ctx1)"
      by (simp add: CryptoContextFactory_new_def GCMCryptoContext_init_def sp TLSContext_init_def)
    note t = C7_operation_counters [OF new, where tls = example_tls and L = example_lib
        and ops = ?ops and cs = "[]" and wire = "[]" and content_type' = 0]
    have "\<exists>outs ctx' ws. run_operations example_tls example_lib ?S
            (?ctx1\<lparr>crypto_ctx := Some ?engine\<rparr>) ?ops = Inr (outs, ctx', ws)"
      using t lib by (simp add: sp be_nat_def)
    then obtain outs ctx' ws where
      run: "run_operations example_tls example_lib ?S
              (?ctx1\<lparr>crypto_ctx := Some ?engine\<rparr>) ?ops = Inr (outs, ctx', ws)"
      by blast
    from t run have "length outs = 3 \<and> sequence ctx' = 3 \<and> nonce ctx' = 259"
      by (simp add: be_nat_def)
    with new run show ?thesis by fastforce
  qed

  have E: "(\<exists>engine ctx1 outs ctx' ws.
          CryptoContextFactory_new (example_session 0xc02b 0x0303)
            ((TLSContext_init ''Client TLS context'')
               \<lparr>sym_keystore := \<lparr>ks_empty = False, key = [0x11, 0x22], hmac = [0x33],
                                  iv = [1, 2, 3, 4]\<rparr>\<rparr>) = Inr (engine, ctx1)
        \<and> cc_mode engine = GCM
        \<and> run_operations example_tls example_lib (example_session 0xc02b 0x0303)
            (ctx1\<lparr>crypto_ctx := Some engine\<rparr>)
            [Encrypt (GCMContainer
                       \<lparr>gcm_crypto_data = CryptoData_init [1, 2] 0 (Some 0x0303) 0x17 None,
                        aead = [0, 0, 0, 0, 0, 0, 0, 0, 23, 3, 3, 0, 2]\<rparr>),
             Encrypt (GCMContainer
                       \<lparr>gcm_crypto_data = CryptoData_init [3] 1 (Some 0x0303) 0x17 None,
                        aead = [0, 0, 0, 0, 0, 0, 0, 1, 23, 3, 3, 0, 1]\<rparr>)]
          = Inr (outs, ctx', ws)
        \<and> length outs = 2 \<and> sequence ctx' = 2 \<and> nonce ctx' = 2)"
  proof -
    let ?S = "example_session 0xc02b 0x0303"
    let ?ctx0 = "((TLSContext_init ''Client TLS context'')
           \<lparr>sym_keystore := \<lparr>ks_empty = False, key = [0x11, 0x22], hmac = [0x33],
                              iv = [1, 2, 3, 4]\<rparr>\<rparr>)"
    let ?ops = "[Encrypt (GCMContainer
                   \<lparr>gcm_crypto_data = CryptoData_init [1, 2] 0 (Some 0x0303) 0x17 None,
                    aead = [0, 0, 0, 0, 0, 0, 0, 0, 23, 3, 3, 0, 2]\<rparr>),
         Encrypt (GCMContainer
                   \<lparr>gcm_crypto_data = CryptoData_init [3] 1 (Some 0x0303) 0x17 None,
                    aead = [0, 0, 0, 0, 0, 0, 0, 1, 23, 3, 3, 0, 1]\<rparr>)]"
    obtain sp where sp: "sec_params ?S = Some sp" "cipher_type sp = AES" "cipher_mode_name sp = GCM"
      "negotiated_version (negotiated ?S) = Some 0x0303"
      using example_session_GCM by blast
    let ?engine = "\<lparr>cc_sec_params = sp, cc_mode = GCM, enc_cipher = None, dec_cipher = None,
                   cc_explicit_iv = [], tag_size = 16, explicit_iv_size = 8\<rparr>"
    let ?ctx1 = "((TLSContext_init ''Client TLS context'')
           \<lparr>sym_keystore := \<lparr>ks_empty = False, key = [0x11, 0x22], hmac = [0x33],
                              iv = [1, 2, 3, 4]\<rparr>\<rparr>)"
    have new: "CryptoContextFactory_new ?S ?ctx0 = Inr (?engine, ?ctx1)"
      by (simp add: CryptoContextFactory_new_def GCMCryptoContext_init_def sp TLSContext_init_def)
    note t = C7_operation_counters [OF new, where tls = example_tls and L = example_lib
        and ops = ?ops and cs = "[]" and wire = "[]" and content_type' = 0]
    have "\<exists>outs ctx' ws. run_operations example_tls example_lib ?S
            (?ctx1\<lparr>crypto_ctx := Some ?engine\<rparr>) ?ops = Inr (outs, ctx', ws)"
      using t lib by (simp add: sp)
    then obtain outs ctx' ws where
      run: "run_operations example_tls example_lib ?S
              (?ctx1\<lparr>crypto_ctx := Some ?engine\<rparr>) ?ops = Inr (outs, ctx', ws)"
      by blast
    from t run have "length outs = 2 \<and> sequence ctx' = 2 \<and> nonce ctx' = 2"
      by simp
    with new run show ?thesis by fastforce
  qed

  from R A G E show ?thesis by blast
qed

text \<open>
  The claim as stated, the sequence number is \<open>N\<close> after \<open>N\<close> encrypts unless a decrypt has
  resynchronised the counter, fails. On the fresh context of an RC4 session one \<^verbatim>\<open>decrypt\<close>
  and then one \<^verbatim>\<open>encrypt\<close> return, and the sequence number is 2 after that single encrypt.
  The stream \<^verbatim>\<open>decrypt\<close> takes no counter from the record, and the nonce counter is still 0:
  it advances the sequence number by one, as every call does.
\<close>

theorem C7_counterexample:
  "\<exists>engine ctx1 ctx'.
      CryptoContextFactory_new (example_session 0x0005 0x0301)
        ((TLSContext_init ''Client TLS context'')
           \<lparr>sym_keystore := \<lparr>ks_empty = False, key = [0x11, 0x22], hmac = [0x33],
                              iv = [1, 2, 3, 4]\<rparr>\<rparr>) = Inr (engine, ctx1)
    \<and> cc_mode engine = STREAM \<and> sequence ctx1 = 0 \<and> nonce ctx1 = 0
    \<and> run_operations example_tls example_lib (example_session 0x0005 0x0301)
        (ctx1\<lparr>crypto_ctx := Some engine\<rparr>)
        [Decrypt [0x10, 0x13] 0x17,
         Encrypt (StreamContainer \<lparr>stream_crypto_data = CryptoData_init [1, 2] 0 (Some 0x0301) 0x17 None,
                stream_digest = \<lparr>hmac_key = [0x33], digestmod = SHA\<rparr>, stream_mac = [0x6A]\<rparr>)]
      = Inr ([[0x01, 0x02], [0x10, 0x13, 0x7B]], ctx', [])
    \<and> sequence ctx' = 2 \<and> nonce ctx' = 0"
proof -
  let ?S = "example_session 0x0005 0x0301"
  obtain sp where sp: "sec_params ?S = Some sp" "cipher_type sp = ARC4"
    "cipher_mode_name sp = STREAM"
    using example_session_RC4 by blast
  show ?thesis
    by (simp add: CryptoContextFactory_new_def StreamCryptoContext_init_def sp
          TLSContext_init_def CryptoContext_decrypt_def StreamCryptoContext_decrypt_def
          CryptoContext_encrypt_def StreamCryptoContext_encrypt_def cipher_decrypt_def
          cipher_encrypt_def cipher_new_def processed_def StreamCryptoContainer_str_def
          CryptoData_init_def example_lib_simps example_xor_def)
qed

end
